theory Spec2Isabelle
  imports Complex_Main
begin

section \<open>Conventions\<close>

text \<open>
  A shallow embedding of the BASTION risk engine (\<^verbatim>\<open>src/core/risk_engine.py\<close>,
  \<^verbatim>\<open>src/core/engine.py\<close>, \<^verbatim>\<open>src/core/guarding_line.py\<close>,
  \<^verbatim>\<open>src/api/session_routes.py\<close>).

  Python floats are modelled as exact reals: rounding and NaN are outside the model.
  Python exceptions are values of \<open>py_error\<close>; a function that can raise returns
  \<open>py_error + 'a\<close>. Direction is the Python string itself, compared with
  \<open>''long''\<close> and \<open>''short''\<close> exactly where the source compares it.
  Messages built with f-strings from floats are modelled as constructors carrying the
  interpolated numbers.
\<close>

datatype py_error = ZeroDivisionError | IndexError | ValueError | LinAlgError

subsection \<open>Python and numpy helpers\<close>

text \<open>\<^verbatim>\<open>min(xs)\<close> and \<^verbatim>\<open>max(xs)\<close> on a non-empty list. Python raises on the
  empty list; every call below is guarded by a non-emptiness test, as in the source.\<close>

fun py_min :: "real list \<Rightarrow> real" where
  "py_min [] = 0"
| "py_min (x # xs) = fold min xs x"

fun py_max :: "real list \<Rightarrow> real" where
  "py_max [] = 0"
| "py_max (x # xs) = fold max xs x"

text \<open>\<^verbatim>\<open>xs[-n:]\<close> for \<open>n \<ge> 0\<close>: the last \<open>n\<close> elements, and the whole list for
  \<open>n = 0\<close> (because \<^verbatim>\<open>-0 == 0\<close>).\<close>

definition py_last_n :: "nat \<Rightarrow> 'a list \<Rightarrow> 'a list" where
  "py_last_n n xs = (if n = 0 then xs else drop (length xs - n) xs)"

definition np_mean :: "real list \<Rightarrow> real" where
  "np_mean xs = sum_list xs / real (length xs)"

text \<open>\<^verbatim>\<open>np.arange(n)\<close> as floats.\<close>

definition np_arange :: "nat \<Rightarrow> real list" where
  "np_arange n = map real [0..<n]"

text \<open>\<^verbatim>\<open>np.polyfit(x, y, 1)\<close>: the least-squares line, returned as (slope, intercept).
  The normal equations are solved exactly. With fewer than two distinct abscissae the system
  is rank deficient; that case is an error value here.\<close>

definition np_polyfit1 :: "real list \<Rightarrow> real list \<Rightarrow> py_error + (real \<times> real)" where
  "np_polyfit1 xs ys =
     (let n = real (length xs);
          sx = sum_list xs;
          sy = sum_list ys;
          sxx = sum_list (map (\<lambda>x. x * x) xs);
          sxy = sum_list (map (\<lambda>(x, y). x * y) (zip xs ys));
          d = n * sxx - sx * sx
      in if d = 0 then Inl LinAlgError
         else Inr ((n * sxy - sx * sy) / d, (sy * sxx - sx * sxy) / d))"

section \<open>Guarding line\<close>

text \<open>The parameter dictionary returned by \<^verbatim>\<open>calculate_initial_line\<close>. The keys
  \<^verbatim>\<open>activation_bar\<close> and \<^verbatim>\<open>base_level\<close> are optional: the first is read with
  \<^verbatim>\<open>.get\<close> and a default, the second is absent from the short-data fallback and from
  the legacy class.\<close>

record line_params =
  slope :: real
  intercept :: real
  activation_bar :: "int option"
  buffer_pct :: real
  slope_source :: "string option"
  base_level :: "real option"

text \<open>\<^verbatim>\<open>_find_swing_points\<close>: fractal swing lows (long) or swing highs (otherwise).
  The same loop in both classes; the manager's early return for fewer than five prices
  coincides with the empty range.\<close>

definition is_swing :: "string \<Rightarrow> real list \<Rightarrow> nat \<Rightarrow> bool" where
  "is_swing direction prices i =
     (if direction = ''long''
      then prices ! i < prices ! (i - 1) \<and> prices ! i < prices ! (i - 2) \<and>
           prices ! i < prices ! (i + 1) \<and> prices ! i < prices ! (i + 2)
      else prices ! i > prices ! (i - 1) \<and> prices ! i > prices ! (i - 2) \<and>
           prices ! i > prices ! (i + 1) \<and> prices ! i > prices ! (i + 2))"

definition find_swing_points :: "real list \<Rightarrow> string \<Rightarrow> (nat \<times> real) list" where
  "find_swing_points prices direction =
     (if length prices < 5 then []
      else map (\<lambda>i. (i, prices ! i))
             (filter (is_swing direction prices) [2..<length prices - 2]))"

subsection \<open>\<^verbatim>\<open>GuardingLineManager\<close> (risk\_engine.py)\<close>

record guarding_manager =
  gm_activation_bars :: int
  gm_buffer_pct :: real
  gm_min_slope_pct :: real
  gm_max_slope_pct :: real

text \<open>The constructor: \<^verbatim>\<open>min_slope_pct = 0.05\<close>, \<^verbatim>\<open>max_slope_pct = 0.5\<close>.\<close>

definition GuardingLineManager :: "int \<Rightarrow> real \<Rightarrow> guarding_manager" where
  "GuardingLineManager activation_bars buf =
     \<lparr>gm_activation_bars = activation_bars, gm_buffer_pct = buf,
      gm_min_slope_pct = 0.05, gm_max_slope_pct = 0.5\<rparr>"

text \<open>The raw slope: regression through the swing points when there are at least two,
  else through all recent prices.\<close>

definition gm_raw_slope :: "real list \<Rightarrow> string \<Rightarrow> py_error + (real \<times> string)" where
  "gm_raw_slope recent direction =
     (let swing_points = find_swing_points recent direction
      in if length swing_points \<ge> 2
         then (case np_polyfit1 (map (\<lambda>p. real (fst p)) swing_points) (map snd swing_points) of
                 Inl e \<Rightarrow> Inl e
               | Inr (s, _) \<Rightarrow> Inr (s, ''swing_regression''))
         else (case np_polyfit1 (np_arange (length recent)) recent of
                 Inl e \<Rightarrow> Inl e
               | Inr (s, _) \<Rightarrow> Inr (s, ''linear_regression'')))"

text \<open>The direction clamp, minimum slope and maximum cap applied to the raw slope.\<close>

definition gm_clamp_slope :: "guarding_manager \<Rightarrow> real \<Rightarrow> string \<Rightarrow> real \<Rightarrow> real" where
  "gm_clamp_slope gm entry_price direction raw =
     (let s1 = (if direction = ''long''
                then max (max 0 raw) (entry_price * (gm_min_slope_pct gm / 100))
                else min (min 0 raw) (- entry_price * (gm_min_slope_pct gm / 100)));
          max_slope = entry_price * (gm_max_slope_pct gm / 100)
      in max (- max_slope) (min max_slope s1))"

definition gm_calculate_initial_line ::
  "guarding_manager \<Rightarrow> real \<Rightarrow> string \<Rightarrow> real list \<Rightarrow> nat \<Rightarrow> py_error + line_params" where
  "gm_calculate_initial_line gm entry_price direction price_data lookback =
     (if length price_data < 5
      then (let default_slope = entry_price * (gm_min_slope_pct gm / 100)
            in Inr \<lparr>slope = (if direction = ''long'' then default_slope else - default_slope),
                    intercept = entry_price * (if direction = ''long'' then 0.97 else 1.03),
                    activation_bar = Some (gm_activation_bars gm),
                    buffer_pct = gm_buffer_pct gm,
                    slope_source = Some ''default'',
                    base_level = None\<rparr>)
      else (let recent = take (min lookback (length price_data)) price_data
            in case gm_raw_slope recent direction of
                 Inl e \<Rightarrow> Inl e
               | Inr (raw, src) \<Rightarrow>
                   (let sl = gm_clamp_slope gm entry_price direction raw;
                        base_intercept =
                          (if direction = ''long''
                           then (if recent \<noteq> [] then py_min recent else entry_price * 0.97)
                           else (if recent \<noteq> [] then py_max recent else entry_price * 1.03));
                        icpt =
                          (if direction = ''long''
                           then base_intercept * (1 - gm_buffer_pct gm / 100)
                           else base_intercept * (1 + gm_buffer_pct gm / 100))
                    in Inr \<lparr>slope = sl, intercept = icpt,
                            activation_bar = Some (gm_activation_bars gm),
                            buffer_pct = gm_buffer_pct gm,
                            slope_source = Some src,
                            base_level = Some base_intercept\<rparr>)))"

text \<open>\<^verbatim>\<open>get_current_level\<close>, identical in both classes; the first argument is the
  instance's \<^verbatim>\<open>activation_bars\<close>, the default of the \<^verbatim>\<open>.get\<close>.\<close>

definition get_current_level :: "int \<Rightarrow> line_params \<Rightarrow> int \<Rightarrow> real" where
  "get_current_level self_activation_bars lp bars_since_entry =
     (let activation = (case activation_bar lp of Some a \<Rightarrow> a | None \<Rightarrow> self_activation_bars)
      in if bars_since_entry < activation
         then (if slope lp \<ge> 0 then intercept lp * 0.9 else intercept lp * 1.1)
         else intercept lp + slope lp * real_of_int (bars_since_entry - activation))"

datatype break_reason = BrokeBelow real real | BrokeAbove real real

text \<open>\<^verbatim>\<open>GuardingLineManager.check_break\<close>: the empty reason string is \<open>None\<close>.\<close>

definition gm_check_break :: "real \<Rightarrow> real \<Rightarrow> string \<Rightarrow> bool \<times> break_reason option" where
  "gm_check_break current_price guarding_level direction =
     (if direction = ''long'' \<and> current_price < guarding_level
      then (True, Some (BrokeBelow current_price guarding_level))
      else if direction = ''short'' \<and> current_price > guarding_level
      then (True, Some (BrokeAbove current_price guarding_level))
      else (False, None))"

subsection \<open>\<^verbatim>\<open>GuardingLine\<close> (guarding\_line.py)\<close>

record guarding_line_cfg =
  gl_activation_bars :: int
  gl_buffer_pct :: real
  gl_min_slope_pct :: real
  gl_tightening_factor :: real

definition GuardingLine :: "int \<Rightarrow> real \<Rightarrow> guarding_line_cfg" where
  "GuardingLine activation_bars buf =
     \<lparr>gl_activation_bars = activation_bars, gl_buffer_pct = buf,
      gl_min_slope_pct = 0.01, gl_tightening_factor = 1.2\<rparr>"

definition gl_calculate_initial_line ::
  "guarding_line_cfg \<Rightarrow> real \<Rightarrow> string \<Rightarrow> real list \<Rightarrow> nat \<Rightarrow> py_error + line_params" where
  "gl_calculate_initial_line gl entry_price direction price_data lookback =
     (if length price_data < 5
      then Inr \<lparr>slope = 0,
                intercept = entry_price * (if direction = ''long'' then 0.97 else 1.03),
                activation_bar = Some (gl_activation_bars gl),
                buffer_pct = gl_buffer_pct gl,
                slope_source = None, base_level = None\<rparr>
      else (let recent = take (min lookback (length price_data)) price_data;
                swing_points = find_swing_points recent direction;
                fit = (if length swing_points < 2
                       then np_polyfit1 (np_arange (length recent)) recent
                       else np_polyfit1 (map (\<lambda>p. real (fst p)) swing_points)
                                        (map snd swing_points))
            in case fit of
                 Inl e \<Rightarrow> Inl e
               | Inr (s, i) \<Rightarrow>
                   Inr \<lparr>slope = (if direction = ''long'' then max 0 s else min 0 s),
                        intercept = (if direction = ''long''
                                     then i * (1 - gl_buffer_pct gl / 100)
                                     else i * (1 + gl_buffer_pct gl / 100)),
                        activation_bar = Some (gl_activation_bars gl),
                        buffer_pct = gl_buffer_pct gl,
                        slope_source = None, base_level = None\<rparr>))"

text \<open>\<^verbatim>\<open>GuardingLine.check_break\<close>: every direction other than \<open>''long''\<close> is
  treated as short.\<close>

definition gl_check_break :: "real \<Rightarrow> real \<Rightarrow> string \<Rightarrow> bool \<times> break_reason option" where
  "gl_check_break current_price guarding_level direction =
     (if direction = ''long''
      then (if current_price < guarding_level
            then (True, Some (BrokeBelow current_price guarding_level))
            else (False, None))
      else (if current_price > guarding_level
            then (True, Some (BrokeAbove current_price guarding_level))
            else (False, None)))"

section \<open>Momentum trailing take-profit\<close>

record MomentumState =
  active :: bool
  trailing_level :: real
  ms_slope :: real
  slope_strength :: real
  bars_in_momentum :: nat
  peak_price :: real
  trail_buffer_pct :: real
  last_candle_body_high :: real
  last_candle_body_low :: real
  activation_r :: real

text \<open>\<^verbatim>\<open>MomentumState()\<close>: the dataclass defaults.\<close>

definition MomentumState0 :: MomentumState where
  "MomentumState0 =
     \<lparr>active = False, trailing_level = 0, ms_slope = 0, slope_strength = 0,
      bars_in_momentum = 0, peak_price = 0, trail_buffer_pct = 0,
      last_candle_body_high = 0, last_candle_body_low = 0, activation_r = 0\<rparr>"

text \<open>The attributes of a \<^verbatim>\<open>MomentumTrailingTP\<close> instance. \<open>slope_lookback\<close> is a
  natural number: the engine passes 5.\<close>

record momentum_tp =
  min_r_to_activate :: real
  min_slope_to_activate :: real
  base_buffer_pct :: real
  min_buffer_pct :: real
  max_buffer_pct :: real
  slope_lookback :: nat
  trail_wicks :: bool
  body_buffer_pct :: real

text \<open>The instance built in \<^verbatim>\<open>RiskEngine.__init__\<close>.\<close>

definition engine_momentum_tp :: momentum_tp where
  "engine_momentum_tp =
     \<lparr>min_r_to_activate = 1.0, min_slope_to_activate = 0.002, base_buffer_pct = 0.5,
      min_buffer_pct = 0.15, max_buffer_pct = 1.5, slope_lookback = 5,
      trail_wicks = False, body_buffer_pct = 0.1\<rparr>"

record candle =
  c_open :: real
  c_high :: real
  c_low :: real
  c_close :: real

text \<open>Exit reasons of \<^verbatim>\<open>update_position\<close>, one constructor per message.
  \<open>MomentumTrailBroken level captured\<close> is the momentum message,
  \<open>TargetHit reason\<close> is \<^verbatim>\<open>f"Target hit: {target['reason']}"\<close>.\<close>

datatype exit_reason =
    MomentumTrailBroken real real
  | DivergenceWeakening string
  | TargetHit string
  | GuardingBroken break_reason
  | StructureBroken

definition calculate_slope :: "momentum_tp \<Rightarrow> real list \<Rightarrow> string \<Rightarrow> py_error + (real \<times> real)" where
  "calculate_slope tp closes direction =
     (if length closes < 3 then Inr (0, 0)
      else
        (let recent = (if length closes \<ge> slope_lookback tp
                       then py_last_n (slope_lookback tp) closes else closes);
             x = np_arange (length recent)
         in if length x < 2 then Inr (0, 0)
            else
              (case np_polyfit1 x recent of
                 Inl e \<Rightarrow> Inl e
               | Inr (sl, icpt) \<Rightarrow>
                   (let avg_price = np_mean recent;
                        slope_pct = (if avg_price > 0 then (sl / avg_price) * 100 else 0);
                        y_pred = map (\<lambda>xi. sl * xi + icpt) x;
                        ss_res = sum_list (map (\<lambda>(y, yp). (y - yp)\<^sup>2) (zip recent y_pred));
                        ss_tot = sum_list (map (\<lambda>y. (y - np_mean recent)\<^sup>2) recent);
                        r_squared0 = (if ss_tot > 0 then 1 - ss_res / ss_tot else 0);
                        r_squared = max 0 (min 1 r_squared0);
                        slope_magnitude = \<bar>slope_pct\<bar> / 1.0;
                        strength0 = min 1.0 (slope_magnitude * r_squared);
                        strength =
                          (if direction = ''long'' \<and> sl < 0 then strength0 * 0.3
                           else if direction = ''short'' \<and> sl > 0 then strength0 * 0.3
                           else strength0)
                    in Inr (slope_pct, strength)))))"

definition calculate_trail_buffer :: "momentum_tp \<Rightarrow> real \<Rightarrow> real" where
  "calculate_trail_buffer tp strength =
     (let buffer_range = max_buffer_pct tp - min_buffer_pct tp;
          buffer = max_buffer_pct tp - strength * buffer_range
      in max (min_buffer_pct tp) (min (max_buffer_pct tp) buffer))"

definition calculate_trail_level ::
  "momentum_tp \<Rightarrow> real \<Rightarrow> string \<Rightarrow> candle list \<Rightarrow> real \<Rightarrow> real" where
  "calculate_trail_level tp current_price direction recent_candles buffer =
     (if recent_candles = []
      then (if direction = ''long'' then current_price * (1 - buffer / 100)
            else current_price * (1 + buffer / 100))
      else
        (let lookback = min 3 (length recent_candles);
             recent = py_last_n lookback recent_candles
         in if direction = ''long''
            then (let reference_price =
                        (if trail_wicks tp then py_min (map c_low recent)
                         else py_min (map (\<lambda>c. min (c_open c) (c_close c)) recent));
                      trail_level = reference_price * (1 - body_buffer_pct tp / 100);
                      max_trail = current_price * (1 - min_buffer_pct tp / 100)
                  in min trail_level max_trail)
            else (let reference_price =
                        (if trail_wicks tp then py_max (map c_high recent)
                         else py_max (map (\<lambda>c. max (c_open c) (c_close c)) recent));
                      trail_level = reference_price * (1 + body_buffer_pct tp / 100);
                      min_trail = current_price * (1 + min_buffer_pct tp / 100)
                  in max trail_level min_trail)))"

text \<open>\<^verbatim>\<open>MomentumTrailingTP.update\<close>. The source mutates \<open>state\<close> in place and returns
  it; the model returns the new state. The result is (state, should\_exit, exit\_reason).\<close>

definition momentum_update ::
  "momentum_tp \<Rightarrow> MomentumState \<Rightarrow> real \<Rightarrow> real \<Rightarrow> string \<Rightarrow> real list \<Rightarrow> candle list
     \<Rightarrow> py_error + (MomentumState \<times> bool \<times> exit_reason option)" where
  "momentum_update tp state current_price current_r direction recent_closes recent_candles =
     (if \<not> active state
      then
        (if current_r \<ge> min_r_to_activate tp
         then
           (case calculate_slope tp recent_closes direction of
              Inl e \<Rightarrow> Inl e
            | Inr (slope_pct, strength) \<Rightarrow>
                (if \<bar>slope_pct\<bar> \<ge> min_slope_to_activate tp \<and> strength \<ge> 0.3
                 then
                   (let buf = calculate_trail_buffer tp strength
                    in Inr (state\<lparr>active := True,
                                  activation_r := current_r,
                                  ms_slope := slope_pct,
                                  slope_strength := strength,
                                  peak_price := current_price,
                                  bars_in_momentum := 0,
                                  trail_buffer_pct := buf,
                                  trailing_level :=
                                    calculate_trail_level tp current_price direction
                                      recent_candles buf\<rparr>,
                            False, None))
                 else Inr (state, False, None)))
         else Inr (state, False, None))
      else
        (case calculate_slope tp recent_closes direction of
           Inl e \<Rightarrow> Inl e
         | Inr (slope_pct, strength) \<Rightarrow>
             (let buf = calculate_trail_buffer tp strength;
                  peak = (if direction = ''long'' then max (peak_price state) current_price
                          else min (peak_price state) current_price);
                  new_trail = calculate_trail_level tp current_price direction recent_candles buf;
                  level = (if direction = ''long''
                           then (if new_trail > trailing_level state then new_trail
                                 else trailing_level state)
                           else (if new_trail < trailing_level state then new_trail
                                 else trailing_level state));
                  s1 = state\<lparr>bars_in_momentum := bars_in_momentum state + 1,
                             ms_slope := slope_pct,
                             slope_strength := strength,
                             trail_buffer_pct := buf,
                             peak_price := peak,
                             trailing_level := level\<rparr>;
                  s2 = (if recent_candles \<noteq> []
                        then (let l = last recent_candles
                              in s1\<lparr>last_candle_body_high := max (c_open l) (c_close l),
                                    last_candle_body_low := min (c_open l) (c_close l)\<rparr>)
                        else s1);
                  profit_captured = (if activation_r s2 \<noteq> 0 then current_r - activation_r s2
                                     else current_r)
              in if direction = ''long'' \<and> current_price < trailing_level s2
                 then Inr (s2, True, Some (MomentumTrailBroken (trailing_level s2) profit_captured))
                 else if direction = ''short'' \<and> current_price > trailing_level s2
                 then Inr (s2, True, Some (MomentumTrailBroken (trailing_level s2) profit_captured))
                 else Inr (s2, False, None))))"

text \<open>Five rising candles and an active state, used as a concrete input below.\<close>

definition example_candles :: "candle list" where
  "example_candles =
     [\<lparr>c_open = 99, c_high = 100.5, c_low = 98.5, c_close = 100\<rparr>,
      \<lparr>c_open = 100, c_high = 101.5, c_low = 99.5, c_close = 101\<rparr>,
      \<lparr>c_open = 101, c_high = 102.5, c_low = 100.5, c_close = 102\<rparr>,
      \<lparr>c_open = 102, c_high = 103.5, c_low = 101.5, c_close = 103\<rparr>,
      \<lparr>c_open = 103, c_high = 104.5, c_low = 102.5, c_close = 104\<rparr>]"

definition example_active_state :: MomentumState where
  "example_active_state =
     \<lparr>active = True, trailing_level = 102, ms_slope = 1, slope_strength = 0.9,
      bars_in_momentum = 2, peak_price = 104, trail_buffer_pct = 0.3,
      last_candle_body_high = 104, last_candle_body_low = 103, activation_r = 1\<rparr>"

section \<open>Risk engine (risk\_engine.py)\<close>

subsection \<open>Configuration and data\<close>

text \<open>\<^verbatim>\<open>RiskEngineConfig\<close>: the fields read by the functions modelled here. The switches of
  the external detectors and the staleness settings are left out. Bar counts are natural
  numbers. \<^verbatim>\<open>engine.py\<close> has a configuration class of the same name whose fields
  (\<open>atr_stop_multiplier\<close>, \<open>max_stop_pct\<close>, \<open>enable_multi_tier_stops\<close>, \<open>min_rr_ratio\<close>,
  \<open>partial_exit_ratios\<close>, \<open>volatility_adjusted_sizing\<close>) carry the same defaults; it is
  modelled by the same record.\<close>

record RiskEngineConfig =
  atr_stop_multiplier :: real
  max_stop_pct :: real
  enable_multi_tier_stops :: bool
  min_rr_ratio :: real
  partial_exit_ratios :: "real list"
  volatility_adjusted_sizing :: bool
  guarding_activation_bars :: int
  guarding_buffer_pct :: real
  enable_dynamic_targets :: bool
  enable_breakeven_stop :: bool
  breakeven_trigger_r :: real
  breakeven_buffer_pct :: real
  enable_volatility_regime :: bool
  volatility_lookback :: nat
  low_vol_threshold :: real
  high_vol_threshold :: real
  extreme_vol_threshold :: real
  extreme_vol_size_reduction :: real
  enable_divergence_detection :: bool
  divergence_lookback :: nat
  rsi_period :: nat

definition default_config :: RiskEngineConfig where
  "default_config =
     \<lparr>atr_stop_multiplier = 2.0, max_stop_pct = 5.0, enable_multi_tier_stops = True,
      min_rr_ratio = 2.0, partial_exit_ratios = [0.33, 0.33, 0.34],
      volatility_adjusted_sizing = True,
      guarding_activation_bars = 10, guarding_buffer_pct = 0.3,
      enable_dynamic_targets = True,
      enable_breakeven_stop = True, breakeven_trigger_r = 1.0, breakeven_buffer_pct = 0.1,
      enable_volatility_regime = True, volatility_lookback = 100,
      low_vol_threshold = 0.5, high_vol_threshold = 1.5, extreme_vol_threshold = 2.5,
      extreme_vol_size_reduction = 0.5,
      enable_divergence_detection = True, divergence_lookback = 20, rsi_period = 14\<rparr>"

text \<open>A \<^verbatim>\<open>RiskEngine\<close> instance: its configuration and the two helpers built by
  \<^verbatim>\<open>__init__\<close>. The mutable map \<^verbatim>\<open>_momentum_states\<close> is passed and returned
  explicitly.\<close>

record RiskEngine =
  config :: RiskEngineConfig
  guarding_mgr :: guarding_manager
  momentum_tp_of :: momentum_tp

definition new_RiskEngine :: "RiskEngineConfig \<Rightarrow> RiskEngine" where
  "new_RiskEngine cfg =
     \<lparr>config = cfg,
      guarding_mgr = GuardingLineManager (guarding_activation_bars cfg) (guarding_buffer_pct cfg),
      momentum_tp_of = engine_momentum_tp\<rparr>"

type_synonym momentum_states = "string \<rightharpoonup> MomentumState"

datatype stop_reason =
    BelowSupport real
  | AboveResistance real
  | AtrStop real
  | SecondaryStop
  | MaxLossProtection real
  | BreakevenProtection

text \<open>A stop dictionary. \<open>s_type\<close> is the \<^verbatim>\<open>'type'\<close> string; \<open>s_distance_pct\<close> is optional
  because \<^verbatim>\<open>_trail_stop\<close> reads it with \<^verbatim>\<open>.get('distance_pct', 2.0)\<close>.\<close>

record stop_level =
  s_price :: real
  s_type :: string
  s_reason :: stop_reason
  s_confidence :: real
  s_distance_pct :: "real option"

text \<open>A target dictionary; \<open>t_exit_percentage\<close> is read with
  \<^verbatim>\<open>.get('exit_percentage', 100)\<close>.\<close>

record target_level =
  t_price :: real
  t_type :: string
  t_reason :: string
  t_exit_percentage :: "real option"
  t_distance_pct :: real
  t_confidence :: real

text \<open>\<^verbatim>\<open>RiskLevels\<close>, fields prefixed with \<open>rl_\<close>. The analysis objects of the external
  detectors and the timestamp are left out; nothing modelled here reads or writes them.\<close>

record RiskLevels =
  rl_stops :: "stop_level list"
  rl_targets :: "target_level list"
  rl_position_size :: real
  rl_position_size_pct :: real
  rl_risk_amount :: real
  rl_risk_reward_ratio :: real
  rl_max_risk_reward_ratio :: real
  rl_entry_price :: real
  rl_direction :: string
  rl_timeframe :: string
  rl_symbol :: string
  rl_current_price :: real
  rl_guarding_line :: "line_params option"
  rl_entry_blocked :: bool
  rl_volatility_regime :: string
  rl_atr_current :: real
  rl_atr_pct :: real
  rl_breakeven_price :: real
  rl_one_r_price :: real

text \<open>\<^verbatim>\<open>PositionUpdate\<close>, fields prefixed with \<open>pu_\<close>.\<close>

record PositionUpdate =
  pu_current_price :: real
  pu_bars_since_entry :: int
  pu_highest_since_entry :: real
  pu_lowest_since_entry :: real
  pu_unrealized_pnl_pct :: real
  pu_recent_lows :: "real list option"
  pu_recent_highs :: "real list option"

datatype StructureHealth = STRONG | WEAKENING | BROKEN

datatype stop_move_reason = MovedToBreakeven real | TrailingAdjustment

datatype alert =
    AlertBreakeven real real
  | AlertMomentumActivated real real real
  | AlertTrailingAt real real
  | AlertMomentumExit exit_reason
  | AlertDivergence string
  | AlertTargetHit real
  | AlertGuardingBroken break_reason
  | AlertStructureBroken

record RiskUpdate =
  updated_stops :: "stop_level list"
  updated_targets :: "target_level list"
  exit_signal :: bool
  exit_reason :: "exit_reason option"
  exit_percentage :: real
  stop_moved :: bool
  new_stop_price :: "real option"
  stop_move_reason :: "stop_move_reason option"
  guarding_active :: bool
  guarding_broken :: bool
  guarding_level :: "real option"
  structure_health :: StructureHealth
  breakeven_hit :: bool
  moved_to_breakeven :: bool
  current_r_multiple :: real
  new_target_added :: bool
  new_target_price :: "real option"
  divergence_detected :: bool
  divergence_type :: "string option"
  momentum_trailing_active :: bool
  momentum_trailing_level :: real
  momentum_slope_strength :: real
  momentum_buffer_pct :: real
  alerts :: "alert list"

text \<open>\<^verbatim>\<open>RiskUpdate(updated_stops=list(levels.stops), updated_targets=list(levels.targets))\<close>
  with the dataclass defaults.\<close>

definition new_RiskUpdate :: "stop_level list \<Rightarrow> target_level list \<Rightarrow> RiskUpdate" where
  "new_RiskUpdate ss ts =
     \<lparr>updated_stops = ss, updated_targets = ts,
      exit_signal = False, exit_reason = None, exit_percentage = 0,
      stop_moved = False, new_stop_price = None, stop_move_reason = None,
      guarding_active = False, guarding_broken = False, guarding_level = None,
      structure_health = STRONG,
      breakeven_hit = False, moved_to_breakeven = False, current_r_multiple = 0,
      new_target_added = False, new_target_price = None,
      divergence_detected = False, divergence_type = None,
      momentum_trailing_active = False, momentum_trailing_level = 0,
      momentum_slope_strength = 0, momentum_buffer_pct = 0,
      alerts = []\<rparr>"

subsection \<open>Helpers of \<^verbatim>\<open>update_position\<close>\<close>

definition calculate_breakeven_price :: "RiskEngineConfig \<Rightarrow> real \<Rightarrow> string \<Rightarrow> real" where
  "calculate_breakeven_price cfg entry direction =
     (let buffer = entry * (breakeven_buffer_pct cfg / 100)
      in if direction = ''long'' then entry + buffer else entry - buffer)"

definition is_better_stop :: "real \<Rightarrow> real \<Rightarrow> string \<Rightarrow> bool" where
  "is_better_stop new_stop current_stop direction =
     (if direction = ''long'' then new_stop > current_stop else new_stop < current_stop)"

text \<open>\<^verbatim>\<open>np.diff\<close>.\<close>

fun np_diff :: "real list \<Rightarrow> real list" where
  "np_diff (a # b # xs) = (b - a) # np_diff (b # xs)"
| "np_diff _ = []"

text \<open>\<^verbatim>\<open>_detect_divergence\<close> on the candles of the frame. With fewer than two closes in
  the window the first half is empty and \<^verbatim>\<open>np.max\<close> raises \<^verbatim>\<open>ValueError\<close>.\<close>

definition detect_divergence ::
  "RiskEngineConfig \<Rightarrow> candle list \<Rightarrow> string \<Rightarrow> py_error + (bool \<times> string option)" where
  "detect_divergence cfg ohlcv direction =
     (if \<not> enable_divergence_detection cfg then Inr (False, None)
      else if length ohlcv < divergence_lookback cfg then Inr (False, None)
      else
        (let close = py_last_n (divergence_lookback cfg) (map c_close ohlcv);
             delta = np_diff close;
             gains = map (\<lambda>d. if d > 0 then d else 0) delta;
             losses = map (\<lambda>d. if d < 0 then - d else 0) delta;
             avg_gain = np_mean (py_last_n (rsi_period cfg) gains);
             avg_loss = np_mean (py_last_n (rsi_period cfg) losses);
             rsi = (if avg_loss = 0 then 100 else 100 - 100 / (1 + avg_gain / avg_loss));
             mid = length close div 2
         in if length close < 2 then Inl ValueError
            else
              (let first_half_high = py_max (take mid close);
                   second_half_high = py_max (drop mid close);
                   first_half_low = py_min (take mid close);
                   second_half_low = py_min (drop mid close)
               in if direction = ''long''
                  then (if second_half_high > first_half_high \<and> rsi < 50
                        then Inr (True, Some ''bearish'') else Inr (False, None))
                  else (if second_half_low < first_half_low \<and> rsi > 50
                        then Inr (True, Some ''bullish'') else Inr (False, None)))))"

text \<open>\<^verbatim>\<open>_trail_stop\<close>; the division by \<open>entry\<close> raises for \<open>entry = 0\<close>.\<close>

definition trail_stop ::
  "string \<Rightarrow> real \<Rightarrow> real \<Rightarrow> stop_level list \<Rightarrow> py_error + real option" where
  "trail_stop direction entry current ss =
     (case ss of
        [] \<Rightarrow> Inr None
      | primary # _ \<Rightarrow>
          (let primary_distance = (case s_distance_pct primary of Some d \<Rightarrow> d | None \<Rightarrow> 2.0)
           in if entry = 0 then Inl ZeroDivisionError
              else if direction = ''long''
              then (let profit_pct = (current - entry) / entry * 100
                    in if profit_pct \<ge> primary_distance \<and> entry * 1.001 > s_price primary
                       then Inr (Some (entry * 1.001)) else Inr None)
              else (let profit_pct = (entry - current) / entry * 100
                    in if profit_pct \<ge> primary_distance \<and> entry * 0.999 < s_price primary
                       then Inr (Some (entry * 0.999)) else Inr None)))"

text \<open>\<^verbatim>\<open>_check_structure_health\<close>; the division by \<open>current\<close> raises for
  \<open>current = 0\<close> when it is reached.\<close>

definition check_structure_health ::
  "string \<Rightarrow> real \<Rightarrow> real list \<Rightarrow> real list \<Rightarrow> py_error + StructureHealth" where
  "check_structure_health direction current recent_lows recent_highs =
     (if length recent_lows < 3 \<or> length recent_highs < 3 then Inr STRONG
      else if direction = ''long''
      then (if recent_lows ! 0 < recent_lows ! 1 \<and> recent_lows ! 1 < recent_lows ! 2
            then Inr WEAKENING
            else if current = 0 then Inl ZeroDivisionError
            else if (py_max (py_last_n 10 recent_highs) - current) / current > 0.03
            then Inr BROKEN
            else Inr STRONG)
      else (if recent_highs ! 0 > recent_highs ! 1 \<and> recent_highs ! 1 > recent_highs ! 2
            then Inr WEAKENING
            else if current = 0 then Inl ZeroDivisionError
            else if (current - py_min (py_last_n 10 recent_lows)) / current > 0.03
            then Inr BROKEN
            else Inr STRONG))"

subsection \<open>The steps of \<^verbatim>\<open>update_position\<close>, in source order\<close>

text \<open>\<^verbatim>\<open>momentum_key = session_id or levels.symbol\<close>: \<open>None\<close> and the empty string are
  falsy.\<close>

definition momentum_key :: "string option \<Rightarrow> string \<Rightarrow> string" where
  "momentum_key session_id symbol =
     (case session_id of None \<Rightarrow> symbol | Some s \<Rightarrow> if s = [] then symbol else s)"

text \<open>The R-multiple block.\<close>

definition compute_r_multiple :: "RiskLevels \<Rightarrow> real \<Rightarrow> real" where
  "compute_r_multiple levels current =
     (case rl_stops levels of
        [] \<Rightarrow> 0
      | s # _ \<Rightarrow>
          (let risk_distance = \<bar>rl_entry_price levels - s_price s\<bar>
           in if risk_distance > 0
              then (if rl_direction levels = ''long''
                    then current - rl_entry_price levels
                    else rl_entry_price levels - current) / risk_distance
              else 0))"

text \<open>\<^verbatim>\<open>levels.breakeven_price or self._calculate_breakeven_price(entry, direction)\<close>.\<close>

definition breakeven_target :: "RiskEngineConfig \<Rightarrow> RiskLevels \<Rightarrow> real" where
  "breakeven_target cfg levels =
     (if rl_breakeven_price levels \<noteq> 0 then rl_breakeven_price levels
      else calculate_breakeven_price cfg (rl_entry_price levels) (rl_direction levels))"

text \<open>The in-place rewrite of \<^verbatim>\<open>levels.stops[0]\<close>.\<close>

definition stop_to_breakeven :: "real \<Rightarrow> stop_level \<Rightarrow> stop_level" where
  "stop_to_breakeven bp s =
     s\<lparr>s_price := bp, s_reason := BreakevenProtection, s_type := ''breakeven''\<rparr>"

text \<open>The breakeven block. \<^verbatim>\<open>result.updated_stops\<close> is a shallow copy of
  \<^verbatim>\<open>levels.stops\<close>: both lists hold the same dictionaries, so the rewrite of the first
  stop shows in both.\<close>

definition step_breakeven ::
  "RiskEngineConfig \<Rightarrow> RiskUpdate \<Rightarrow> RiskLevels \<Rightarrow> RiskUpdate \<times> RiskLevels" where
  "step_breakeven cfg res levels =
     (if enable_breakeven_stop cfg \<and> current_r_multiple res \<ge> breakeven_trigger_r cfg
      then
        (let res1 = res\<lparr>breakeven_hit := True\<rparr>;
             bp = breakeven_target cfg levels
         in case rl_stops levels of
              [] \<Rightarrow> (res1, levels)
            | s # rest \<Rightarrow>
                if s_price s \<noteq> 0 \<and> is_better_stop bp (s_price s) (rl_direction levels)
                then (res1\<lparr>stop_moved := True,
                            moved_to_breakeven := True,
                            new_stop_price := Some bp,
                            stop_move_reason := Some (MovedToBreakeven (current_r_multiple res)),
                            alerts := alerts res1 @ [AlertBreakeven bp (current_r_multiple res)],
                            updated_stops := stop_to_breakeven bp s # rest\<rparr>,
                      levels\<lparr>rl_stops := stop_to_breakeven bp s # rest\<rparr>)
                else (res1, levels))
      else (res, levels))"

text \<open>The momentum block. \<^verbatim>\<open>momentum_state\<close> and \<^verbatim>\<open>updated_state\<close> are the same
  object, so the test \<^verbatim>\<open>not momentum_state.active\<close> inside
  \<^verbatim>\<open>if updated_state.active\<close> reads the updated flag.\<close>

definition step_momentum ::
  "RiskEngine \<Rightarrow> RiskUpdate \<Rightarrow> RiskLevels \<Rightarrow> momentum_states \<Rightarrow> candle list option \<Rightarrow> string
     \<Rightarrow> real \<Rightarrow> (py_error + RiskUpdate) \<times> momentum_states" where
  "step_momentum eng res levels states ohlcv key current =
     (case ohlcv of
        None \<Rightarrow> (Inr res, states)
      | Some bars \<Rightarrow>
          if enable_dynamic_targets (config eng) \<and> length bars \<ge> 5
          then
            (let states1 = (case states key of None \<Rightarrow> states(key \<mapsto> MomentumState0)
                            | Some _ \<Rightarrow> states);
                 momentum_state = (case states key of None \<Rightarrow> MomentumState0 | Some m \<Rightarrow> m);
                 recent_closes = py_last_n 10 (map c_close bars);
                 recent_candles = py_last_n 5 bars
             in case momentum_update (momentum_tp_of eng) momentum_state current
                       (current_r_multiple res) (rl_direction levels) recent_closes recent_candles of
                  Inl e \<Rightarrow> (Inl e, states1)
                | Inr (updated_state, should_exit, reason) \<Rightarrow>
                    (let res1 =
                           (if active updated_state
                            then
                              (let r1 = res\<lparr>momentum_trailing_active := True,
                                            momentum_trailing_level := trailing_level updated_state,
                                            momentum_slope_strength := slope_strength updated_state,
                                            momentum_buffer_pct := trail_buffer_pct updated_state\<rparr>;
                                   r2 = (if \<not> active updated_state
                                         then r1\<lparr>alerts := alerts r1 @
                                                 [AlertMomentumActivated (current_r_multiple res)
                                                    (ms_slope updated_state)
                                                    (slope_strength updated_state),
                                                  AlertTrailingAt (trailing_level updated_state)
                                                    (trail_buffer_pct updated_state)]\<rparr>
                                         else r1)
                               in r2\<lparr>new_target_added := True,
                                     new_target_price := Some (trailing_level updated_state)\<rparr>)
                            else res);
                         res2 =
                           (case reason of
                              Some rsn \<Rightarrow>
                                if should_exit
                                then res1\<lparr>exit_signal := True,
                                          exit_reason := Some rsn,
                                          exit_percentage := 100,
                                          alerts := alerts res1 @ [AlertMomentumExit rsn]\<rparr>
                                else res1
                            | None \<Rightarrow> res1)
                     in (Inr res2, states1(key \<mapsto> updated_state))))
          else (Inr res, states))"

text \<open>The divergence block.\<close>

definition step_divergence ::
  "RiskEngineConfig \<Rightarrow> RiskUpdate \<Rightarrow> RiskLevels \<Rightarrow> momentum_states \<Rightarrow> candle list option
     \<Rightarrow> string \<Rightarrow> py_error + RiskUpdate" where
  "step_divergence cfg res levels states ohlcv key =
     (case ohlcv of
        None \<Rightarrow> Inr res
      | Some bars \<Rightarrow>
          if enable_divergence_detection cfg
          then
            (case detect_divergence cfg bars (rl_direction levels) of
               Inl e \<Rightarrow> Inl e
             | Inr (div_detected, div_type) \<Rightarrow>
                 if div_detected
                 then
                   (let res1 = res\<lparr>divergence_detected := True, divergence_type := div_type\<rparr>
                    in if (rl_direction levels = ''long'' \<and> div_type = Some ''bearish'') \<or>
                          (rl_direction levels = ''short'' \<and> div_type = Some ''bullish'')
                       then
                         (let res2 = res1\<lparr>alerts := alerts res1 @ [AlertDivergence (the div_type)]\<rparr>
                          in if current_r_multiple res > 0.5 \<and>
                                (case states key of None \<Rightarrow> True | Some m \<Rightarrow> \<not> active m)
                             then Inr (res2\<lparr>exit_signal := True,
                                            exit_reason := Some (DivergenceWeakening (the div_type)),
                                            exit_percentage := 33\<rparr>)
                             else Inr res2)
                       else Inr res1)
                 else Inr res)
          else Inr res)"

text \<open>The loop over the fixed targets, leaving at the first target touched.\<close>

fun first_target_hit :: "string \<Rightarrow> real \<Rightarrow> target_level list \<Rightarrow> target_level option" where
  "first_target_hit direction current [] = None"
| "first_target_hit direction current (t # ts) =
     (if direction = ''long'' \<and> current \<ge> t_price t then Some t
      else if direction = ''short'' \<and> current \<le> t_price t then Some t
      else first_target_hit direction current ts)"

definition step_targets ::
  "RiskUpdate \<Rightarrow> RiskLevels \<Rightarrow> momentum_states \<Rightarrow> string \<Rightarrow> real \<Rightarrow> RiskUpdate" where
  "step_targets res levels states key current =
     (if \<not> (case states key of None \<Rightarrow> False | Some m \<Rightarrow> active m)
      then (case first_target_hit (rl_direction levels) current (rl_targets levels) of
              None \<Rightarrow> res
            | Some t \<Rightarrow>
                res\<lparr>exit_signal := True,
                    exit_reason := Some (TargetHit (t_reason t)),
                    exit_percentage := (case t_exit_percentage t of Some p \<Rightarrow> p | None \<Rightarrow> 100),
                    alerts := alerts res @ [AlertTargetHit (t_price t)]\<rparr>)
      else res)"

text \<open>The guarding-line block.\<close>

definition step_guarding ::
  "RiskEngine \<Rightarrow> RiskUpdate \<Rightarrow> RiskLevels \<Rightarrow> PositionUpdate \<Rightarrow> RiskUpdate" where
  "step_guarding eng res levels upd =
     (case rl_guarding_line levels of
        None \<Rightarrow> res
      | Some lp \<Rightarrow>
          if pu_bars_since_entry upd \<ge> guarding_activation_bars (config eng)
          then
            (let lvl = get_current_level (gm_activation_bars (guarding_mgr eng)) lp
                         (pu_bars_since_entry upd);
                 res1 = res\<lparr>guarding_active := True, guarding_level := Some lvl\<rparr>
             in case gm_check_break (pu_current_price upd) lvl (rl_direction levels) of
                  (True, Some reason) \<Rightarrow>
                    res1\<lparr>guarding_broken := True,
                         exit_signal := True,
                         exit_reason := Some (GuardingBroken reason),
                         exit_percentage := 100,
                         alerts := alerts res1 @ [AlertGuardingBroken reason]\<rparr>
                | _ \<Rightarrow> res1)
          else res)"

text \<open>The legacy trail block; \<^verbatim>\<open>if new_stop\<close> is false for \<open>None\<close> and for \<open>0.0\<close>.\<close>

definition step_trail ::
  "RiskUpdate \<Rightarrow> RiskLevels \<Rightarrow> PositionUpdate \<Rightarrow> py_error + RiskUpdate" where
  "step_trail res levels upd =
     (if pu_unrealized_pnl_pct upd > 0 \<and> \<not> moved_to_breakeven res
      then (case trail_stop (rl_direction levels) (rl_entry_price levels) (pu_current_price upd)
                   (rl_stops levels) of
              Inl e \<Rightarrow> Inl e
            | Inr None \<Rightarrow> Inr res
            | Inr (Some new_stop) \<Rightarrow>
                if new_stop \<noteq> 0
                then Inr (res\<lparr>stop_moved := True,
                              new_stop_price := Some new_stop,
                              stop_move_reason := Some TrailingAdjustment\<rparr>)
                else Inr res)
      else Inr res)"

text \<open>The structure-health block; \<^verbatim>\<open>if update.recent_lows and update.recent_highs\<close>
  needs both lists present and non-empty.\<close>

definition step_structure ::
  "RiskUpdate \<Rightarrow> RiskLevels \<Rightarrow> PositionUpdate \<Rightarrow> py_error + RiskUpdate" where
  "step_structure res levels upd =
     (case (pu_recent_lows upd, pu_recent_highs upd) of
        (Some lows, Some highs) \<Rightarrow>
          if lows \<noteq> [] \<and> highs \<noteq> []
          then (case check_structure_health (rl_direction levels) (pu_current_price upd) lows highs of
                  Inl e \<Rightarrow> Inl e
                | Inr h \<Rightarrow>
                    (let res1 = res\<lparr>structure_health := h\<rparr>
                     in if h = BROKEN \<and> \<not> exit_signal res1
                        then Inr (res1\<lparr>exit_signal := True,
                                       exit_reason := Some StructureBroken,
                                       exit_percentage := 100,
                                       alerts := alerts res1 @ [AlertStructureBroken]\<rparr>)
                        else Inr res1))
          else Inr res
      | _ \<Rightarrow> Inr res)"

subsection \<open>\<^verbatim>\<open>update_position\<close>\<close>

text \<open>The call returns the result or the exception, together with the \<^verbatim>\<open>RiskLevels\<close>
  object and the momentum map as the call leaves them: what was mutated before an exception
  stays mutated.\<close>

definition update_position ::
  "RiskEngine \<Rightarrow> momentum_states \<Rightarrow> RiskLevels \<Rightarrow> PositionUpdate \<Rightarrow> candle list option
     \<Rightarrow> string option \<Rightarrow> (py_error + RiskUpdate) \<times> RiskLevels \<times> momentum_states" where
  "update_position eng states levels upd ohlcv session_id =
     (let res0 = new_RiskUpdate (rl_stops levels) (rl_targets levels);
          current = pu_current_price upd;
          key = momentum_key session_id (rl_symbol levels);
          res1 = res0\<lparr>current_r_multiple := compute_r_multiple levels current\<rparr>;
          (res2, levels1) = step_breakeven (config eng) res1 levels
      in case step_momentum eng res2 levels1 states ohlcv key current of
           (Inl e, states1) \<Rightarrow> (Inl e, levels1, states1)
         | (Inr res3, states1) \<Rightarrow>
             (case step_divergence (config eng) res3 levels1 states1 ohlcv key of
                Inl e \<Rightarrow> (Inl e, levels1, states1)
              | Inr res4 \<Rightarrow>
                  (let res5 = step_targets res4 levels1 states1 key current;
                       res6 = step_guarding eng res5 levels1 upd
                   in case step_trail res6 levels1 upd of
                        Inl e \<Rightarrow> (Inl e, levels1, states1)
                      | Inr res7 \<Rightarrow>
                          (case step_structure res7 levels1 upd of
                             Inl e \<Rightarrow> (Inl e, levels1, states1)
                           | Inr res8 \<Rightarrow> (Inr res8, levels1, states1)))))"

text \<open>\<^verbatim>\<open>reset_momentum_state\<close>.\<close>

definition reset_momentum_state :: "momentum_states \<Rightarrow> string \<Rightarrow> momentum_states" where
  "reset_momentum_state states session_id = states(session_id := None)"

text \<open>A sequence of \<^verbatim>\<open>update_position\<close> calls on the same \<^verbatim>\<open>RiskLevels\<close> object and
  engine: the outcome of every call, and the object and the map after the last one.\<close>

fun update_many ::
  "RiskEngine \<Rightarrow> momentum_states \<Rightarrow> RiskLevels
     \<Rightarrow> (PositionUpdate \<times> candle list option \<times> string option) list
     \<Rightarrow> (py_error + RiskUpdate) list \<times> RiskLevels \<times> momentum_states" where
  "update_many eng states levels [] = ([], levels, states)"
| "update_many eng states levels ((upd, ohlcv, sid) # calls) =
     (case update_position eng states levels upd ohlcv sid of
        (out, levels1, states1) \<Rightarrow>
          (case update_many eng states1 levels1 calls of
             (outs, levels2, states2) \<Rightarrow> (out # outs, levels2, states2)))"

subsection \<open>Notions used to state the properties\<close>

text \<open>The three exit fields of a result.\<close>

definition exit_fields :: "RiskUpdate \<Rightarrow> bool \<times> exit_reason option \<times> real" where
  "exit_fields res = (exit_signal res, exit_reason res, exit_percentage res)"

text \<open>The condition under which the breakeven block rewrites the first stop.\<close>

definition breakeven_fires :: "RiskEngineConfig \<Rightarrow> RiskLevels \<Rightarrow> real \<Rightarrow> bool" where
  "breakeven_fires cfg levels current =
     (enable_breakeven_stop cfg \<and>
      compute_r_multiple levels current \<ge> breakeven_trigger_r cfg \<and>
      (case rl_stops levels of
         [] \<Rightarrow> False
       | s # _ \<Rightarrow> s_price s \<noteq> 0 \<and>
                  is_better_stop (breakeven_target cfg levels) (s_price s) (rl_direction levels)))"

text \<open>The object after the rewrite.\<close>

definition moved_levels :: "RiskEngineConfig \<Rightarrow> RiskLevels \<Rightarrow> RiskLevels" where
  "moved_levels cfg levels =
     (case rl_stops levels of
        [] \<Rightarrow> levels
      | s # rest \<Rightarrow>
          levels\<lparr>rl_stops := stop_to_breakeven (breakeven_target cfg levels) s # rest\<rparr>)"

text \<open>The first stop sits at the breakeven price.\<close>

definition at_breakeven :: "RiskEngineConfig \<Rightarrow> RiskLevels \<Rightarrow> bool" where
  "at_breakeven cfg levels =
     (case rl_stops levels of
        [] \<Rightarrow> False
      | s # _ \<Rightarrow> s_price s = breakeven_target cfg levels)"

text \<open>A call outcome that reports a breakeven move; one that names a fixed target.\<close>

definition reports_move :: "py_error + RiskUpdate \<Rightarrow> bool" where
  "reports_move out = (case out of Inl _ \<Rightarrow> False | Inr res \<Rightarrow> moved_to_breakeven res)"

fun is_target_alert :: "alert \<Rightarrow> bool" where
  "is_target_alert (AlertTargetHit _) = True"
| "is_target_alert _ = False"

fun is_target_reason :: "exit_reason option \<Rightarrow> bool" where
  "is_target_reason (Some (TargetHit _)) = True"
| "is_target_reason _ = False"

definition names_target :: "py_error + RiskUpdate \<Rightarrow> bool" where
  "names_target out =
     (case out of
        Inl _ \<Rightarrow> False
      | Inr res \<Rightarrow> is_target_reason (exit_reason res) \<or> list_ex is_target_alert (alerts res))"

text \<open>A result that names no fixed target, neither as exit reason nor in an alert.\<close>

definition no_target :: "RiskUpdate \<Rightarrow> bool" where
  "no_target res =
     (\<not> is_target_reason (exit_reason res) \<and> \<not> list_ex is_target_alert (alerts res))"

text \<open>What each exit block of \<^verbatim>\<open>update_position\<close> decides from the inputs of the call.
  \<open>momentum_inactive\<close> is the test \<^verbatim>\<open>not (momentum_state and momentum_state.active)\<close> of the
  divergence and target blocks; \<open>momentum_exit\<close> is the reason the momentum block exits with
  (\<^verbatim>\<open>should_exit and exit_reason\<close>); \<open>divergence_exit\<close> is the divergence type when the
  divergence block signals its partial exit, the momentum test apart.\<close>

definition momentum_inactive :: "momentum_states \<Rightarrow> string \<Rightarrow> bool" where
  "momentum_inactive states key = (case states key of None \<Rightarrow> True | Some m \<Rightarrow> \<not> active m)"

definition momentum_exit ::
  "RiskEngine \<Rightarrow> momentum_states \<Rightarrow> RiskLevels \<Rightarrow> PositionUpdate \<Rightarrow> candle list option
     \<Rightarrow> string option \<Rightarrow> exit_reason option" where
  "momentum_exit eng states levels upd ohlcv session_id =
     (case ohlcv of
        None \<Rightarrow> None
      | Some bars \<Rightarrow>
          if enable_dynamic_targets (config eng) \<and> length bars \<ge> 5
          then (case momentum_update (momentum_tp_of eng)
                       (case states (momentum_key session_id (rl_symbol levels)) of
                          None \<Rightarrow> MomentumState0 | Some m \<Rightarrow> m)
                       (pu_current_price upd)
                       (compute_r_multiple levels (pu_current_price upd))
                       (rl_direction levels)
                       (py_last_n 10 (map c_close bars)) (py_last_n 5 bars) of
                  Inl _ \<Rightarrow> None
                | Inr (_, should_exit, reason) \<Rightarrow> if should_exit then reason else None)
          else None)"

definition divergence_exit ::
  "RiskEngineConfig \<Rightarrow> RiskLevels \<Rightarrow> PositionUpdate \<Rightarrow> candle list option \<Rightarrow> string option" where
  "divergence_exit cfg levels upd ohlcv =
     (case ohlcv of
        None \<Rightarrow> None
      | Some bars \<Rightarrow>
          if enable_divergence_detection cfg
          then (case detect_divergence cfg bars (rl_direction levels) of
                  Inl _ \<Rightarrow> None
                | Inr (div_detected, div_type) \<Rightarrow>
                    if div_detected \<and>
                       ((rl_direction levels = ''long'' \<and> div_type = Some ''bearish'') \<or>
                        (rl_direction levels = ''short'' \<and> div_type = Some ''bullish'')) \<and>
                       compute_r_multiple levels (pu_current_price upd) > 0.5
                    then div_type else None)
          else None)"

subsection \<open>A concrete position\<close>

text \<open>A long position entered at 100 with an ATR stop at 90 and one target at 105, and the
  position update at a given price.\<close>

definition example_levels :: RiskLevels where
  "example_levels =
     \<lparr>rl_stops = [\<lparr>s_price = 90, s_type = ''atr'', s_reason = AtrStop 2,
                    s_confidence = 0.6, s_distance_pct = Some 10\<rparr>],
      rl_targets = [\<lparr>t_price = 105, t_type = ''extension'', t_reason = ''2.0R target'',
                      t_exit_percentage = Some 50, t_distance_pct = 5, t_confidence = 0.5\<rparr>],
      rl_position_size = 10, rl_position_size_pct = 10, rl_risk_amount = 100,
      rl_risk_reward_ratio = 0.5, rl_max_risk_reward_ratio = 0.5,
      rl_entry_price = 100, rl_direction = ''long'', rl_timeframe = ''1h'',
      rl_symbol = ''BTCUSDT'', rl_current_price = 100,
      rl_guarding_line = None, rl_entry_blocked = True,
      rl_volatility_regime = ''normal'', rl_atr_current = 5, rl_atr_pct = 5,
      rl_breakeven_price = 100.1, rl_one_r_price = 110\<rparr>"

definition example_update :: "real \<Rightarrow> PositionUpdate" where
  "example_update p =
     \<lparr>pu_current_price = p, pu_bars_since_entry = 3,
      pu_highest_since_entry = p, pu_lowest_since_entry = 100,
      pu_unrealized_pnl_pct = p - 100,
      pu_recent_lows = None, pu_recent_highs = None\<rparr>"

text \<open>Twenty candles whose closes make a higher high in the second half (111 against 110)
  while the last fourteen moves lose 11 and gain 7, so that the RSI is below 50.\<close>

definition example_divergence_bars :: "candle list" where
  "example_divergence_bars =
     map (\<lambda>c. \<lparr>c_open = c, c_high = c + 1, c_low = c - 1, c_close = c\<rparr>)
       [100, 101, 102, 103, 104, 110, 108, 106, 105, 104,
        111, 110, 109, 108, 107, 106, 106, 106, 106, 106]"

text \<open>The result of a call on the concrete position at price 106 (0.6 R) as the divergence
  block finds it: the breakeven and momentum blocks have left it as it was created.\<close>

definition example_open_result :: RiskUpdate where
  "example_open_result =
     (new_RiskUpdate (rl_stops example_levels) (rl_targets example_levels))
       \<lparr>current_r_multiple := 3 / 5\<rparr>"

section \<open>Volatility and position sizing\<close>

subsection \<open>ATR and volatility regime (risk\_engine.py)\<close>

text \<open>\<^verbatim>\<open>_calculate_atr\<close> on the rows of a frame, oldest first: the true range of every row
  but the first, and the mean of the last \<open>period\<close> of them. The frames it is called on have
  at least two rows; the mean of an empty array is outside the model.\<close>

fun true_ranges :: "candle list \<Rightarrow> real list" where
  "true_ranges (a # b # cs) =
     max (c_high b - c_low b) (max \<bar>c_high b - c_close a\<bar> \<bar>c_low b - c_close a\<bar>)
       # true_ranges (b # cs)"
| "true_ranges _ = []"

definition calculate_atr :: "candle list \<Rightarrow> nat \<Rightarrow> real" where
  "calculate_atr ohlcv period =
     (let tr = true_ranges ohlcv
      in if length tr \<ge> period then np_mean (py_last_n period tr) else np_mean tr)"

datatype VolatilityRegime = LOW | NORMAL | HIGH | EXTREME

text \<open>The \<^verbatim>\<open>.value\<close> of the enumeration, which is what \<^verbatim>\<open>levels.volatility_regime\<close>
  holds.\<close>

fun regime_value :: "VolatilityRegime \<Rightarrow> string" where
  "regime_value LOW = ''low''"
| "regime_value NORMAL = ''normal''"
| "regime_value HIGH = ''high''"
| "regime_value EXTREME = ''extreme''"

definition detect_volatility_regime ::
  "RiskEngineConfig \<Rightarrow> candle list \<Rightarrow> real \<Rightarrow> VolatilityRegime" where
  "detect_volatility_regime cfg ohlcv current_atr =
     (if length ohlcv < volatility_lookback cfg then NORMAL
      else
        (let baseline_atr = calculate_atr ohlcv (volatility_lookback cfg)
         in if baseline_atr = 0 then NORMAL
            else
              (let ratio = current_atr / baseline_atr
               in if ratio < low_vol_threshold cfg then LOW
                  else if ratio > extreme_vol_threshold cfg then EXTREME
                  else if ratio > high_vol_threshold cfg then HIGH
                  else NORMAL)))"

subsection \<open>Position size\<close>

text \<open>\<^verbatim>\<open>RiskEngine._calculate_position_size\<close> of \<^verbatim>\<open>risk_engine.py\<close>. The result is
  (position\_size, position\_pct, risk\_amount); the division by the account balance raises for
  a zero balance.\<close>

definition calculate_position_size ::
  "RiskEngineConfig \<Rightarrow> real \<Rightarrow> real \<Rightarrow> real \<Rightarrow> real \<Rightarrow> real
     \<Rightarrow> py_error + (real \<times> real \<times> real)" where
  "calculate_position_size cfg account_balance risk_pct entry_price risk_distance atr_pct =
     (let risk_pct1 =
            (if volatility_adjusted_sizing cfg
             then (let vol_factor0 = 2.0 / max atr_pct 0.5;
                       vol_factor = max 0.5 (min 2.0 vol_factor0)
                   in risk_pct * vol_factor)
             else risk_pct);
          risk_amount = account_balance * (risk_pct1 / 100);
          position_size = (if risk_distance > 0 then risk_amount / risk_distance else 0);
          position_value = position_size * entry_price
      in if account_balance = 0 then Inl ZeroDivisionError
         else Inr (position_size, (position_value / account_balance) * 100, risk_amount))"

text \<open>Step 8 of \<^verbatim>\<open>RiskEngine.calculate_risk_levels\<close> (\<^verbatim>\<open>risk_engine.py\<close>): the sizing of
  the position on a \<^verbatim>\<open>RiskLevels\<close> object whose stops and volatility regime the earlier
  steps have set.\<close>

definition step_position_sizing ::
  "RiskEngineConfig \<Rightarrow> RiskLevels \<Rightarrow> real \<Rightarrow> real \<Rightarrow> real \<Rightarrow> real \<Rightarrow> real
     \<Rightarrow> py_error + RiskLevels" where
  "step_position_sizing cfg levels entry_price atr atr_pct account_balance risk_per_trade_pct =
     (let primary_stop_price =
            (case rl_stops levels of [] \<Rightarrow> entry_price - (atr * 2) | s # _ \<Rightarrow> s_price s);
          risk_distance = \<bar>entry_price - primary_stop_price\<bar>;
          adjusted_risk_pct =
            (if rl_volatility_regime levels = regime_value EXTREME
             then risk_per_trade_pct * extreme_vol_size_reduction cfg
             else risk_per_trade_pct)
      in case calculate_position_size cfg account_balance adjusted_risk_pct entry_price
                risk_distance atr_pct of
           Inl e \<Rightarrow> Inl e
         | Inr (position_size, position_pct, risk_amount) \<Rightarrow>
             Inr (levels\<lparr>rl_position_size := position_size,
                         rl_position_size_pct := position_pct,
                         rl_risk_amount := risk_amount\<rparr>))"

subsection \<open>The legacy engine (engine.py)\<close>

text \<open>\<^verbatim>\<open>TradeSetup\<close> of \<^verbatim>\<open>models.py\<close>, fields prefixed with \<open>ts_\<close>.\<close>

record TradeSetup =
  ts_entry_price :: real
  ts_direction :: string
  ts_timeframe :: string
  ts_symbol :: string
  ts_account_balance :: real
  ts_risk_per_trade_pct :: real
  ts_max_stop_distance_pct :: real
  ts_min_rr_ratio :: real
  ts_existing_position_size :: real
  ts_existing_avg_price :: real
  ts_shots_taken :: int
  ts_max_shots :: int

text \<open>\<^verbatim>\<open>RiskEngine._calculate_position_size\<close> of \<^verbatim>\<open>engine.py\<close>.\<close>

definition legacy_calculate_position_size ::
  "RiskEngineConfig \<Rightarrow> TradeSetup \<Rightarrow> real \<Rightarrow> real \<Rightarrow> py_error + (real \<times> real \<times> real)" where
  "legacy_calculate_position_size cfg setup risk_distance atr_pct =
     (let risk_pct0 = ts_risk_per_trade_pct setup;
          risk_pct =
            (if volatility_adjusted_sizing cfg
             then (let vol_factor0 = 2.0 / max atr_pct 0.5;
                       vol_factor = max 0.5 (min 2.0 vol_factor0)
                   in risk_pct0 * vol_factor)
             else risk_pct0);
          risk_amount = ts_account_balance setup * (risk_pct / 100);
          position_size = (if risk_distance > 0 then risk_amount / risk_distance else 0);
          position_value = position_size * ts_entry_price setup
      in if ts_account_balance setup = 0 then Inl ZeroDivisionError
         else Inr (position_size, (position_value / ts_account_balance setup) * 100,
                   risk_amount))"

subsection \<open>A concrete frame\<close>

text \<open>A frame of 101 rows around the price 100: 87 quiet rows with a range of 1, then 14 rows
  with a range of 10. A setup of 10000 at 1 percent risk.\<close>

definition example_volatile_frame :: "candle list" where
  "example_volatile_frame =
     replicate 87 \<lparr>c_open = 100, c_high = 100.5, c_low = 99.5, c_close = 100\<rparr> @
     replicate 14 \<lparr>c_open = 100, c_high = 105, c_low = 95, c_close = 100\<rparr>"

definition example_setup :: TradeSetup where
  "example_setup =
     \<lparr>ts_entry_price = 100, ts_direction = ''long'', ts_timeframe = ''1h'',
      ts_symbol = ''BTCUSDT'', ts_account_balance = 10000, ts_risk_per_trade_pct = 1,
      ts_max_stop_distance_pct = 5, ts_min_rr_ratio = 2,
      ts_existing_position_size = 0, ts_existing_avg_price = 0,
      ts_shots_taken = 0, ts_max_shots = 3\<rparr>"

section \<open>Stop and target ladders\<close>

text \<open>Python's float division, which raises for a zero divisor.\<close>

definition py_div :: "real \<Rightarrow> real \<Rightarrow> py_error + real" where
  "py_div a b = (if b = 0 then Inl ZeroDivisionError else Inr (a / b))"

subsection \<open>\<^verbatim>\<open>RiskEngine._calculate_stops\<close> of risk\_engine.py\<close>

text \<open>The analysis object of the structure detector is declared outside the sources read
  here. The stop ladder reads from it the best support and the best resistance, each with a
  price and a confluence score; it is a parameter of the model. An object that is present is
  truthy.\<close>

record structure_level =
  lv_price :: real
  lv_confluence_score :: real

record StructureAnalysis =
  best_support :: "structure_level option"
  best_resistance :: "structure_level option"

text \<open>The branch for \<^verbatim>\<open>direction == "long"\<close>.\<close>

definition calculate_stops_long ::
  "RiskEngineConfig \<Rightarrow> real \<Rightarrow> StructureAnalysis option \<Rightarrow> real \<Rightarrow> py_error + stop_level list" where
  "calculate_stops_long cfg entry analysis atr =
     (case (case analysis of
              None \<Rightarrow> Inr []
            | Some a \<Rightarrow>
                (case best_support a of
                   None \<Rightarrow> Inr []
                 | Some support \<Rightarrow>
                     if lv_price support < entry
                     then (let stop_price = lv_price support - (atr * 0.2)
                           in case py_div (entry - stop_price) entry of
                                Inl e \<Rightarrow> Inl e
                              | Inr q \<Rightarrow>
                                  (let distance_pct = q * 100
                                   in if distance_pct \<le> max_stop_pct cfg
                                      then Inr [\<lparr>s_price = stop_price, s_type = ''structural'',
                                                 s_reason = BelowSupport (lv_price support),
                                                 s_confidence = lv_confluence_score support / 10,
                                                 s_distance_pct = Some distance_pct\<rparr>]
                                      else Inr []))
                     else Inr [])) of
        Inl e \<Rightarrow> Inl e
      | Inr stops1 \<Rightarrow>
          (case (if stops1 = []
                 then (let stop_price = entry - (atr * atr_stop_multiplier cfg)
                       in case py_div (entry - stop_price) entry of
                            Inl e \<Rightarrow> Inl e
                          | Inr q \<Rightarrow>
                              Inr [\<lparr>s_price = stop_price, s_type = ''atr'',
                                    s_reason = AtrStop (atr_stop_multiplier cfg),
                                    s_confidence = 0.6,
                                    s_distance_pct = Some (q * 100)\<rparr>])
                 else Inr stops1) of
             Inl e \<Rightarrow> Inl e
           | Inr stops2 \<Rightarrow>
               if enable_multi_tier_stops cfg
               then (case py_div (atr * atr_stop_multiplier cfg * 1.5) entry of
                       Inl e \<Rightarrow> Inl e
                     | Inr q \<Rightarrow>
                         Inr (stops2 @
                              [\<lparr>s_price = entry - (atr * atr_stop_multiplier cfg * 1.5),
                                s_type = ''secondary'', s_reason = SecondaryStop,
                                s_confidence = 0.5, s_distance_pct = Some (q * 100)\<rparr>,
                               \<lparr>s_price = entry * (1 - max_stop_pct cfg / 100),
                                s_type = ''safety_net'',
                                s_reason = MaxLossProtection (max_stop_pct cfg),
                                s_confidence = 1.0,
                                s_distance_pct = Some (max_stop_pct cfg)\<rparr>]))
               else Inr stops2))"

text \<open>The \<^verbatim>\<open>else\<close> branch, taken for every other direction.\<close>

definition calculate_stops_short ::
  "RiskEngineConfig \<Rightarrow> real \<Rightarrow> StructureAnalysis option \<Rightarrow> real \<Rightarrow> py_error + stop_level list" where
  "calculate_stops_short cfg entry analysis atr =
     (case (case analysis of
              None \<Rightarrow> Inr []
            | Some a \<Rightarrow>
                (case best_resistance a of
                   None \<Rightarrow> Inr []
                 | Some resistance \<Rightarrow>
                     if lv_price resistance > entry
                     then (let stop_price = lv_price resistance + (atr * 0.2)
                           in case py_div (stop_price - entry) entry of
                                Inl e \<Rightarrow> Inl e
                              | Inr q \<Rightarrow>
                                  (let distance_pct = q * 100
                                   in if distance_pct \<le> max_stop_pct cfg
                                      then Inr [\<lparr>s_price = stop_price, s_type = ''structural'',
                                                 s_reason = AboveResistance (lv_price resistance),
                                                 s_confidence = lv_confluence_score resistance / 10,
                                                 s_distance_pct = Some distance_pct\<rparr>]
                                      else Inr []))
                     else Inr [])) of
        Inl e \<Rightarrow> Inl e
      | Inr stops1 \<Rightarrow>
          (case (if stops1 = []
                 then (let stop_price = entry + (atr * atr_stop_multiplier cfg)
                       in case py_div (stop_price - entry) entry of
                            Inl e \<Rightarrow> Inl e
                          | Inr q \<Rightarrow>
                              Inr [\<lparr>s_price = stop_price, s_type = ''atr'',
                                    s_reason = AtrStop (atr_stop_multiplier cfg),
                                    s_confidence = 0.6,
                                    s_distance_pct = Some (q * 100)\<rparr>])
                 else Inr stops1) of
             Inl e \<Rightarrow> Inl e
           | Inr stops2 \<Rightarrow>
               if enable_multi_tier_stops cfg
               then (case py_div (atr * atr_stop_multiplier cfg * 1.5) entry of
                       Inl e \<Rightarrow> Inl e
                     | Inr q \<Rightarrow>
                         Inr (stops2 @
                              [\<lparr>s_price = entry + (atr * atr_stop_multiplier cfg * 1.5),
                                s_type = ''secondary'', s_reason = SecondaryStop,
                                s_confidence = 0.5, s_distance_pct = Some (q * 100)\<rparr>,
                               \<lparr>s_price = entry * (1 + max_stop_pct cfg / 100),
                                s_type = ''safety_net'',
                                s_reason = MaxLossProtection (max_stop_pct cfg),
                                s_confidence = 1.0,
                                s_distance_pct = Some (max_stop_pct cfg)\<rparr>]))
               else Inr stops2))"

definition calculate_stops ::
  "RiskEngineConfig \<Rightarrow> RiskLevels \<Rightarrow> StructureAnalysis option \<Rightarrow> real
     \<Rightarrow> py_error + stop_level list" where
  "calculate_stops cfg levels analysis atr =
     (if rl_direction levels = ''long''
      then calculate_stops_long cfg (rl_entry_price levels) analysis atr
      else calculate_stops_short cfg (rl_entry_price levels) analysis atr)"

subsection \<open>\<^verbatim>\<open>RiskEngine._calculate_stops\<close> of engine.py\<close>

text \<open>\<^verbatim>\<open>StopLevel\<close> and \<^verbatim>\<open>TargetLevel\<close> of \<^verbatim>\<open>models.py\<close>, fields prefixed with
  \<open>sl_\<close> and \<open>tl_\<close>. The reasons of the stops carry the same numbers as those of
  \<^verbatim>\<open>risk_engine.py\<close> and share their constructors.\<close>

datatype StopType = PRIMARY | SECONDARY | SAFETY_NET | GUARDING

record StopLevel =
  sl_price :: real
  sl_type :: StopType
  sl_confidence :: real
  sl_reason :: stop_reason
  sl_distance_pct :: real

datatype TargetType = STRUCTURAL | EXTENSION | VOLUME_GAP | TRAILING

datatype target_reason = ResistanceLevel real | SupportLevel real | RTarget real

record TargetLevel =
  tl_price :: real
  tl_type :: TargetType
  tl_exit_percentage :: real
  tl_confidence :: real
  tl_reason :: target_reason
  tl_distance_pct :: real

text \<open>The support and resistance levels are pairs (price, confidence). The \<^verbatim>\<open>market\<close>
  argument is not read by the function and is left out.\<close>

definition legacy_calculate_stops_long ::
  "RiskEngineConfig \<Rightarrow> real \<Rightarrow> (real \<times> real) list \<Rightarrow> real \<Rightarrow> py_error + StopLevel list" where
  "legacy_calculate_stops_long cfg entry supports atr =
     (case (case supports of
              [] \<Rightarrow> Inr []
            | (support_price, confidence) # _ \<Rightarrow>
                if support_price < entry
                then (let stop_price = support_price - (atr * 0.2)
                      in case py_div (entry - stop_price) entry of
                           Inl e \<Rightarrow> Inl e
                         | Inr q \<Rightarrow>
                             (let distance_pct = q * 100
                              in if distance_pct \<le> max_stop_pct cfg
                                 then Inr [\<lparr>sl_price = stop_price, sl_type = PRIMARY,
                                            sl_confidence = confidence,
                                            sl_reason = BelowSupport support_price,
                                            sl_distance_pct = distance_pct\<rparr>]
                                 else Inr []))
                else Inr []) of
        Inl e \<Rightarrow> Inl e
      | Inr stops1 \<Rightarrow>
          (case (if stops1 = []
                 then (let stop_price = entry - (atr * atr_stop_multiplier cfg)
                       in case py_div (entry - stop_price) entry of
                            Inl e \<Rightarrow> Inl e
                          | Inr q \<Rightarrow>
                              Inr [\<lparr>sl_price = stop_price, sl_type = PRIMARY,
                                    sl_confidence = 0.6,
                                    sl_reason = AtrStop (atr_stop_multiplier cfg),
                                    sl_distance_pct = q * 100\<rparr>])
                 else Inr stops1) of
             Inl e \<Rightarrow> Inl e
           | Inr stops2 \<Rightarrow>
               if enable_multi_tier_stops cfg
               then (let secondary_price = entry - (atr * atr_stop_multiplier cfg * 1.5)
                     in case py_div (entry - secondary_price) entry of
                          Inl e \<Rightarrow> Inl e
                        | Inr q \<Rightarrow>
                            Inr (stops2 @
                                 [\<lparr>sl_price = secondary_price, sl_type = SECONDARY,
                                   sl_confidence = 0.5, sl_reason = SecondaryStop,
                                   sl_distance_pct = q * 100\<rparr>,
                                  \<lparr>sl_price = entry * (1 - max_stop_pct cfg / 100),
                                   sl_type = SAFETY_NET, sl_confidence = 1.0,
                                   sl_reason = MaxLossProtection (max_stop_pct cfg),
                                   sl_distance_pct = max_stop_pct cfg\<rparr>]))
               else Inr stops2))"

definition legacy_calculate_stops_short ::
  "RiskEngineConfig \<Rightarrow> real \<Rightarrow> (real \<times> real) list \<Rightarrow> real \<Rightarrow> py_error + StopLevel list" where
  "legacy_calculate_stops_short cfg entry resistances atr =
     (case (case resistances of
              [] \<Rightarrow> Inr []
            | (resist_price, confidence) # _ \<Rightarrow>
                if resist_price > entry
                then (let stop_price = resist_price + (atr * 0.2)
                      in case py_div (stop_price - entry) entry of
                           Inl e \<Rightarrow> Inl e
                         | Inr q \<Rightarrow>
                             (let distance_pct = q * 100
                              in if distance_pct \<le> max_stop_pct cfg
                                 then Inr [\<lparr>sl_price = stop_price, sl_type = PRIMARY,
                                            sl_confidence = confidence,
                                            sl_reason = AboveResistance resist_price,
                                            sl_distance_pct = distance_pct\<rparr>]
                                 else Inr []))
                else Inr []) of
        Inl e \<Rightarrow> Inl e
      | Inr stops1 \<Rightarrow>
          (case (if stops1 = []
                 then (let stop_price = entry + (atr * atr_stop_multiplier cfg)
                       in case py_div (stop_price - entry) entry of
                            Inl e \<Rightarrow> Inl e
                          | Inr q \<Rightarrow>
                              Inr [\<lparr>sl_price = stop_price, sl_type = PRIMARY,
                                    sl_confidence = 0.6,
                                    sl_reason = AtrStop (atr_stop_multiplier cfg),
                                    sl_distance_pct = q * 100\<rparr>])
                 else Inr stops1) of
             Inl e \<Rightarrow> Inl e
           | Inr stops2 \<Rightarrow>
               if enable_multi_tier_stops cfg
               then (let secondary_price = entry + (atr * atr_stop_multiplier cfg * 1.5)
                     in case py_div (secondary_price - entry) entry of
                          Inl e \<Rightarrow> Inl e
                        | Inr q \<Rightarrow>
                            Inr (stops2 @
                                 [\<lparr>sl_price = secondary_price, sl_type = SECONDARY,
                                   sl_confidence = 0.5, sl_reason = SecondaryStop,
                                   sl_distance_pct = q * 100\<rparr>,
                                  \<lparr>sl_price = entry * (1 + max_stop_pct cfg / 100),
                                   sl_type = SAFETY_NET, sl_confidence = 1.0,
                                   sl_reason = MaxLossProtection (max_stop_pct cfg),
                                   sl_distance_pct = max_stop_pct cfg\<rparr>]))
               else Inr stops2))"

definition legacy_calculate_stops ::
  "RiskEngineConfig \<Rightarrow> TradeSetup \<Rightarrow> (real \<times> real) list \<Rightarrow> (real \<times> real) list \<Rightarrow> real
     \<Rightarrow> py_error + StopLevel list" where
  "legacy_calculate_stops cfg setup supports resistances atr =
     (if ts_direction setup = ''long''
      then legacy_calculate_stops_long cfg (ts_entry_price setup) supports atr
      else legacy_calculate_stops_short cfg (ts_entry_price setup) resistances atr)"

subsection \<open>\<^verbatim>\<open>RiskEngine._calculate_targets\<close> of engine.py\<close>

text \<open>\<^verbatim>\<open>exit_ratios[i] if i < len(exit_ratios) else exit_ratios[-1]\<close>; the last index
  raises on the empty list.\<close>

definition exit_ratio :: "real list \<Rightarrow> nat \<Rightarrow> py_error + real" where
  "exit_ratio exit_ratios i =
     (if i < length exit_ratios then Inr (exit_ratios ! i)
      else if exit_ratios = [] then Inl IndexError
      else Inr (last exit_ratios))"

text \<open>The loops over the enumerated levels, from index \<open>i\<close> on.\<close>

fun legacy_resistance_targets ::
  "RiskEngineConfig \<Rightarrow> real \<Rightarrow> real \<Rightarrow> nat \<Rightarrow> (real \<times> real) list
     \<Rightarrow> py_error + TargetLevel list" where
  "legacy_resistance_targets cfg entry primary_stop_dist i [] = Inr []"
| "legacy_resistance_targets cfg entry primary_stop_dist i ((resist_price, confidence) # rest) =
     (case py_div (resist_price - entry) primary_stop_dist of
        Inl e \<Rightarrow> Inl e
      | Inr rr \<Rightarrow>
          if rr \<ge> min_rr_ratio cfg
          then (case exit_ratio (partial_exit_ratios cfg) i of
                  Inl e \<Rightarrow> Inl e
                | Inr exit_pct \<Rightarrow>
                    (case py_div (resist_price - entry) entry of
                       Inl e \<Rightarrow> Inl e
                     | Inr q \<Rightarrow>
                         (case legacy_resistance_targets cfg entry primary_stop_dist (Suc i) rest of
                            Inl e \<Rightarrow> Inl e
                          | Inr targets \<Rightarrow>
                              Inr (\<lparr>tl_price = resist_price, tl_type = STRUCTURAL,
                                    tl_exit_percentage = exit_pct * 100,
                                    tl_confidence = confidence,
                                    tl_reason = ResistanceLevel rr,
                                    tl_distance_pct = q * 100\<rparr> # targets))))
          else legacy_resistance_targets cfg entry primary_stop_dist (Suc i) rest)"

fun legacy_support_targets ::
  "RiskEngineConfig \<Rightarrow> real \<Rightarrow> real \<Rightarrow> nat \<Rightarrow> (real \<times> real) list
     \<Rightarrow> py_error + TargetLevel list" where
  "legacy_support_targets cfg entry primary_stop_dist i [] = Inr []"
| "legacy_support_targets cfg entry primary_stop_dist i ((support_price, confidence) # rest) =
     (case py_div (entry - support_price) primary_stop_dist of
        Inl e \<Rightarrow> Inl e
      | Inr rr \<Rightarrow>
          if rr \<ge> min_rr_ratio cfg
          then (case exit_ratio (partial_exit_ratios cfg) i of
                  Inl e \<Rightarrow> Inl e
                | Inr exit_pct \<Rightarrow>
                    (case py_div (entry - support_price) entry of
                       Inl e \<Rightarrow> Inl e
                     | Inr q \<Rightarrow>
                         (case legacy_support_targets cfg entry primary_stop_dist (Suc i) rest of
                            Inl e \<Rightarrow> Inl e
                          | Inr targets \<Rightarrow>
                              Inr (\<lparr>tl_price = support_price, tl_type = STRUCTURAL,
                                    tl_exit_percentage = exit_pct * 100,
                                    tl_confidence = confidence,
                                    tl_reason = SupportLevel rr,
                                    tl_distance_pct = q * 100\<rparr> # targets))))
          else legacy_support_targets cfg entry primary_stop_dist (Suc i) rest)"

text \<open>The fallback loops over the R multiples.\<close>

fun legacy_r_targets_long ::
  "RiskEngineConfig \<Rightarrow> real \<Rightarrow> real \<Rightarrow> nat \<Rightarrow> real list \<Rightarrow> py_error + TargetLevel list" where
  "legacy_r_targets_long cfg entry primary_stop_dist i [] = Inr []"
| "legacy_r_targets_long cfg entry primary_stop_dist i (multiple # rest) =
     (let target_price = entry + (primary_stop_dist * multiple)
      in case exit_ratio (partial_exit_ratios cfg) i of
           Inl e \<Rightarrow> Inl e
         | Inr exit_pct \<Rightarrow>
             (case py_div (target_price - entry) entry of
                Inl e \<Rightarrow> Inl e
              | Inr q \<Rightarrow>
                  (case legacy_r_targets_long cfg entry primary_stop_dist (Suc i) rest of
                     Inl e \<Rightarrow> Inl e
                   | Inr targets \<Rightarrow>
                       Inr (\<lparr>tl_price = target_price, tl_type = EXTENSION,
                             tl_exit_percentage = exit_pct * 100, tl_confidence = 0.5,
                             tl_reason = RTarget multiple,
                             tl_distance_pct = q * 100\<rparr> # targets))))"

fun legacy_r_targets_short ::
  "RiskEngineConfig \<Rightarrow> real \<Rightarrow> real \<Rightarrow> nat \<Rightarrow> real list \<Rightarrow> py_error + TargetLevel list" where
  "legacy_r_targets_short cfg entry primary_stop_dist i [] = Inr []"
| "legacy_r_targets_short cfg entry primary_stop_dist i (multiple # rest) =
     (let target_price = entry - (primary_stop_dist * multiple)
      in case exit_ratio (partial_exit_ratios cfg) i of
           Inl e \<Rightarrow> Inl e
         | Inr exit_pct \<Rightarrow>
             (case py_div (entry - target_price) entry of
                Inl e \<Rightarrow> Inl e
              | Inr q \<Rightarrow>
                  (case legacy_r_targets_short cfg entry primary_stop_dist (Suc i) rest of
                     Inl e \<Rightarrow> Inl e
                   | Inr targets \<Rightarrow>
                       Inr (\<lparr>tl_price = target_price, tl_type = EXTENSION,
                             tl_exit_percentage = exit_pct * 100, tl_confidence = 0.5,
                             tl_reason = RTarget multiple,
                             tl_distance_pct = q * 100\<rparr> # targets))))"

text \<open>\<^verbatim>\<open>list.sort\<close> is stable, also with \<^verbatim>\<open>reverse=True\<close>; so are \<open>sort_key\<close> and its
  conjugate by \<open>rev\<close>.\<close>

definition legacy_calculate_targets ::
  "RiskEngineConfig \<Rightarrow> TradeSetup \<Rightarrow> (real \<times> real) list \<Rightarrow> (real \<times> real) list \<Rightarrow> real
     \<Rightarrow> py_error + TargetLevel list" where
  "legacy_calculate_targets cfg setup supports resistances atr =
     (let entry = ts_entry_price setup;
          primary_stop_dist = atr * atr_stop_multiplier cfg
      in if ts_direction setup = ''long''
         then (let valid_resistances =
                     sort_key fst (filter (\<lambda>(r, c). r > entry) resistances)
               in case legacy_resistance_targets cfg entry primary_stop_dist 0
                         (take 3 valid_resistances) of
                    Inl e \<Rightarrow> Inl e
                  | Inr targets \<Rightarrow>
                      if targets = []
                      then legacy_r_targets_long cfg entry primary_stop_dist 0 [2.0, 3.0, 5.0]
                      else Inr targets)
         else (let valid_supports =
                     rev (sort_key fst (rev (filter (\<lambda>(s, c). s < entry) supports)))
               in case legacy_support_targets cfg entry primary_stop_dist 0
                         (take 3 valid_supports) of
                    Inl e \<Rightarrow> Inl e
                  | Inr targets \<Rightarrow>
                      if targets = []
                      then legacy_r_targets_short cfg entry primary_stop_dist 0 [2.0, 3.0, 5.0]
                      else Inr targets))"

subsection \<open>A concrete setup\<close>

text \<open>A long setup entered at 95000 with an ATR of 600, its short mirror, and one
  resistance above the entry that is too near for the minimum reward.\<close>

definition example_long_setup :: TradeSetup where
  "example_long_setup =
     \<lparr>ts_entry_price = 95000, ts_direction = ''long'', ts_timeframe = ''4h'',
      ts_symbol = ''BTCUSDT'', ts_account_balance = 10000, ts_risk_per_trade_pct = 1,
      ts_max_stop_distance_pct = 5, ts_min_rr_ratio = 2,
      ts_existing_position_size = 0, ts_existing_avg_price = 0,
      ts_shots_taken = 0, ts_max_shots = 3\<rparr>"

definition example_long_levels :: RiskLevels where
  "example_long_levels =
     example_levels\<lparr>rl_entry_price := 95000, rl_stops := [], rl_targets := []\<rparr>"

section \<open>Properties of the guarding line\<close>

lemma fold_min_in: "fold min xs (x::real) \<in> set (x # xs)"
  by (induction xs arbitrary: x) (auto simp: min_def)

lemma fold_max_in: "fold max xs (x::real) \<in> set (x # xs)"
  by (induction xs arbitrary: x) (auto simp: max_def)

lemma py_min_in: "xs \<noteq> [] \<Longrightarrow> py_min xs \<in> set xs"
  using fold_min_in by (cases xs) auto

lemma py_max_in: "xs \<noteq> [] \<Longrightarrow> py_max xs \<in> set xs"
  using fold_max_in by (cases xs) auto

lemma gm_clamp_slope_long:
  assumes "0 < entry_price" "0 < gm_min_slope_pct gm" "gm_min_slope_pct gm \<le> gm_max_slope_pct gm"
  shows "entry_price * (gm_min_slope_pct gm / 100) \<le> gm_clamp_slope gm entry_price ''long'' raw"
    and "gm_clamp_slope gm entry_price ''long'' raw \<le> entry_price * (gm_max_slope_pct gm / 100)"
    and "0 < gm_clamp_slope gm entry_price ''long'' raw"
proof -
  have a: "0 < entry_price * (gm_min_slope_pct gm / 100)" using assms by simp
  have b: "entry_price * (gm_min_slope_pct gm / 100) \<le> entry_price * (gm_max_slope_pct gm / 100)"
    using assms by (simp add: mult_left_mono divide_right_mono)
  show "entry_price * (gm_min_slope_pct gm / 100) \<le> gm_clamp_slope gm entry_price ''long'' raw"
    using a b unfolding gm_clamp_slope_def Let_def by (simp add: max_def min_def)
  show "gm_clamp_slope gm entry_price ''long'' raw \<le> entry_price * (gm_max_slope_pct gm / 100)"
    using a b unfolding gm_clamp_slope_def Let_def by (simp add: max_def min_def)
  show "0 < gm_clamp_slope gm entry_price ''long'' raw"
    using a b unfolding gm_clamp_slope_def Let_def by (simp add: max_def min_def)
qed

lemma gm_clamp_slope_short:
  assumes "0 < entry_price" "0 < gm_min_slope_pct gm" "gm_min_slope_pct gm \<le> gm_max_slope_pct gm"
    "direction \<noteq> ''long''"
  shows "gm_clamp_slope gm entry_price direction raw \<le> - (entry_price * (gm_min_slope_pct gm / 100))"
    and "- (entry_price * (gm_max_slope_pct gm / 100)) \<le> gm_clamp_slope gm entry_price direction raw"
    and "gm_clamp_slope gm entry_price direction raw < 0"
proof -
  have a: "0 < entry_price * (gm_min_slope_pct gm / 100)" using assms by simp
  have b: "entry_price * (gm_min_slope_pct gm / 100) \<le> entry_price * (gm_max_slope_pct gm / 100)"
    using assms by (simp add: mult_left_mono divide_right_mono)
  show "gm_clamp_slope gm entry_price direction raw \<le> - (entry_price * (gm_min_slope_pct gm / 100))"
    using a b assms(4) unfolding gm_clamp_slope_def Let_def by (simp add: max_def min_def)
  show "- (entry_price * (gm_max_slope_pct gm / 100)) \<le> gm_clamp_slope gm entry_price direction raw"
    using a b assms(4) unfolding gm_clamp_slope_def Let_def by (simp add: max_def min_def)
  show "gm_clamp_slope gm entry_price direction raw < 0"
    using a b assms(4) unfolding gm_clamp_slope_def Let_def by (simp add: max_def min_def)
qed


lemma gm_line_short_data:
  assumes "gm_calculate_initial_line gm entry_price direction price_data lookback = Inr lp"
    and "length price_data < 5"
  shows "slope lp = (if direction = ''long'' then entry_price * (gm_min_slope_pct gm / 100)
                     else - (entry_price * (gm_min_slope_pct gm / 100)))"
    and "intercept lp = entry_price * (if direction = ''long'' then 0.97 else 1.03)"
  using assms unfolding gm_calculate_initial_line_def Let_def by auto

lemma gm_line_activation:
  assumes "gm_calculate_initial_line gm entry_price direction price_data lookback = Inr lp"
  shows "activation_bar lp = Some (gm_activation_bars gm)"
  using assms unfolding gm_calculate_initial_line_def Let_def
  by (auto split: if_splits sum.splits prod.splits)

lemma gm_line_slope:
  assumes "gm_calculate_initial_line gm entry_price direction price_data lookback = Inr lp"
    and "\<not> length price_data < 5"
  shows "\<exists>raw. slope lp = gm_clamp_slope gm entry_price direction raw"
  using assms unfolding gm_calculate_initial_line_def Let_def
  by (auto split: sum.splits prod.splits)

lemma gm_line_intercept:
  assumes "gm_calculate_initial_line gm entry_price direction price_data lookback = Inr lp"
    and "\<not> length price_data < 5"
  shows "intercept lp =
     (let recent = take (min lookback (length price_data)) price_data
      in if direction = ''long''
         then (if recent \<noteq> [] then py_min recent else entry_price * 0.97)
              * (1 - gm_buffer_pct gm / 100)
         else (if recent \<noteq> [] then py_max recent else entry_price * 1.03)
              * (1 + gm_buffer_pct gm / 100))"
  using assms unfolding gm_calculate_initial_line_def Let_def
  by (auto split: sum.splits prod.splits)

lemma gm_intercept_pos:
  assumes "gm_calculate_initial_line gm entry_price direction price_data lookback = Inr lp"
    and "0 < entry_price" and "\<forall>p \<in> set price_data. 0 < p"
    and "0 \<le> gm_buffer_pct gm" and "gm_buffer_pct gm < 100"
  shows "0 < intercept lp"
proof (cases "length price_data < 5")
  case True
  then show ?thesis using gm_line_short_data(2)[OF assms(1)] assms(2) by auto
next
  case False
  let ?recent = "take (min lookback (length price_data)) price_data"
  have sub: "set ?recent \<subseteq> set price_data" by (rule set_take_subset)
  have mn: "?recent \<noteq> [] \<Longrightarrow> 0 < py_min ?recent"
    using py_min_in[of ?recent] sub assms(3) by blast
  have mx: "?recent \<noteq> [] \<Longrightarrow> 0 < py_max ?recent"
    using py_max_in[of ?recent] sub assms(3) by blast
  have f: "0 < 1 - gm_buffer_pct gm / 100" "0 < 1 + gm_buffer_pct gm / 100"
    using assms(4,5) by auto
  have e: "0 < entry_price * 0.97" "0 < entry_price * 1.03" using assms(2) by auto
  have "0 < (if ?recent \<noteq> [] then py_min ?recent else entry_price * 0.97)
              * (1 - gm_buffer_pct gm / 100)"
    using mn e(1) f(1) by (simp only: split: if_splits) (auto intro: mult_pos_pos)
  moreover have "0 < (if ?recent \<noteq> [] then py_max ?recent else entry_price * 1.03)
              * (1 + gm_buffer_pct gm / 100)"
    using mx e(2) f(2) by (simp only: split: if_splits) (auto intro: mult_pos_pos)
  ultimately show ?thesis
    using gm_line_intercept[OF assms(1) False] unfolding Let_def
    by (simp only: split: if_splits) auto
qed

lemma gm_slope_sign:
  assumes "gm_calculate_initial_line gm entry_price direction price_data lookback = Inr lp"
    and "0 < entry_price" and "0 < gm_min_slope_pct gm"
    and "gm_min_slope_pct gm \<le> gm_max_slope_pct gm"
  shows "direction = ''long'' \<Longrightarrow> 
           entry_price * (gm_min_slope_pct gm / 100) \<le> slope lp \<and>
           slope lp \<le> entry_price * (gm_max_slope_pct gm / 100) \<and> 0 < slope lp"
    and "direction \<noteq> ''long'' \<Longrightarrow> 
           - (entry_price * (gm_max_slope_pct gm / 100)) \<le> slope lp \<and>
           slope lp \<le> - (entry_price * (gm_min_slope_pct gm / 100)) \<and> slope lp < 0"
proof -
  have a: "0 < entry_price * (gm_min_slope_pct gm / 100)" using assms by simp
  have b: "entry_price * (gm_min_slope_pct gm / 100) \<le> entry_price * (gm_max_slope_pct gm / 100)"
    using assms by (simp add: mult_left_mono divide_right_mono)
  show "direction = ''long'' \<Longrightarrow> 
           entry_price * (gm_min_slope_pct gm / 100) \<le> slope lp \<and>
           slope lp \<le> entry_price * (gm_max_slope_pct gm / 100) \<and> 0 < slope lp"
  proof (cases "length price_data < 5")
    case True
    assume "direction = ''long''"
    then show ?thesis using gm_line_short_data(1)[OF assms(1) True] a b by simp
  next
    case False
    assume "direction = ''long''"
    then show ?thesis using gm_line_slope[OF assms(1) False]
      gm_clamp_slope_long[OF assms(2,3,4)] by auto
  qed
  show "direction \<noteq> ''long'' \<Longrightarrow> 
           - (entry_price * (gm_max_slope_pct gm / 100)) \<le> slope lp \<and>
           slope lp \<le> - (entry_price * (gm_min_slope_pct gm / 100)) \<and> slope lp < 0"
  proof (cases "length price_data < 5")
    case True
    assume "direction \<noteq> ''long''"
    then show ?thesis using gm_line_short_data(1)[OF assms(1) True] a b by simp
  next
    case False
    assume d: "direction \<noteq> ''long''"
    show ?thesis using gm_line_slope[OF assms(1) False]
      gm_clamp_slope_short[OF assms(2,3,4) d] by auto
  qed
qed

lemma gl_slope_sign:
  assumes "gl_calculate_initial_line gl entry_price direction price_data lookback = Inr lp"
  shows "direction = ''long'' \<Longrightarrow> 0 \<le> slope lp"
    and "direction \<noteq> ''long'' \<Longrightarrow> slope lp \<le> 0"
  using assms unfolding gl_calculate_initial_line_def Let_def
  by (auto split: if_splits sum.splits prod.splits)


text \<open>Claim C6, as amended. For a positive entry price, the slope returned by
  \<^verbatim>\<open>GuardingLineManager.calculate_initial_line\<close> is at least \<open>min_slope_pct\<close> percent and at
  most \<open>max_slope_pct\<close> percent of the entry price per bar, strictly positive for long and
  mirrored (strictly negative) otherwise. The legacy \<^verbatim>\<open>GuardingLine.calculate_initial_line\<close>
  only clamps the sign: non-negative for long, non-positive otherwise.\<close>

theorem initial_line_slope_clamped:
  assumes "0 < entry_price" and "0 < gm_min_slope_pct gm"
    and "gm_min_slope_pct gm \<le> gm_max_slope_pct gm"
  shows "(\<forall>lp. gm_calculate_initial_line gm entry_price direction price_data lookback = Inr lp \<longrightarrow>
            (direction = ''long'' \<longrightarrow>
               entry_price * (gm_min_slope_pct gm / 100) \<le> slope lp \<and>
               slope lp \<le> entry_price * (gm_max_slope_pct gm / 100) \<and> 0 < slope lp) \<and>
            (direction \<noteq> ''long'' \<longrightarrow>
               - (entry_price * (gm_max_slope_pct gm / 100)) \<le> slope lp \<and>
               slope lp \<le> - (entry_price * (gm_min_slope_pct gm / 100)) \<and> slope lp < 0))
       \<and> (\<forall>lp. gl_calculate_initial_line gl entry_price direction price_data lookback = Inr lp \<longrightarrow>
            (direction = ''long'' \<longrightarrow> 0 \<le> slope lp) \<and>
            (direction \<noteq> ''long'' \<longrightarrow> slope lp \<le> 0))"
  using gm_slope_sign[OF _ assms] gl_slope_sign by blast

lemma gm_example_line:
  "gm_calculate_initial_line (GuardingLineManager 10 0.3) 100 ''long'' [100, 99, 98, 97, 96] 20
   = Inr \<lparr>slope = 1 / 20, intercept = 11964 / 125, activation_bar = Some 10,
          buffer_pct = 3 / 10, slope_source = Some ''linear_regression'',
          base_level = Some 96\<rparr>"
  by (simp add: gm_calculate_initial_line_def GuardingLineManager_def gm_raw_slope_def
      gm_clamp_slope_def find_swing_points_def is_swing_def np_polyfit1_def np_arange_def
      Let_def upt_rec)

lemma gl_example_line:
  "gl_calculate_initial_line (GuardingLine 10 0.3) 100 ''long'' [100, 99, 98, 97, 96] 20
   = Inr \<lparr>slope = 0, intercept = 997 / 10, activation_bar = Some 10, buffer_pct = 3 / 10,
          slope_source = None, base_level = None\<rparr>"
  by (simp add: gl_calculate_initial_line_def GuardingLine_def find_swing_points_def is_swing_def
      np_polyfit1_def np_arange_def Let_def upt_rec)

text \<open>Witness for C6: the manager on five falling lows; the raw slope \<open>-1\<close> is raised to the
  minimum slope \<open>0.05\<close>.\<close>

theorem initial_line_slope_clamped_witness:
  "(0::real) < 100 \<and> 0 < gm_min_slope_pct (GuardingLineManager 10 0.3) \<and>
   gm_min_slope_pct (GuardingLineManager 10 0.3) \<le> gm_max_slope_pct (GuardingLineManager 10 0.3) \<and>
   gm_calculate_initial_line (GuardingLineManager 10 0.3) 100 ''long'' [100, 99, 98, 97, 96] 20
     = Inr \<lparr>slope = 1 / 20, intercept = 11964 / 125, activation_bar = Some 10,
            buffer_pct = 3 / 10, slope_source = Some ''linear_regression'',
            base_level = Some 96\<rparr> \<and>
   100 * (gm_min_slope_pct (GuardingLineManager 10 0.3) / 100)
     \<le> slope \<lparr>slope = 1 / 20, intercept = 11964 / 125, activation_bar = Some 10,
            buffer_pct = 3 / 10, slope_source = Some ''linear_regression'',
            base_level = Some 96\<rparr>"
proof -
  have h: "(0::real) < 100" "0 < gm_min_slope_pct (GuardingLineManager 10 0.3)"
    "gm_min_slope_pct (GuardingLineManager 10 0.3) \<le> gm_max_slope_pct (GuardingLineManager 10 0.3)"
    by (simp_all add: GuardingLineManager_def)
  from initial_line_slope_clamped[OF h, of "''long''" "[100, 99, 98, 97, 96]" 20]
    gm_example_line h
  show ?thesis by blast
qed

text \<open>Counterexample to C6 as stated: on the same five lows the legacy \<^verbatim>\<open>GuardingLine\<close>
  returns a flat line (slope \<open>0\<close>).\<close>

theorem initial_line_flat_counterexample:
  "gl_calculate_initial_line (GuardingLine 10 0.3) 100 ''long'' [100, 99, 98, 97, 96] 20
     = Inr \<lparr>slope = 0, intercept = 997 / 10, activation_bar = Some 10, buffer_pct = 3 / 10,
            slope_source = None, base_level = None\<rparr>
   \<and> slope \<lparr>slope = 0, intercept = 997 / 10, activation_bar = Some 10, buffer_pct = 3 / 10,
            slope_source = None, base_level = None\<rparr> = 0"
  using gl_example_line by simp

text \<open>Claim C7, as amended. For a line produced by the manager from positive prices, a positive
  entry and a buffer in \<open>[0, 100)\<close>: before the activation bar the level is \<open>0.9 \<times> intercept\<close>
  for long (below the line) and \<open>1.1 \<times> intercept\<close> for short (above the line), and
  \<^verbatim>\<open>check_break\<close> against it reports a break exactly when the price lies beyond that far
  level; from the activation bar on the level is
  \<open>intercept + slope \<times> (bars_since_entry - activation_bar)\<close>, for both classes.\<close>

theorem guarding_level_inactive_then_linear:
  assumes inr: "gm_calculate_initial_line gm entry_price direction price_data lookback = Inr lp"
    and e: "0 < entry_price" and p: "\<forall>p \<in> set price_data. 0 < p"
    and b: "0 \<le> gm_buffer_pct gm" "gm_buffer_pct gm < 100"
    and m: "0 < gm_min_slope_pct gm" "gm_min_slope_pct gm \<le> gm_max_slope_pct gm"
  shows "(bars < gm_activation_bars gm \<longrightarrow> direction = ''long'' \<longrightarrow>
            get_current_level a lp bars = intercept lp * 0.9 \<and>
            get_current_level a lp bars < intercept lp \<and>
            (fst (gm_check_break price (get_current_level a lp bars) direction)
               \<longleftrightarrow> price < intercept lp * 0.9))
       \<and> (bars < gm_activation_bars gm \<longrightarrow> direction = ''short'' \<longrightarrow>
            get_current_level a lp bars = intercept lp * 1.1 \<and>
            intercept lp < get_current_level a lp bars \<and>
            (fst (gm_check_break price (get_current_level a lp bars) direction)
               \<longleftrightarrow> intercept lp * 1.1 < price))
       \<and> (gm_activation_bars gm \<le> bars \<longrightarrow>
            get_current_level a lp bars
              = intercept lp + slope lp * real_of_int (bars - gm_activation_bars gm))
       \<and> (\<forall>lp'. gl_calculate_initial_line gl entry_price direction price_data lookback = Inr lp' \<longrightarrow>
            gl_activation_bars gl \<le> bars \<longrightarrow>
            get_current_level a lp' bars
              = intercept lp' + slope lp' * real_of_int (bars - gl_activation_bars gl))"
proof -
  have act: "activation_bar lp = Some (gm_activation_bars gm)"
    by (rule gm_line_activation[OF inr])
  have ipos: "0 < intercept lp" by (rule gm_intercept_pos[OF inr e p b])
  have long: "direction = ''long'' \<Longrightarrow> 0 < slope lp"
    using gm_slope_sign(1)[OF inr e m] by simp
  have short: "direction = ''short'' \<Longrightarrow> slope lp < 0"
    using gm_slope_sign(2)[OF inr e m] by simp
  have c1: "bars < gm_activation_bars gm \<longrightarrow> direction = ''long'' \<longrightarrow>
            get_current_level a lp bars = intercept lp * 0.9 \<and>
            get_current_level a lp bars < intercept lp \<and>
            (fst (gm_check_break price (get_current_level a lp bars) direction)
               \<longleftrightarrow> price < intercept lp * 0.9)"
    using act ipos long by (auto simp: get_current_level_def gm_check_break_def)
  have c2: "bars < gm_activation_bars gm \<longrightarrow> direction = ''short'' \<longrightarrow>
            get_current_level a lp bars = intercept lp * 1.1 \<and>
            intercept lp < get_current_level a lp bars \<and>
            (fst (gm_check_break price (get_current_level a lp bars) direction)
               \<longleftrightarrow> intercept lp * 1.1 < price)"
    using act ipos short by (auto simp: get_current_level_def gm_check_break_def)
  have c3: "gm_activation_bars gm \<le> bars \<longrightarrow>
            get_current_level a lp bars
              = intercept lp + slope lp * real_of_int (bars - gm_activation_bars gm)"
    using act by (simp add: get_current_level_def)
  have c4: "\<forall>lp'. gl_calculate_initial_line gl entry_price direction price_data lookback = Inr lp' \<longrightarrow>
            gl_activation_bars gl \<le> bars \<longrightarrow>
            get_current_level a lp' bars
              = intercept lp' + slope lp' * real_of_int (bars - gl_activation_bars gl)"
    unfolding gl_calculate_initial_line_def Let_def
    by (auto simp: get_current_level_def split: if_splits sum.splits prod.splits)
  from c1 c2 c3 c4 show ?thesis by blast
qed

text \<open>Witness for C7: bar 3 (inactive) and bar 15 (active) of the example line.\<close>

theorem guarding_level_inactive_then_linear_witness:
  "gm_calculate_initial_line (GuardingLineManager 10 0.3) 100 ''long'' [100, 99, 98, 97, 96] 20
     = Inr \<lparr>slope = 1 / 20, intercept = 11964 / 125, activation_bar = Some 10,
            buffer_pct = 3 / 10, slope_source = Some ''linear_regression'',
            base_level = Some 96\<rparr>
   \<and> (0::real) < 100
   \<and> get_current_level 10 \<lparr>slope = 1 / 20, intercept = 11964 / 125, activation_bar = Some 10,
            buffer_pct = 3 / 10, slope_source = Some ''linear_regression'',
            base_level = Some 96\<rparr> 3 = (11964 / 125) * 0.9
   \<and> get_current_level 10 \<lparr>slope = 1 / 20, intercept = 11964 / 125, activation_bar = Some 10,
            buffer_pct = 3 / 10, slope_source = Some ''linear_regression'',
            base_level = Some 96\<rparr> 15 = 11964 / 125 + (1 / 20) * 5"
proof -
  let ?gm = "GuardingLineManager 10 0.3"
  have h: "(0::real) < 100" "\<forall>p \<in> set [100, 99, 98, 97, 96 :: real]. 0 < p"
    "0 \<le> gm_buffer_pct ?gm" "gm_buffer_pct ?gm < 100"
    "0 < gm_min_slope_pct ?gm" "gm_min_slope_pct ?gm \<le> gm_max_slope_pct ?gm"
    by (simp_all add: GuardingLineManager_def)
  have a: "(3::int) < gm_activation_bars ?gm" "gm_activation_bars ?gm \<le> (15::int)"
    "gm_activation_bars ?gm = 10"
    by (simp_all add: GuardingLineManager_def)
  note t = guarding_level_inactive_then_linear[OF gm_example_line h]
  from t[of 3 10 80] a have "get_current_level 10 \<lparr>slope = 1 / 20, intercept = 11964 / 125, activation_bar = Some 10,
            buffer_pct = 3 / 10, slope_source = Some ''linear_regression'',
            base_level = Some 96\<rparr> 3 = (11964 / 125) * 0.9" by simp
  moreover from t[of 15 10 80] a have "get_current_level 10 \<lparr>slope = 1 / 20, intercept = 11964 / 125, activation_bar = Some 10,
            buffer_pct = 3 / 10, slope_source = Some ''linear_regression'',
            base_level = Some 96\<rparr> 15 = 11964 / 125 + (1 / 20) * 5" by simp
  ultimately show ?thesis using gm_example_line h by blast
qed

text \<open>Counterexample to C7 as stated: before activation (bar 3 of 10) a price of 80 lies below
  the far level \<open>0.9 \<times> 95.712\<close>, and \<^verbatim>\<open>check_break\<close> reports a break.\<close>

theorem guarding_break_before_activation_counterexample:
  "gm_calculate_initial_line (GuardingLineManager 10 0.3) 100 ''long'' [100, 99, 98, 97, 96] 20
     = Inr \<lparr>slope = 1 / 20, intercept = 11964 / 125, activation_bar = Some 10,
            buffer_pct = 3 / 10, slope_source = Some ''linear_regression'',
            base_level = Some 96\<rparr>
   \<and> (3::int) < 10
   \<and> gm_check_break 80
        (get_current_level 10
           \<lparr>slope = 1 / 20, intercept = 11964 / 125, activation_bar = Some 10,
            buffer_pct = 3 / 10, slope_source = Some ''linear_regression'',
            base_level = Some 96\<rparr> 3) ''long''
     = (True, Some (BrokeBelow 80 (53838 / 625)))"
  using gm_example_line by (simp add: get_current_level_def gm_check_break_def)

text \<open>The legacy class infers the side from the sign of the slope. A short line whose slope
  was clamped to \<open>0\<close> is treated as a long one: its inactive level is \<open>0.9 \<times> intercept\<close>,
  below the line, and a price just under the line counts as a break.\<close>
lemma legacy_short_flat_line:
  "gl_calculate_initial_line (GuardingLine 10 0.3) 100 ''short'' [96, 97, 98, 99, 100] 20
     = Inr \<lparr>slope = 0, intercept = 12036 / 125, activation_bar = Some 10, buffer_pct = 3 / 10,
            slope_source = None, base_level = None\<rparr>
   \<and> gl_check_break 95
        (get_current_level 10
           \<lparr>slope = 0, intercept = 12036 / 125, activation_bar = Some 10, buffer_pct = 3 / 10,
            slope_source = None, base_level = None\<rparr> 3) ''short''
     = (True, Some (BrokeAbove 95 (54162 / 625)))"
  by (simp add: gl_calculate_initial_line_def GuardingLine_def find_swing_points_def is_swing_def
      np_polyfit1_def np_arange_def Let_def upt_rec get_current_level_def gl_check_break_def)

section \<open>Properties of the momentum trailing take-profit\<close>

text \<open>The regression over \<^verbatim>\<open>np.arange(n)\<close> is regular for \<open>n \<ge> 2\<close>, so
  \<^verbatim>\<open>calculate_slope\<close> and \<^verbatim>\<open>update\<close> never fail.\<close>

lemma np_arange_Suc: "np_arange (Suc n) = np_arange n @ [real n]"
  by (simp add: np_arange_def)

lemma sum_arange: "sum_list (np_arange n) = real n * (real n - 1) / 2"
  by (induction n) (simp_all add: np_arange_Suc np_arange_def field_simps)

lemma sumsq_arange:
  "sum_list (map (\<lambda>x. x * x) (np_arange n)) = (real n - 1) * real n * (2 * real n - 1) / 6"
  by (induction n) (simp_all add: np_arange_Suc np_arange_def field_simps)

lemma arange_det_pos:
  assumes "2 \<le> n"
  shows "0 < real (length (np_arange n)) * sum_list (map (\<lambda>x. x * x) (np_arange n))
             - sum_list (np_arange n) * sum_list (np_arange n)"
proof -
  have l: "length (np_arange n) = n" by (simp add: np_arange_def)
  have "real n * ((real n - 1) * real n * (2 * real n - 1) / 6)
          - (real n * (real n - 1) / 2) * (real n * (real n - 1) / 2)
        = (real n)\<^sup>2 * (real n - 1) * (real n + 1) / 12"
    by (simp add: field_simps power2_eq_square)
  moreover have "0 < (real n)\<^sup>2 * (real n - 1) * (real n + 1) / 12"
    using assms by simp
  ultimately have "0 < real n * ((real n - 1) * real n * (2 * real n - 1) / 6)
          - (real n * (real n - 1) / 2) * (real n * (real n - 1) / 2)"
    by (simp only:)
  then show ?thesis by (simp only: l sum_arange sumsq_arange)
qed

lemma np_polyfit1_arange:
  assumes "2 \<le> n"
  shows "\<exists>s i. np_polyfit1 (np_arange n) ys = Inr (s, i)"
  using arange_det_pos[OF assms] unfolding np_polyfit1_def Let_def by auto

lemma calculate_slope_total: "\<exists>sp st. calculate_slope tp closes direction = Inr (sp, st)"
proof (cases "length closes < 3")
  case True
  then show ?thesis by (simp add: calculate_slope_def)
next
  case False
  let ?recent = "if length closes \<ge> slope_lookback tp
                       then py_last_n (slope_lookback tp) closes else closes"
  show ?thesis
  proof (cases "length (np_arange (length ?recent)) < 2")
    case True
    then show ?thesis using False unfolding calculate_slope_def Let_def by simp
  next
    case f2: False
    then have "2 \<le> length ?recent" by (simp add: np_arange_def)
    from np_polyfit1_arange[OF this, of ?recent] obtain s i
      where "np_polyfit1 (np_arange (length ?recent)) ?recent = Inr (s, i)" by blast
    then show ?thesis using False f2 unfolding calculate_slope_def Let_def by simp
  qed
qed

lemma calculate_slope_not_error: "calculate_slope tp closes direction \<noteq> Inl e"
  using calculate_slope_total[of tp closes direction] by auto

lemma momentum_update_not_error:
  "momentum_update tp state price r direction closes candles \<noteq> Inl e"
  by (simp add: momentum_update_def Let_def calculate_slope_not_error
      split: sum.splits prod.splits)

lemma momentum_update_total:
  "\<exists>s' ex rsn. momentum_update tp state price r direction closes candles = Inr (s', ex, rsn)"
proof (cases "momentum_update tp state price r direction closes candles")
  case (Inl e)
  then show ?thesis using momentum_update_not_error by blast
next
  case (Inr res)
  then show ?thesis by (cases res) auto
qed

lemma momentum_update_active:
  assumes "active state"
    and "momentum_update tp state price r direction closes candles = Inr (s', ex, rsn)"
  shows "active s'"
  using assms unfolding momentum_update_def Let_def
  by (auto split: sum.splits prod.splits if_splits)

lemma momentum_update_long:
  assumes "active state"
    and "momentum_update tp state price r ''long'' closes candles = Inr (s', ex, rsn)"
  shows "trailing_level state \<le> trailing_level s'" "ex \<longleftrightarrow> price < trailing_level s'"
  using assms unfolding momentum_update_def Let_def
  by (auto split: sum.splits prod.splits if_splits)

lemma momentum_update_short:
  assumes "active state"
    and "momentum_update tp state price r ''short'' closes candles = Inr (s', ex, rsn)"
  shows "trailing_level s' \<le> trailing_level state" "ex \<longleftrightarrow> trailing_level s' < price"
  using assms unfolding momentum_update_def Let_def
  by (auto split: sum.splits prod.splits if_splits)



text \<open>Claim C4. On an active state \<^verbatim>\<open>MomentumTrailingTP.update\<close> always returns; the new
  trailing level is never below the old one for long and never above it for short; and it
  signals an exit exactly when the current price is strictly below (long) or strictly above
  (short) the new trailing level.\<close>

theorem momentum_trailing_ratchet_and_exit:
  assumes "active state"
  shows "\<exists>s' ex rsn.
           momentum_update tp state price r direction closes candles = Inr (s', ex, rsn) \<and>
           (direction = ''long'' \<longrightarrow>
              trailing_level state \<le> trailing_level s' \<and> (ex \<longleftrightarrow> price < trailing_level s')) \<and>
           (direction = ''short'' \<longrightarrow>
              trailing_level s' \<le> trailing_level state \<and> (ex \<longleftrightarrow> trailing_level s' < price))"
proof -
  obtain s' ex rsn
    where u: "momentum_update tp state price r direction closes candles = Inr (s', ex, rsn)"
    using momentum_update_total by blast
  have "direction = ''long'' \<longrightarrow>
          trailing_level state \<le> trailing_level s' \<and> (ex \<longleftrightarrow> price < trailing_level s')"
    using momentum_update_long[OF assms] u by blast
  moreover have "direction = ''short'' \<longrightarrow>
          trailing_level s' \<le> trailing_level state \<and> (ex \<longleftrightarrow> trailing_level s' < price)"
    using momentum_update_short[OF assms] u by blast
  ultimately show ?thesis using u by blast
qed

lemma example_calculate_slope:
  "calculate_slope engine_momentum_tp [100, 101, 102, 103, 104] ''long''
     = Inr (50 / 51, 50 / 51)"
  by (simp add: calculate_slope_def engine_momentum_tp_def py_last_n_def np_arange_def
      np_polyfit1_def np_mean_def Let_def upt_rec power2_eq_square)

lemma example_momentum_exit:
  "momentum_update engine_momentum_tp example_active_state 101 (3 / 2) ''long''
     (map c_close example_candles) example_candles
   = Inr (\<lparr>active = True, trailing_level = 102, ms_slope = 50 / 51,
           slope_strength = 50 / 51, bars_in_momentum = 3, peak_price = 104,
           trail_buffer_pct = 3 / 17, last_candle_body_high = 104,
           last_candle_body_low = 103, activation_r = 1\<rparr>,
          True, Some (MomentumTrailBroken 102 (1 / 2)))"
proof -
  have c: "map c_close example_candles = [100, 101, 102, 103, 104]"
    by (simp add: example_candles_def)
  have b: "calculate_trail_buffer engine_momentum_tp (50 / 51) = 3 / 17"
    by (simp add: calculate_trail_buffer_def engine_momentum_tp_def Let_def)
  have l: "calculate_trail_level engine_momentum_tp 101 ''long'' example_candles (3 / 17)
             = 201697 / 2000"
    by (simp add: calculate_trail_level_def engine_momentum_tp_def example_candles_def
        py_last_n_def Let_def)
  show ?thesis
    unfolding momentum_update_def c example_calculate_slope
    by (simp add: Let_def b l example_active_state_def) (simp add: example_candles_def)
qed


text \<open>Witness for C4: an active long state trailing at 102 and a price of 101.\<close>

theorem momentum_trailing_ratchet_and_exit_witness:
  "active example_active_state \<and>
   momentum_update engine_momentum_tp example_active_state 101 (3 / 2) ''long''
     (map c_close example_candles) example_candles
   = Inr (\<lparr>active = True, trailing_level = 102, ms_slope = 50 / 51,
           slope_strength = 50 / 51, bars_in_momentum = 3, peak_price = 104,
           trail_buffer_pct = 3 / 17, last_candle_body_high = 104,
           last_candle_body_low = 103, activation_r = 1\<rparr>,
          True, Some (MomentumTrailBroken 102 (1 / 2))) \<and>
   trailing_level example_active_state \<le> 102 \<and> (101::real) < 102"
proof -
  have a: "active example_active_state" by (simp add: example_active_state_def)
  from momentum_trailing_ratchet_and_exit[OF a, of engine_momentum_tp 101 "3 / 2" "''long''"
      "map c_close example_candles" example_candles]
  obtain s' ex rsn where
    u: "momentum_update engine_momentum_tp example_active_state 101 (3 / 2) ''long''
          (map c_close example_candles) example_candles = Inr (s', ex, rsn)"
    and p: "trailing_level example_active_state \<le> trailing_level s'"
           "ex \<longleftrightarrow> 101 < trailing_level s'"
    by auto
  from u example_momentum_exit have "trailing_level s' = 102" "ex" by auto
  with p a example_momentum_exit show ?thesis by simp
qed

section \<open>Properties of \<^verbatim>\<open>update_position\<close>\<close>

subsection \<open>What each block leaves alone\<close>

lemma step_breakeven_levels:
  "snd (step_breakeven cfg res levels) =
     (if enable_breakeven_stop cfg \<and> current_r_multiple res \<ge> breakeven_trigger_r cfg \<and>
         (case rl_stops levels of [] \<Rightarrow> False
          | s # _ \<Rightarrow> s_price s \<noteq> 0 \<and>
                 is_better_stop (breakeven_target cfg levels) (s_price s) (rl_direction levels))
      then moved_levels cfg levels else levels)"
  by (simp add: step_breakeven_def moved_levels_def Let_def split: list.splits)

lemma step_breakeven_moved:
  "moved_to_breakeven (fst (step_breakeven cfg res levels)) =
     (moved_to_breakeven res \<or>
      (enable_breakeven_stop cfg \<and> current_r_multiple res \<ge> breakeven_trigger_r cfg \<and>
         (case rl_stops levels of [] \<Rightarrow> False
          | s # _ \<Rightarrow> s_price s \<noteq> 0 \<and>
                 is_better_stop (breakeven_target cfg levels) (s_price s) (rl_direction levels))))"
  by (auto simp: step_breakeven_def Let_def split: list.splits)

lemma step_breakeven_r:
  "current_r_multiple (fst (step_breakeven cfg res levels)) = current_r_multiple res"
  by (simp add: step_breakeven_def Let_def split: list.splits)

lemma step_breakeven_exit:
  "exit_fields (fst (step_breakeven cfg res levels)) = exit_fields res"
  by (simp add: step_breakeven_def exit_fields_def Let_def split: list.splits)

lemma step_momentum_keeps:
  assumes "step_momentum eng res levels states ohlcv key current = (Inr res', states')"
  shows "moved_to_breakeven res' = moved_to_breakeven res"
    and "current_r_multiple res' = current_r_multiple res"
  using assms unfolding step_momentum_def Let_def
  by (auto split: option.splits if_splits sum.splits prod.splits)

lemma step_divergence_keeps:
  assumes "step_divergence cfg res levels states ohlcv key = Inr res'"
  shows "moved_to_breakeven res' = moved_to_breakeven res"
    and "current_r_multiple res' = current_r_multiple res"
  using assms unfolding step_divergence_def Let_def
  by (auto split: option.splits if_splits sum.splits prod.splits)

lemma step_targets_keeps:
  shows "moved_to_breakeven (step_targets res levels states key current) = moved_to_breakeven res"
    and "current_r_multiple (step_targets res levels states key current) = current_r_multiple res"
  unfolding step_targets_def by (auto split: option.splits)

lemma step_guarding_keeps:
  shows "moved_to_breakeven (step_guarding eng res levels upd) = moved_to_breakeven res"
    and "current_r_multiple (step_guarding eng res levels upd) = current_r_multiple res"
  unfolding step_guarding_def Let_def by (auto split: option.splits prod.splits bool.splits)

lemma step_trail_keeps:
  assumes "step_trail res levels upd = Inr res'"
  shows "moved_to_breakeven res' = moved_to_breakeven res"
    and "current_r_multiple res' = current_r_multiple res"
  using assms unfolding step_trail_def
  by (auto split: option.splits if_splits sum.splits)

lemma step_structure_keeps:
  assumes "step_structure res levels upd = Inr res'"
  shows "moved_to_breakeven res' = moved_to_breakeven res"
    and "current_r_multiple res' = current_r_multiple res"
  using assms unfolding step_structure_def Let_def
  by (auto split: option.splits if_splits sum.splits prod.splits)


subsection \<open>The blocks of a call that returns\<close>

lemma update_position_chain:
  assumes "update_position eng st lv upd ohlcv sid = (Inr res, lv', st')"
  obtains res2 res3 res4 res5 res6 res7 where
    "res2 = fst (step_breakeven (config eng)
              ((new_RiskUpdate (rl_stops lv) (rl_targets lv))
                 \<lparr>current_r_multiple := compute_r_multiple lv (pu_current_price upd)\<rparr>) lv)"
    "lv' = snd (step_breakeven (config eng)
              ((new_RiskUpdate (rl_stops lv) (rl_targets lv))
                 \<lparr>current_r_multiple := compute_r_multiple lv (pu_current_price upd)\<rparr>) lv)"
    "step_momentum eng res2 lv' st ohlcv (momentum_key sid (rl_symbol lv)) (pu_current_price upd)
       = (Inr res3, st')"
    "step_divergence (config eng) res3 lv' st' ohlcv (momentum_key sid (rl_symbol lv)) = Inr res4"
    "res5 = step_targets res4 lv' st' (momentum_key sid (rl_symbol lv)) (pu_current_price upd)"
    "res6 = step_guarding eng res5 lv' upd"
    "step_trail res6 lv' upd = Inr res7"
    "step_structure res7 lv' upd = Inr res"
proof -
  let ?key = "momentum_key sid (rl_symbol lv)"
  let ?cur = "pu_current_price upd"
  define b where "b = step_breakeven (config eng)
              ((new_RiskUpdate (rl_stops lv) (rl_targets lv))
                 \<lparr>current_r_multiple := compute_r_multiple lv (pu_current_price upd)\<rparr>) lv"
  obtain o3 st1 where m: "step_momentum eng (fst b) (snd b) st ohlcv ?key ?cur = (o3, st1)"
    by (cases "step_momentum eng (fst b) (snd b) st ohlcv ?key ?cur") auto
  have u: "update_position eng st lv upd ohlcv sid =
     (case o3 of
        Inl e \<Rightarrow> (Inl e, snd b, st1)
      | Inr res3 \<Rightarrow>
          (case step_divergence (config eng) res3 (snd b) st1 ohlcv ?key of
             Inl e \<Rightarrow> (Inl e, snd b, st1)
           | Inr res4 \<Rightarrow>
               (case step_trail (step_guarding eng (step_targets res4 (snd b) st1 ?key ?cur) (snd b) upd)
                       (snd b) upd of
                  Inl e \<Rightarrow> (Inl e, snd b, st1)
                | Inr res7 \<Rightarrow>
                    (case step_structure res7 (snd b) upd of
                       Inl e \<Rightarrow> (Inl e, snd b, st1)
                     | Inr res8 \<Rightarrow> (Inr res8, snd b, st1)))))"
    unfolding update_position_def Let_def split_beta b_def[symmetric]
    by (simp add: m split: sum.splits)
  from assms u obtain res3 where o3: "o3 = Inr res3"
    by (cases o3) auto
  from assms u o3 obtain res4
    where d: "step_divergence (config eng) res3 (snd b) st1 ohlcv ?key = Inr res4"
    by (cases "step_divergence (config eng) res3 (snd b) st1 ohlcv ?key") auto
  from assms u o3 d obtain res7
    where t: "step_trail (step_guarding eng (step_targets res4 (snd b) st1 ?key ?cur) (snd b) upd)
                (snd b) upd = Inr res7"
    by (cases "step_trail (step_guarding eng (step_targets res4 (snd b) st1 ?key ?cur) (snd b) upd)
                (snd b) upd") auto
  from assms u o3 d t obtain res8 where s: "step_structure res7 (snd b) upd = Inr res8"
    by (cases "step_structure res7 (snd b) upd") auto
  from assms u o3 d t s have e: "res = res8" "lv' = snd b" "st' = st1" by auto
  show ?thesis
    by (rule that[of "fst b" res3 res4 "step_targets res4 (snd b) st1 ?key ?cur"
          "step_guarding eng (step_targets res4 (snd b) st1 ?key ?cur) (snd b) upd" res7])
       (use m o3 d t s e in \<open>simp_all add: b_def\<close>)
qed

lemma update_position_levels_raw:
  assumes "update_position eng st lv upd ohlcv sid = (out, lv', st')"
  shows "lv' = snd (step_breakeven (config eng)
              ((new_RiskUpdate (rl_stops lv) (rl_targets lv))
                 \<lparr>current_r_multiple := compute_r_multiple lv (pu_current_price upd)\<rparr>) lv)"
proof -
  define b where "b = step_breakeven (config eng)
              ((new_RiskUpdate (rl_stops lv) (rl_targets lv))
                 \<lparr>current_r_multiple := compute_r_multiple lv (pu_current_price upd)\<rparr>) lv"
  have "fst (snd (update_position eng st lv upd ohlcv sid)) = snd b"
    unfolding update_position_def Let_def split_beta b_def[symmetric]
    by (simp split: sum.splits prod.splits)
  with assms show ?thesis by (simp add: b_def)
qed

lemma update_position_levels:
  assumes "update_position eng st lv upd ohlcv sid = (out, lv', st')"
  shows "lv' = (if breakeven_fires (config eng) lv (pu_current_price upd)
                then moved_levels (config eng) lv else lv)"
proof -
  have "lv' = snd (step_breakeven (config eng)
              ((new_RiskUpdate (rl_stops lv) (rl_targets lv))
                 \<lparr>current_r_multiple := compute_r_multiple lv (pu_current_price upd)\<rparr>) lv)"
    by (rule update_position_levels_raw[OF assms])
  then show ?thesis
    by (simp add: step_breakeven_levels breakeven_fires_def)
qed

lemma update_position_moved:
  assumes "update_position eng st lv upd ohlcv sid = (Inr res, lv', st')"
  shows "moved_to_breakeven res = breakeven_fires (config eng) lv (pu_current_price upd)"
    and "current_r_multiple res = compute_r_multiple lv (pu_current_price upd)"
proof -
  from assms obtain res2 res3 res4 res5 res6 res7 where c:
    "res2 = fst (step_breakeven (config eng)
              ((new_RiskUpdate (rl_stops lv) (rl_targets lv))
                 \<lparr>current_r_multiple := compute_r_multiple lv (pu_current_price upd)\<rparr>) lv)"
    "step_momentum eng res2 lv' st ohlcv (momentum_key sid (rl_symbol lv)) (pu_current_price upd)
       = (Inr res3, st')"
    "step_divergence (config eng) res3 lv' st' ohlcv (momentum_key sid (rl_symbol lv)) = Inr res4"
    "res5 = step_targets res4 lv' st' (momentum_key sid (rl_symbol lv)) (pu_current_price upd)"
    "res6 = step_guarding eng res5 lv' upd"
    "step_trail res6 lv' upd = Inr res7"
    "step_structure res7 lv' upd = Inr res"
    by (rule update_position_chain)
  have m2: "moved_to_breakeven res2 = breakeven_fires (config eng) lv (pu_current_price upd)"
    unfolding c(1) by (simp add: step_breakeven_moved breakeven_fires_def new_RiskUpdate_def)
  have r2: "current_r_multiple res2 = compute_r_multiple lv (pu_current_price upd)"
    unfolding c(1) by (simp add: step_breakeven_r)
  have "moved_to_breakeven res = moved_to_breakeven res2"
    using step_momentum_keeps(1)[OF c(2)] step_divergence_keeps(1)[OF c(3)]
      step_targets_keeps(1) step_guarding_keeps(1) step_trail_keeps(1)[OF c(6)]
      step_structure_keeps(1)[OF c(7)] c(4,5) by simp
  with m2 show "moved_to_breakeven res = breakeven_fires (config eng) lv (pu_current_price upd)"
    by simp
  have "current_r_multiple res = current_r_multiple res2"
    using step_momentum_keeps(2)[OF c(2)] step_divergence_keeps(2)[OF c(3)]
      step_targets_keeps(2) step_guarding_keeps(2) step_trail_keeps(2)[OF c(6)]
      step_structure_keeps(2)[OF c(7)] c(4,5) by simp
  with r2 show "current_r_multiple res = compute_r_multiple lv (pu_current_price upd)"
    by simp
qed

subsection \<open>The breakeven move\<close>

lemma breakeven_target_moved:
  "breakeven_target cfg (moved_levels cfg lv) = breakeven_target cfg lv"
  by (simp add: breakeven_target_def moved_levels_def split: list.splits)

lemma at_breakeven_no_fire:
  assumes "at_breakeven cfg lv"
  shows "\<not> breakeven_fires cfg lv current"
  using assms
  by (auto simp: at_breakeven_def breakeven_fires_def is_better_stop_def split: list.splits)

lemma fires_then_at_breakeven:
  assumes "breakeven_fires cfg lv current"
  shows "at_breakeven cfg (moved_levels cfg lv)"
proof -
  from assms obtain s rest where s: "rl_stops lv = s # rest"
    by (auto simp: breakeven_fires_def split: list.splits)
  have "rl_stops (moved_levels cfg lv) = stop_to_breakeven (breakeven_target cfg lv) s # rest"
    by (simp add: moved_levels_def s)
  then show ?thesis
    by (simp add: at_breakeven_def breakeven_target_moved stop_to_breakeven_def)
qed

lemma at_breakeven_many:
  assumes "at_breakeven (config eng) lv"
    and "update_many eng st lv calls = (outs, lv', st')"
  shows "lv' = lv \<and> (\<forall>out \<in> set outs. \<not> reports_move out)"
  using assms
proof (induction calls arbitrary: st outs lv' st')
  case Nil
  then show ?case by simp
next
  case (Cons c calls)
  obtain upd ohlcv sid where c: "c = (upd, ohlcv, sid)" by (cases c) auto
  obtain out lv1 st1 where u: "update_position eng st lv upd ohlcv sid = (out, lv1, st1)"
    by (cases "update_position eng st lv upd ohlcv sid") auto
  obtain outs2 lv2 st2 where m: "update_many eng st1 lv1 calls = (outs2, lv2, st2)"
    by (cases "update_many eng st1 lv1 calls") auto
  have nf: "\<not> breakeven_fires (config eng) lv (pu_current_price upd)"
    by (rule at_breakeven_no_fire[OF Cons.prems(1)])
  have l1: "lv1 = lv" using update_position_levels[OF u] nf by simp
  have o: "\<not> reports_move out"
  proof (cases out)
    case (Inl e)
    then show ?thesis by (simp add: reports_move_def)
  next
    case (Inr res)
    then show ?thesis using update_position_moved(1)[of eng st lv upd ohlcv sid res lv1 st1] u nf
      by (simp add: reports_move_def)
  qed
  from Cons.prems(2) have e: "outs = out # outs2" "lv' = lv2" "st' = st2"
    by (simp_all add: c u m)
  from Cons.IH[OF Cons.prems(1), of st1 outs2 lv2 st2] m l1
  have "lv2 = lv \<and> (\<forall>out \<in> set outs2. \<not> reports_move out)" by simp
  with e o show ?case by simp
qed

lemma update_many_append:
  "update_many eng st lv (xs @ ys) =
     (case update_many eng st lv xs of
        (outs1, lv1, st1) \<Rightarrow>
          (case update_many eng st1 lv1 ys of
             (outs2, lv2, st2) \<Rightarrow> (outs1 @ outs2, lv2, st2)))"
  by (induction xs arbitrary: st lv) (auto split: prod.splits)

lemma moves_at_most_once:
  assumes "update_many eng st lv calls = (outs, lv', st')"
  shows "length (filter reports_move outs) \<le> 1"
  using assms
proof (induction calls arbitrary: st lv outs lv' st')
  case Nil
  then show ?case by simp
next
  case (Cons c calls)
  obtain upd ohlcv sid where c: "c = (upd, ohlcv, sid)" by (cases c) auto
  obtain out lv1 st1 where u: "update_position eng st lv upd ohlcv sid = (out, lv1, st1)"
    by (cases "update_position eng st lv upd ohlcv sid") auto
  obtain outs2 lv2 st2 where m: "update_many eng st1 lv1 calls = (outs2, lv2, st2)"
    by (cases "update_many eng st1 lv1 calls") auto
  from Cons.prems have e: "outs = out # outs2" by (simp add: c u m)
  show ?case
  proof (cases "breakeven_fires (config eng) lv (pu_current_price upd)")
    case True
    then have "lv1 = moved_levels (config eng) lv" using update_position_levels[OF u] by simp
    then have "at_breakeven (config eng) lv1" using fires_then_at_breakeven[OF True] by simp
    from at_breakeven_many[OF this m] have "filter reports_move outs2 = []"
      by (simp add: filter_empty_conv)
    then show ?thesis by (simp add: e)
  next
    case False
    have "\<not> reports_move out"
    proof (cases out)
      case (Inl e)
      then show ?thesis by (simp add: reports_move_def)
    next
      case (Inr res)
      then show ?thesis
        using update_position_moved(1)[of eng st lv upd ohlcv sid res lv1 st1] u False
        by (simp add: reports_move_def)
    qed
    then show ?thesis using Cons.IH[OF m] by (simp add: e)
  qed
qed

subsection \<open>Breakeven: at most once, and the frame of a call\<close>

text \<open>Claim C5. In any sequence of \<^verbatim>\<open>update_position\<close> calls on the same
  \<^verbatim>\<open>RiskLevels\<close> object, at most one call reports \<open>moved_to_breakeven\<close>; a call that
  reports it has a current R-multiple, computed from the object as that call found it, of at
  least \<open>breakeven_trigger_r\<close>; and after that call the first stop sits at the breakeven
  price and the object stays exactly as that call left it, whatever calls follow.\<close>

theorem breakeven_move_at_most_once:
  assumes "update_many eng st lv calls = (outs, lv', st')"
  shows "length (filter reports_move outs) \<le> 1
       \<and> (\<forall>pre upd ohlcv sid post outs1 lv1 st1 res lv2 st2.
            calls = pre @ (upd, ohlcv, sid) # post \<longrightarrow>
            update_many eng st lv pre = (outs1, lv1, st1) \<longrightarrow>
            update_position eng st1 lv1 upd ohlcv sid = (Inr res, lv2, st2) \<longrightarrow>
            moved_to_breakeven res \<longrightarrow>
              breakeven_trigger_r (config eng) \<le> current_r_multiple res \<and>
              current_r_multiple res = compute_r_multiple lv1 (pu_current_price upd) \<and>
              at_breakeven (config eng) lv2 \<and>
              lv' = lv2)"
proof -
  have a: "length (filter reports_move outs) \<le> 1"
    by (rule moves_at_most_once[OF assms])
  have b: "breakeven_trigger_r (config eng) \<le> current_r_multiple res \<and>
           current_r_multiple res = compute_r_multiple lv1 (pu_current_price upd) \<and>
           at_breakeven (config eng) lv2 \<and> lv' = lv2"
    if c: "calls = pre @ (upd, ohlcv, sid) # post"
      and p: "update_many eng st lv pre = (outs1, lv1, st1)"
      and u: "update_position eng st1 lv1 upd ohlcv sid = (Inr res, lv2, st2)"
      and m: "moved_to_breakeven res"
    for pre upd ohlcv sid post outs1 lv1 st1 res lv2 st2
  proof -
    have f: "breakeven_fires (config eng) lv1 (pu_current_price upd)"
      using update_position_moved(1)[OF u] m by simp
    have r: "current_r_multiple res = compute_r_multiple lv1 (pu_current_price upd)"
      by (rule update_position_moved(2)[OF u])
    have t: "breakeven_trigger_r (config eng) \<le> current_r_multiple res"
      using f r by (simp add: breakeven_fires_def)
    have l2: "lv2 = moved_levels (config eng) lv1"
      using update_position_levels[OF u] f by simp
    have ab: "at_breakeven (config eng) lv2"
      using fires_then_at_breakeven[OF f] l2 by simp
    obtain outs3 lv3 st3 where q: "update_many eng st2 lv2 post = (outs3, lv3, st3)"
      by (cases "update_many eng st2 lv2 post") auto
    have "update_many eng st lv calls = (outs1 @ Inr res # outs3, lv3, st3)"
      unfolding c by (simp add: update_many_append p u q)
    with assms have "lv' = lv3" by simp
    moreover have "lv3 = lv2" using at_breakeven_many[OF ab q] by simp
    ultimately show ?thesis using t r ab by simp
  qed
  from a b show ?thesis by blast
qed


text \<open>The two calls of the concrete position, evaluated.\<close>

lemma example_first_call:
  "update_position (new_RiskEngine default_config) Map.empty example_levels
     (example_update 110) None None
   = (Inr ((new_RiskUpdate (rl_stops (moved_levels default_config example_levels))
               (rl_targets example_levels))
             \<lparr>current_r_multiple := 1, breakeven_hit := True, stop_moved := True,
              moved_to_breakeven := True, new_stop_price := Some 100.1,
              stop_move_reason := Some (MovedToBreakeven 1),
              alerts := [AlertBreakeven 100.1 1, AlertTargetHit 105],
              exit_signal := True, exit_reason := Some (TargetHit ''2.0R target''),
              exit_percentage := 50\<rparr>),
      moved_levels default_config example_levels, Map.empty)"
  by (simp add: update_position_def new_RiskEngine_def default_config_def example_levels_def
      example_update_def new_RiskUpdate_def compute_r_multiple_def step_breakeven_def
      breakeven_target_def is_better_stop_def stop_to_breakeven_def step_momentum_def
      step_divergence_def step_targets_def step_guarding_def step_trail_def step_structure_def
      momentum_key_def moved_levels_def Let_def)


lemma example_second_call:
  "update_position (new_RiskEngine default_config) Map.empty
     (moved_levels default_config example_levels) (example_update 120) None None
   = (Inr ((new_RiskUpdate (rl_stops (moved_levels default_config example_levels))
               (rl_targets example_levels))
             \<lparr>current_r_multiple := 200, breakeven_hit := True,
              alerts := [AlertTargetHit 105],
              exit_signal := True, exit_reason := Some (TargetHit ''2.0R target''),
              exit_percentage := 50\<rparr>),
      moved_levels default_config example_levels, Map.empty)"
  by (simp add: update_position_def new_RiskEngine_def default_config_def example_levels_def
      example_update_def new_RiskUpdate_def compute_r_multiple_def step_breakeven_def
      breakeven_target_def is_better_stop_def stop_to_breakeven_def step_momentum_def
      step_divergence_def step_targets_def step_guarding_def step_trail_def step_structure_def
      momentum_key_def moved_levels_def trail_stop_def Let_def)

text \<open>Witness for C5: two calls, at prices 110 (R = 1, the move) and 120 (no move).\<close>

theorem breakeven_move_at_most_once_witness:
  "reports_move (fst (update_position (new_RiskEngine default_config) Map.empty example_levels
                        (example_update 110) None None))
   \<and> length (filter reports_move
        (fst (update_many (new_RiskEngine default_config) Map.empty example_levels
                [(example_update 110, None, None), (example_update 120, None, None)]))) \<le> 1
   \<and> fst (snd (update_many (new_RiskEngine default_config) Map.empty example_levels
                [(example_update 110, None, None), (example_update 120, None, None)]))
       = moved_levels default_config example_levels
   \<and> at_breakeven default_config (moved_levels default_config example_levels)
   \<and> breakeven_trigger_r default_config
       \<le> compute_r_multiple example_levels (pu_current_price (example_update 110))"
proof -
  let ?E = "new_RiskEngine default_config"
  let ?calls = "[(example_update 110, None, None), (example_update 120, None, None)]"
  let ?res = "(new_RiskUpdate (rl_stops (moved_levels default_config example_levels))
               (rl_targets example_levels))
             \<lparr>current_r_multiple := 1, breakeven_hit := True, stop_moved := True,
              moved_to_breakeven := True, new_stop_price := Some 100.1,
              stop_move_reason := Some (MovedToBreakeven 1),
              alerts := [AlertBreakeven 100.1 1, AlertTargetHit 105],
              exit_signal := True, exit_reason := Some (TargetHit ''2.0R target''),
              exit_percentage := 50\<rparr>"
  have c: "config ?E = default_config" by (simp add: new_RiskEngine_def)
  have m: "update_many ?E Map.empty example_levels ?calls
             = (fst (update_many ?E Map.empty example_levels ?calls),
                fst (snd (update_many ?E Map.empty example_levels ?calls)),
                snd (snd (update_many ?E Map.empty example_levels ?calls)))"
    by simp
  have p: "update_many ?E Map.empty example_levels [] = ([], example_levels, Map.empty)"
    by simp
  have mv: "moved_to_breakeven ?res" by simp
  note t = breakeven_move_at_most_once[OF m]
  from t have a: "length (filter reports_move (fst (update_many ?E Map.empty example_levels ?calls))) \<le> 1"
    by blast
  from t have "\<forall>pre upd ohlcv sid post outs1 lv1 st1 res lv2 st2.
            ?calls = pre @ (upd, ohlcv, sid) # post \<longrightarrow>
            update_many ?E Map.empty example_levels pre = (outs1, lv1, st1) \<longrightarrow>
            update_position ?E st1 lv1 upd ohlcv sid = (Inr res, lv2, st2) \<longrightarrow>
            moved_to_breakeven res \<longrightarrow>
              breakeven_trigger_r (config ?E) \<le> current_r_multiple res \<and>
              current_r_multiple res = compute_r_multiple lv1 (pu_current_price upd) \<and>
              at_breakeven (config ?E) lv2 \<and>
              fst (snd (update_many ?E Map.empty example_levels ?calls)) = lv2"
    by blast
  from this[rule_format, of "[]" "example_update 110" None None "[(example_update 120, None, None)]",
      OF _ p example_first_call mv]
  have b: "breakeven_trigger_r default_config \<le> current_r_multiple ?res"
    "current_r_multiple ?res = compute_r_multiple example_levels (pu_current_price (example_update 110))"
    "at_breakeven default_config (moved_levels default_config example_levels)"
    "fst (snd (update_many ?E Map.empty example_levels ?calls))
       = moved_levels default_config example_levels"
    by (simp_all add: c)
  have r: "reports_move (fst (update_position ?E Map.empty example_levels
                        (example_update 110) None None))"
    by (simp add: example_first_call reports_move_def)
  from a b r show ?thesis by simp
qed

text \<open>Claim C10. A call changes the \<^verbatim>\<open>RiskLevels\<close> object exactly when the breakeven move
  fires, and then only the price, reason and type of the first stop; a call that returns
  reports \<open>moved_to_breakeven\<close> exactly then; otherwise the object is unchanged. Targets,
  entry price, guarding-line parameters and the other stops are never changed.\<close>

theorem update_position_frame:
  assumes "update_position eng st lv upd ohlcv sid = (out, lv', st')"
  shows "(breakeven_fires (config eng) lv (pu_current_price upd) \<longrightarrow>
            (\<exists>s rest. rl_stops lv = s # rest \<and>
               lv' = lv\<lparr>rl_stops :=
                        s\<lparr>s_price := breakeven_target (config eng) lv,
                          s_reason := BreakevenProtection,
                          s_type := ''breakeven''\<rparr> # rest\<rparr>))
       \<and> (\<not> breakeven_fires (config eng) lv (pu_current_price upd) \<longrightarrow> lv' = lv)
       \<and> (\<forall>res. out = Inr res \<longrightarrow>
            moved_to_breakeven res = breakeven_fires (config eng) lv (pu_current_price upd))
       \<and> rl_targets lv' = rl_targets lv
       \<and> rl_entry_price lv' = rl_entry_price lv
       \<and> rl_guarding_line lv' = rl_guarding_line lv
       \<and> tl (rl_stops lv') = tl (rl_stops lv)"
proof -
  note l = update_position_levels[OF assms]
  have a: "breakeven_fires (config eng) lv (pu_current_price upd) \<longrightarrow>
            (\<exists>s rest. rl_stops lv = s # rest \<and>
               lv' = lv\<lparr>rl_stops :=
                        s\<lparr>s_price := breakeven_target (config eng) lv,
                          s_reason := BreakevenProtection,
                          s_type := ''breakeven''\<rparr> # rest\<rparr>)"
  proof
    assume f: "breakeven_fires (config eng) lv (pu_current_price upd)"
    then obtain s rest where s: "rl_stops lv = s # rest"
      by (auto simp: breakeven_fires_def split: list.splits)
    have "lv' = lv\<lparr>rl_stops :=
                        s\<lparr>s_price := breakeven_target (config eng) lv,
                          s_reason := BreakevenProtection,
                          s_type := ''breakeven''\<rparr> # rest\<rparr>"
      using l f s by (simp add: moved_levels_def stop_to_breakeven_def)
    with s show "\<exists>s rest. rl_stops lv = s # rest \<and>
               lv' = lv\<lparr>rl_stops :=
                        s\<lparr>s_price := breakeven_target (config eng) lv,
                          s_reason := BreakevenProtection,
                          s_type := ''breakeven''\<rparr> # rest\<rparr>" by blast
  qed
  have b: "\<not> breakeven_fires (config eng) lv (pu_current_price upd) \<longrightarrow> lv' = lv"
    using l by simp
  have c: "\<forall>res. out = Inr res \<longrightarrow>
            moved_to_breakeven res = breakeven_fires (config eng) lv (pu_current_price upd)"
    using update_position_moved(1) assms by blast
  have d: "rl_targets lv' = rl_targets lv" "rl_entry_price lv' = rl_entry_price lv"
    "rl_guarding_line lv' = rl_guarding_line lv" "tl (rl_stops lv') = tl (rl_stops lv)"
    using l by (auto simp: moved_levels_def split: list.splits)
  from a b c d show ?thesis by blast
qed

text \<open>Witness for C10: the call at 110 rewrites the first stop, the call at 120 changes
  nothing.\<close>

theorem update_position_frame_witness:
  "breakeven_fires default_config example_levels (pu_current_price (example_update 110))
   \<and> fst (snd (update_position (new_RiskEngine default_config) Map.empty example_levels
                  (example_update 110) None None))
       = example_levels\<lparr>rl_stops :=
           [\<lparr>s_price = 100.1, s_type = ''breakeven'', s_reason = BreakevenProtection,
             s_confidence = 0.6, s_distance_pct = Some 10\<rparr>]\<rparr>
   \<and> \<not> breakeven_fires default_config (moved_levels default_config example_levels)
          (pu_current_price (example_update 120))
   \<and> fst (snd (update_position (new_RiskEngine default_config) Map.empty
                  (moved_levels default_config example_levels) (example_update 120) None None))
       = moved_levels default_config example_levels"
proof -
  let ?E = "new_RiskEngine default_config"
  have c: "config ?E = default_config" by (simp add: new_RiskEngine_def)
  have f1: "breakeven_fires default_config example_levels (pu_current_price (example_update 110))"
    by (simp add: breakeven_fires_def default_config_def example_levels_def example_update_def
        compute_r_multiple_def breakeven_target_def is_better_stop_def)
  have f2: "\<not> breakeven_fires default_config (moved_levels default_config example_levels)
          (pu_current_price (example_update 120))"
    by (simp add: breakeven_fires_def default_config_def example_levels_def example_update_def
        compute_r_multiple_def breakeven_target_def is_better_stop_def moved_levels_def
        stop_to_breakeven_def)
  from update_position_frame[OF example_first_call] f1 c
  have "\<exists>s rest. rl_stops example_levels = s # rest \<and>
               moved_levels default_config example_levels = example_levels\<lparr>rl_stops :=
                        s\<lparr>s_price := breakeven_target default_config example_levels,
                          s_reason := BreakevenProtection,
                          s_type := ''breakeven''\<rparr> # rest\<rparr>"
    by simp
  then have a: "moved_levels default_config example_levels
       = example_levels\<lparr>rl_stops :=
           [\<lparr>s_price = 100.1, s_type = ''breakeven'', s_reason = BreakevenProtection,
             s_confidence = 0.6, s_distance_pct = Some 10\<rparr>]\<rparr>"
    by (auto simp: example_levels_def breakeven_target_def)
  have s1: "fst (snd (update_position ?E Map.empty example_levels (example_update 110) None None))
              = moved_levels default_config example_levels"
    by (simp add: example_first_call)
  have s2: "fst (snd (update_position ?E Map.empty (moved_levels default_config example_levels)
                        (example_update 120) None None))
              = moved_levels default_config example_levels"
    by (simp add: example_second_call)
  from f1 f2 s1 s2 a show ?thesis by simp
qed

subsection \<open>An active momentum state stays active and suppresses the fixed targets\<close>

lemma momentum_update_reason:
  assumes "momentum_update tp state price r direction closes candles = Inr (s', ex, rsn)"
  shows "\<not> is_target_reason rsn"
  using assms unfolding momentum_update_def Let_def
  by (auto split: sum.splits prod.splits if_splits)

lemma no_target_new: "no_target ((new_RiskUpdate ss ts)\<lparr>current_r_multiple := r\<rparr>)"
  by (simp add: no_target_def new_RiskUpdate_def)

lemma step_breakeven_no_target:
  "no_target res \<Longrightarrow> no_target (fst (step_breakeven cfg res levels))"
  by (auto simp: step_breakeven_def no_target_def Let_def split: list.splits)

lemma step_momentum_no_target:
  assumes "no_target res"
    and "step_momentum eng res levels states ohlcv key current = (Inr res', states')"
  shows "no_target res'"
proof (cases ohlcv)
  case None
  then show ?thesis using assms by (simp add: step_momentum_def)
next
  case (Some bars)
  show ?thesis
  proof (cases "enable_dynamic_targets (config eng) \<and> length bars \<ge> 5")
    case False
    then show ?thesis using assms Some by (auto simp: step_momentum_def)
  next
    case True
    let ?ms = "case states key of None \<Rightarrow> MomentumState0 | Some m \<Rightarrow> m"
    obtain s' ex rsn where u: "momentum_update (momentum_tp_of eng) ?ms current
                       (current_r_multiple res) (rl_direction levels)
                       (py_last_n 10 (map c_close bars)) (py_last_n 5 bars) = Inr (s', ex, rsn)"
      using momentum_update_total by blast
    have nr: "\<not> is_target_reason rsn" by (rule momentum_update_reason[OF u])
    show ?thesis
    proof (cases rsn)
      case None
      then show ?thesis using assms Some True u
        by (auto simp: step_momentum_def Let_def no_target_def split: if_splits)
    next
      case (Some a)
      with nr obtain x y where "a = MomentumTrailBroken x y \<or> (\<exists>z. a = DivergenceWeakening z)
           \<or> (\<exists>b. a = GuardingBroken b) \<or> a = StructureBroken"
        by (cases a) auto
      then show ?thesis using assms \<open>ohlcv = Some bars\<close> True u Some
        by (auto simp: step_momentum_def Let_def no_target_def split: if_splits)
    qed
  qed
qed

lemma step_divergence_no_target:
  assumes "no_target res"
    and "step_divergence cfg res levels states ohlcv key = Inr res'"
  shows "no_target res'"
  using assms unfolding step_divergence_def Let_def no_target_def
  by (auto split: option.splits if_splits sum.splits prod.splits)

lemma step_targets_suppressed:
  assumes "states key = Some m" and "active m"
  shows "step_targets res levels states key current = res"
  using assms by (simp add: step_targets_def)

lemma step_guarding_no_target:
  "no_target res \<Longrightarrow> no_target (step_guarding eng res levels upd)"
  unfolding step_guarding_def Let_def no_target_def
  by (auto split: option.splits prod.splits bool.splits)

lemma step_trail_no_target:
  assumes "no_target res" and "step_trail res levels upd = Inr res'"
  shows "no_target res'"
  using assms unfolding step_trail_def no_target_def
  by (auto split: option.splits if_splits sum.splits)

lemma step_structure_no_target:
  assumes "no_target res" and "step_structure res levels upd = Inr res'"
  shows "no_target res'"
  using assms unfolding step_structure_def Let_def no_target_def
  by (auto split: option.splits if_splits sum.splits prod.splits)

lemma step_momentum_active:
  assumes "states k = Some m" and "active m"
    and "step_momentum eng res levels states ohlcv key current = (out, states')"
  shows "\<exists>m'. states' k = Some m' \<and> active m'"
proof (cases ohlcv)
  case None
  then show ?thesis using assms by (simp add: step_momentum_def)
next
  case (Some bars)
  show ?thesis
  proof (cases "enable_dynamic_targets (config eng) \<and> length bars \<ge> 5")
    case False
    then show ?thesis using assms Some by (auto simp: step_momentum_def)
  next
    case True
    let ?ms = "case states key of None \<Rightarrow> MomentumState0 | Some m \<Rightarrow> m"
    let ?st1 = "case states key of None \<Rightarrow> states(key \<mapsto> MomentumState0) | Some _ \<Rightarrow> states"
    obtain s' ex rsn where u: "momentum_update (momentum_tp_of eng) ?ms current
                       (current_r_multiple res) (rl_direction levels)
                       (py_last_n 10 (map c_close bars)) (py_last_n 5 bars) = Inr (s', ex, rsn)"
      using momentum_update_total by blast
    have st: "states' = ?st1(key \<mapsto> s')"
      using assms(3) Some True u by (simp add: step_momentum_def Let_def split: option.splits)
    show ?thesis
    proof (cases "k = key")
      case True
      then have "?ms = m" using assms(1) by simp
      then have "active s'" using momentum_update_active[OF assms(2)] u by simp
      then show ?thesis using st True by simp
    next
      case False
      then have "states' k = states k" using st by (simp split: option.splits)
      then show ?thesis using assms by simp
    qed
  qed
qed

lemma update_position_states_raw:
  assumes "update_position eng st lv upd ohlcv sid = (out, lv', st')"
  shows "\<exists>res o3. step_momentum eng res lv' st ohlcv (momentum_key sid (rl_symbol lv))
            (pu_current_price upd) = (o3, st')"
proof -
  define b where "b = step_breakeven (config eng)
              ((new_RiskUpdate (rl_stops lv) (rl_targets lv))
                 \<lparr>current_r_multiple := compute_r_multiple lv (pu_current_price upd)\<rparr>) lv"
  have l: "lv' = snd b" unfolding b_def by (rule update_position_levels_raw[OF assms])
  have "snd (snd (update_position eng st lv upd ohlcv sid))
          = snd (step_momentum eng (fst b) (snd b) st ohlcv (momentum_key sid (rl_symbol lv))
                   (pu_current_price upd))"
    unfolding update_position_def Let_def split_beta b_def[symmetric]
    by (simp split: sum.splits prod.splits)
  with assms have "step_momentum eng (fst b) lv' st ohlcv (momentum_key sid (rl_symbol lv))
                   (pu_current_price upd)
     = (fst (step_momentum eng (fst b) lv' st ohlcv (momentum_key sid (rl_symbol lv))
                   (pu_current_price upd)), st')"
    by (simp add: l)
  then show ?thesis by blast
qed

lemma update_position_keeps_active:
  assumes "st k = Some m" and "active m"
    and "update_position eng st lv upd ohlcv sid = (out, lv', st')"
  shows "\<exists>m'. st' k = Some m' \<and> active m'"
  using update_position_states_raw[OF assms(3)] step_momentum_active[of st k m, OF assms(1,2)] by blast

lemma update_position_targets_suppressed:
  assumes "st k = Some m" and "active m"
    and "update_position eng st lv upd ohlcv sid = (out, lv', st')"
    and "momentum_key sid (rl_symbol lv) = k"
  shows "\<not> names_target out"
proof (cases out)
  case (Inl e)
  then show ?thesis by (simp add: names_target_def)
next
  case (Inr res)
  from assms(3)[unfolded Inr] obtain res2 res3 res4 res5 res6 res7 where c:
    "res2 = fst (step_breakeven (config eng)
              ((new_RiskUpdate (rl_stops lv) (rl_targets lv))
                 \<lparr>current_r_multiple := compute_r_multiple lv (pu_current_price upd)\<rparr>) lv)"
    "step_momentum eng res2 lv' st ohlcv (momentum_key sid (rl_symbol lv)) (pu_current_price upd)
       = (Inr res3, st')"
    "step_divergence (config eng) res3 lv' st' ohlcv (momentum_key sid (rl_symbol lv)) = Inr res4"
    "res5 = step_targets res4 lv' st' (momentum_key sid (rl_symbol lv)) (pu_current_price upd)"
    "res6 = step_guarding eng res5 lv' upd"
    "step_trail res6 lv' upd = Inr res7"
    "step_structure res7 lv' upd = Inr res"
    by (rule update_position_chain)
  obtain m' where a: "st' k = Some m'" "active m'"
    using update_position_keeps_active[OF assms(1,2,3)] by blast
  have n2: "no_target res2" unfolding c(1)
    by (rule step_breakeven_no_target[OF no_target_new])
  have n3: "no_target res3" by (rule step_momentum_no_target[OF n2 c(2)])
  have n4: "no_target res4" by (rule step_divergence_no_target[OF n3 c(3)])
  have "res5 = res4" unfolding c(4) assms(4) by (rule step_targets_suppressed[of st' k m', OF a])
  with n4 have n6: "no_target res6" unfolding c(5) by (simp add: step_guarding_no_target)
  have n7: "no_target res7" by (rule step_trail_no_target[OF n6 c(6)])
  have "no_target res" by (rule step_structure_no_target[OF n7 c(7)])
  then show ?thesis using Inr by (simp add: names_target_def no_target_def)
qed

lemma update_position_symbol:
  assumes "update_position eng st lv upd ohlcv sid = (out, lv', st')"
  shows "rl_symbol lv' = rl_symbol lv"
  using update_position_levels[OF assms] by (auto simp: moved_levels_def split: list.splits)

lemma active_many:
  assumes "st k = Some m" and "active m"
    and "update_many eng st lv calls = (outs, lv', st')"
  shows "(\<exists>m'. st' k = Some m' \<and> active m') \<and>
         list_all2 (\<lambda>call out. momentum_key (snd (snd call)) (rl_symbol lv) = k
                                  \<longrightarrow> \<not> names_target out) calls outs"
  using assms
proof (induction calls arbitrary: st lv m outs lv' st')
  case Nil
  then show ?case by auto
next
  case (Cons c calls)
  obtain upd ohlcv sid where c: "c = (upd, ohlcv, sid)" by (cases c) auto
  obtain out lv1 st1 where u: "update_position eng st lv upd ohlcv sid = (out, lv1, st1)"
    by (cases "update_position eng st lv upd ohlcv sid") auto
  obtain outs2 lv2 st2 where m: "update_many eng st1 lv1 calls = (outs2, lv2, st2)"
    by (cases "update_many eng st1 lv1 calls") auto
  from Cons.prems(3) have e: "outs = out # outs2" "lv' = lv2" "st' = st2"
    by (simp_all add: c u m)
  obtain m1 where a1: "st1 k = Some m1" "active m1"
    using update_position_keeps_active[OF Cons.prems(1,2) u] by blast
  have sy: "rl_symbol lv1 = rl_symbol lv" by (rule update_position_symbol[OF u])
  have h: "momentum_key sid (rl_symbol lv) = k \<longrightarrow> \<not> names_target out"
    using update_position_targets_suppressed[OF Cons.prems(1,2) u] by blast
  from Cons.IH[OF a1 m] sy
  have ih: "(\<exists>m'. st2 k = Some m' \<and> active m') \<and>
         list_all2 (\<lambda>call out. momentum_key (snd (snd call)) (rl_symbol lv) = k
                                  \<longrightarrow> \<not> names_target out) calls outs2"
    by simp
  with h show ?case by (simp add: e c)
qed

text \<open>Claim C9. Once the momentum state stored under a key is active, no call of
  \<^verbatim>\<open>MomentumTrailingTP.update\<close> on it returns an inactive state, also when it signals an
  exit; after any sequence of \<^verbatim>\<open>update_position\<close> calls the state under that key is
  still active, and no call made under that key names a fixed target, as exit reason or as
  alert; \<^verbatim>\<open>reset_momentum_state\<close> removes the state.\<close>

theorem momentum_active_is_permanent:
  assumes "st k = Some m" and "active m"
    and "update_many eng st lv calls = (outs, lv', st')"
  shows "(\<forall>tp price r d closes candles s' ex rsn.
            momentum_update tp m price r d closes candles = Inr (s', ex, rsn) \<longrightarrow> active s')
       \<and> (\<exists>m'. st' k = Some m' \<and> active m')
       \<and> list_all2 (\<lambda>call out. momentum_key (snd (snd call)) (rl_symbol lv) = k
                                  \<longrightarrow> \<not> names_target out) calls outs
       \<and> reset_momentum_state st' k k = None"
proof -
  have a: "\<forall>tp price r d closes candles s' ex rsn.
            momentum_update tp m price r d closes candles = Inr (s', ex, rsn) \<longrightarrow> active s'"
    using momentum_update_active[OF assms(2)] by blast
  have "reset_momentum_state st' k k = None" by (simp add: reset_momentum_state_def)
  with a active_many[OF assms] show ?thesis by blast
qed

lemma example_suppressed_call:
  "update_position (new_RiskEngine default_config) [''BTCUSDT'' \<mapsto> example_active_state]
     example_levels (example_update 106) None None
   = (Inr ((new_RiskUpdate (rl_stops example_levels) (rl_targets example_levels))
             \<lparr>current_r_multiple := 0.6\<rparr>),
      example_levels, [''BTCUSDT'' \<mapsto> example_active_state])"
  by (simp add: update_position_def new_RiskEngine_def default_config_def example_levels_def
      example_update_def new_RiskUpdate_def compute_r_multiple_def step_breakeven_def
      breakeven_target_def is_better_stop_def stop_to_breakeven_def step_momentum_def
      step_divergence_def step_targets_def step_guarding_def step_trail_def step_structure_def
      momentum_key_def moved_levels_def trail_stop_def example_active_state_def Let_def)


lemma example_unsuppressed_call:
  "update_position (new_RiskEngine default_config) Map.empty
     example_levels (example_update 106) None None
   = (Inr ((new_RiskUpdate (rl_stops example_levels) (rl_targets example_levels))
             \<lparr>current_r_multiple := 0.6, alerts := [AlertTargetHit 105],
              exit_signal := True, exit_reason := Some (TargetHit ''2.0R target''),
              exit_percentage := 50\<rparr>),
      example_levels, Map.empty)"
  by (simp add: update_position_def new_RiskEngine_def default_config_def example_levels_def
      example_update_def new_RiskUpdate_def compute_r_multiple_def step_breakeven_def
      breakeven_target_def is_better_stop_def stop_to_breakeven_def step_momentum_def
      step_divergence_def step_targets_def step_guarding_def step_trail_def step_structure_def
      momentum_key_def moved_levels_def trail_stop_def Let_def)

text \<open>Witness for C9: at 106 the target at 105 is touched; with an active state under the
  symbol the call reports no exit, without a state it reports the target.\<close>

theorem momentum_active_is_permanent_witness:
  "active example_active_state
   \<and> fst (update_many (new_RiskEngine default_config) [''BTCUSDT'' \<mapsto> example_active_state]
            example_levels [(example_update 106, None, None)])
       = [Inr ((new_RiskUpdate (rl_stops example_levels) (rl_targets example_levels))
                 \<lparr>current_r_multiple := 0.6\<rparr>)]
   \<and> \<not> names_target (Inr ((new_RiskUpdate (rl_stops example_levels) (rl_targets example_levels))
                 \<lparr>current_r_multiple := 0.6\<rparr>))
   \<and> names_target (fst (update_position (new_RiskEngine default_config) Map.empty
                           example_levels (example_update 106) None None))"
proof -
  let ?E = "new_RiskEngine default_config"
  let ?st = "[''BTCUSDT'' \<mapsto> example_active_state]"
  let ?r = "Inr ((new_RiskUpdate (rl_stops example_levels) (rl_targets example_levels))
                 \<lparr>current_r_multiple := 0.6\<rparr>) :: py_error + RiskUpdate"
  have a: "active example_active_state" by (simp add: example_active_state_def)
  have k: "?st ''BTCUSDT'' = Some example_active_state" by simp
  have m: "update_many ?E ?st example_levels [(example_update 106, None, None)]
             = ([?r], example_levels, ?st)"
    by (simp add: example_suppressed_call)
  have key: "momentum_key (snd (snd (example_update 106, None :: candle list option, None :: string option)))
               (rl_symbol example_levels) = ''BTCUSDT''"
    by (simp add: momentum_key_def example_levels_def)
  from momentum_active_is_permanent[OF k a m, THEN conjunct2, THEN conjunct2, THEN conjunct1] key
  have n: "\<not> names_target ?r" by simp
  have u: "names_target (fst (update_position ?E Map.empty example_levels (example_update 106)
                                None None))"
    by (simp add: example_unsuppressed_call names_target_def)
  from a m n u show ?thesis by simp
qed

subsection \<open>Which block decides the exit signal\<close>

lemma exit_fields_new:
  "exit_fields ((new_RiskUpdate ss ts)\<lparr>current_r_multiple := r\<rparr>) = (False, None, 0)"
  "guarding_broken ((new_RiskUpdate ss ts)\<lparr>current_r_multiple := r\<rparr>) = False"
  "structure_health ((new_RiskUpdate ss ts)\<lparr>current_r_multiple := r\<rparr>) = STRONG"
  by (simp_all add: exit_fields_def new_RiskUpdate_def)

lemma step_breakeven_other:
  "guarding_broken (fst (step_breakeven cfg res levels)) = guarding_broken res"
  "structure_health (fst (step_breakeven cfg res levels)) = structure_health res"
  "rl_direction (snd (step_breakeven cfg res levels)) = rl_direction levels"
  "rl_targets (snd (step_breakeven cfg res levels)) = rl_targets levels"
  by (simp_all add: step_breakeven_def Let_def split: list.splits)

lemma momentum_update_exit_active:
  assumes "momentum_update tp state price r direction closes candles = Inr (s', True, rsn)"
  shows "active s'"
  using assms unfolding momentum_update_def Let_def
  by (auto split: sum.splits prod.splits if_splits)

lemma momentum_update_exit_reason:
  assumes "momentum_update tp state price r direction closes candles = Inr (s', True, rsn)"
  shows "\<exists>a b. rsn = Some (MomentumTrailBroken a b)"
  using assms unfolding momentum_update_def Let_def
  by (auto split: sum.splits prod.splits if_splits)

lemma step_momentum_other:
  assumes "step_momentum eng res levels states ohlcv key current = (Inr res', states')"
  shows "guarding_broken res' = guarding_broken res"
    and "structure_health res' = structure_health res"
  using assms unfolding step_momentum_def Let_def
  by (auto split: option.splits if_splits sum.splits prod.splits)

lemma step_momentum_skip:
  assumes "step_momentum eng res levels states ohlcv key current = (Inr res', states')"
    and "ohlcv = None \<or> (\<exists>bars. ohlcv = Some bars \<and>
           \<not> (enable_dynamic_targets (config eng) \<and> length bars \<ge> 5))"
  shows "res' = res" and "states' = states"
  using assms by (auto simp: step_momentum_def)

lemma step_momentum_run:
  assumes "step_momentum eng res levels states ohlcv key current = (Inr res', states')"
    and "ohlcv = Some bars" and "enable_dynamic_targets (config eng)" and "length bars \<ge> 5"
    and "momentum_update (momentum_tp_of eng)
           (case states key of None \<Rightarrow> MomentumState0 | Some m \<Rightarrow> m) current
           (current_r_multiple res) (rl_direction levels)
           (py_last_n 10 (map c_close bars)) (py_last_n 5 bars) = Inr (s', ex, rsn)"
  shows "states' key = Some s'"
    and "exit_fields res' = (if ex \<and> rsn \<noteq> None then (True, rsn, 100) else exit_fields res)"
  using assms
  by (auto simp: step_momentum_def Let_def exit_fields_def split: option.splits if_splits)

lemma step_divergence_other:
  assumes "step_divergence cfg res levels states ohlcv key = Inr res'"
  shows "guarding_broken res' = guarding_broken res"
    and "structure_health res' = structure_health res"
  using assms unfolding step_divergence_def Let_def
  by (auto split: option.splits if_splits sum.splits prod.splits)

lemma step_divergence_exit:
  assumes "step_divergence cfg res levels states ohlcv key = Inr res'"
    and "rl_direction levels = rl_direction lv"
    and "current_r_multiple res = compute_r_multiple lv (pu_current_price upd)"
  shows "exit_fields res' =
           (case divergence_exit cfg lv upd ohlcv of
              None \<Rightarrow> exit_fields res
            | Some ty \<Rightarrow> if momentum_inactive states key
                         then (True, Some (DivergenceWeakening ty), 33) else exit_fields res)"
  using assms unfolding step_divergence_def divergence_exit_def momentum_inactive_def
    Let_def exit_fields_def
  by (auto split: option.splits if_splits sum.splits prod.splits)

lemma step_targets_other:
  shows "guarding_broken (step_targets res levels states key current) = guarding_broken res"
    and "structure_health (step_targets res levels states key current) = structure_health res"
  unfolding step_targets_def by (auto split: option.splits)

lemma step_targets_exit:
  "exit_fields (step_targets res levels states key current) =
     (if momentum_inactive states key
      then (case first_target_hit (rl_direction levels) current (rl_targets levels) of
              None \<Rightarrow> exit_fields res
            | Some t \<Rightarrow> (True, Some (TargetHit (t_reason t)),
                         (case t_exit_percentage t of Some p \<Rightarrow> p | None \<Rightarrow> 100)))
      else exit_fields res)"
  unfolding step_targets_def exit_fields_def momentum_inactive_def
  by (auto split: option.splits)

lemma step_guarding_other:
  "structure_health (step_guarding eng res levels upd) = structure_health res"
  unfolding step_guarding_def Let_def
  by (auto split: option.splits prod.splits bool.splits)

lemma step_guarding_exit:
  assumes "\<not> guarding_broken res"
  shows "guarding_broken (step_guarding eng res levels upd) \<Longrightarrow>
           \<exists>r. exit_fields (step_guarding eng res levels upd) = (True, Some (GuardingBroken r), 100)"
    and "\<not> guarding_broken (step_guarding eng res levels upd) \<Longrightarrow>
           exit_fields (step_guarding eng res levels upd) = exit_fields res"
  using assms unfolding step_guarding_def Let_def exit_fields_def
  by (auto split: option.splits prod.splits bool.splits if_splits)

lemma step_trail_exit:
  assumes "step_trail res levels upd = Inr res'"
  shows "guarding_broken res' = guarding_broken res"
    and "structure_health res' = structure_health res"
    and "exit_fields res' = exit_fields res"
  using assms unfolding step_trail_def exit_fields_def
  by (auto split: option.splits if_splits sum.splits)

lemma step_structure_exit:
  assumes "step_structure res levels upd = Inr res'"
  shows "guarding_broken res' = guarding_broken res"
    and "structure_health res = STRONG \<Longrightarrow>
         exit_fields res' =
           (if structure_health res' = BROKEN \<and> \<not> exit_signal res
            then (True, Some StructureBroken, 100) else exit_fields res)"
  using assms unfolding step_structure_def Let_def exit_fields_def
  by (auto split: option.splits if_splits sum.splits prod.splits)

lemma momentum_inactive_no_exit:
  assumes "step_momentum eng res levels states ohlcv key current = (Inr res', states')"
    and "momentum_inactive states' key"
  shows "exit_fields res' = exit_fields res"
proof (cases "ohlcv = None \<or> (\<exists>bars. ohlcv = Some bars \<and>
           \<not> (enable_dynamic_targets (config eng) \<and> length bars \<ge> 5))")
  case True
  then show ?thesis using step_momentum_skip(1)[OF assms(1)] by simp
next
  case False
  then obtain bars where b: "ohlcv = Some bars" "enable_dynamic_targets (config eng)"
    "length bars \<ge> 5" by auto
  obtain s' ex rsn where u: "momentum_update (momentum_tp_of eng)
           (case states key of None \<Rightarrow> MomentumState0 | Some m \<Rightarrow> m) current
           (current_r_multiple res) (rl_direction levels)
           (py_last_n 10 (map c_close bars)) (py_last_n 5 bars) = Inr (s', ex, rsn)"
    using momentum_update_total by blast
  note r = step_momentum_run[OF assms(1) b u]
  from r(1) assms(2) have "\<not> active s'" by (simp add: momentum_inactive_def)
  with u have "\<not> ex" using momentum_update_exit_active by (cases ex) auto
  with r(2) show ?thesis by simp
qed

lemma momentum_active_exit:
  assumes "step_momentum eng res levels states ohlcv key current = (Inr res', states')"
    and "rl_direction levels = rl_direction lv"
    and "current_r_multiple res = compute_r_multiple lv (pu_current_price upd)"
    and "key = momentum_key sid (rl_symbol lv)" and "current = pu_current_price upd"
  shows "exit_fields res' =
           (case momentum_exit eng states lv upd ohlcv sid of
              Some rsn \<Rightarrow> (True, Some rsn, 100) | None \<Rightarrow> exit_fields res)"
proof (cases "ohlcv = None \<or> (\<exists>bars. ohlcv = Some bars \<and>
           \<not> (enable_dynamic_targets (config eng) \<and> length bars \<ge> 5))")
  case True
  then have "momentum_exit eng states lv upd ohlcv sid = None"
    by (auto simp: momentum_exit_def)
  then show ?thesis using step_momentum_skip(1)[OF assms(1) True] by simp
next
  case False
  then obtain bars where b: "ohlcv = Some bars" "enable_dynamic_targets (config eng)"
    "length bars \<ge> 5" by auto
  obtain s' ex rsn where u: "momentum_update (momentum_tp_of eng)
           (case states key of None \<Rightarrow> MomentumState0 | Some m \<Rightarrow> m) current
           (current_r_multiple res) (rl_direction levels)
           (py_last_n 10 (map c_close bars)) (py_last_n 5 bars) = Inr (s', ex, rsn)"
    using momentum_update_total by blast
  note r = step_momentum_run[OF assms(1) b u]
  have "momentum_exit eng states lv upd ohlcv sid = (if ex then rsn else None)"
    using u b assms(2-5) by (simp add: momentum_exit_def)
  with r(2) show ?thesis by (auto split: option.splits)
qed

lemma exit_signal_fields: "exit_signal res = fst (exit_fields res)"
  by (simp add: exit_fields_def)

lemma update_position_exit:
  assumes "update_position eng states levels upd ohlcv sid = (Inr res, levels', states')"
  shows "guarding_broken res \<Longrightarrow> \<exists>r. exit_fields res = (True, Some (GuardingBroken r), 100)"
    and "\<not> guarding_broken res \<Longrightarrow>
         exit_fields res =
           (if momentum_inactive states' (momentum_key sid (rl_symbol levels))
            then (case first_target_hit (rl_direction levels) (pu_current_price upd)
                         (rl_targets levels) of
                    Some t \<Rightarrow> (True, Some (TargetHit (t_reason t)),
                               (case t_exit_percentage t of Some p \<Rightarrow> p | None \<Rightarrow> 100))
                  | None \<Rightarrow>
                      (case divergence_exit (config eng) levels upd ohlcv of
                         Some ty \<Rightarrow> (True, Some (DivergenceWeakening ty), 33)
                       | None \<Rightarrow> if structure_health res = BROKEN
                                 then (True, Some StructureBroken, 100) else (False, None, 0)))
            else (case momentum_exit eng states levels upd ohlcv sid of
                    Some rsn \<Rightarrow> (True, Some rsn, 100)
                  | None \<Rightarrow> if structure_health res = BROKEN
                            then (True, Some StructureBroken, 100) else (False, None, 0)))"
proof -
  let ?key = "momentum_key sid (rl_symbol levels)"
  let ?cur = "pu_current_price upd"
  from assms obtain res2 res3 res4 res5 res6 res7 where c:
    "res2 = fst (step_breakeven (config eng)
              ((new_RiskUpdate (rl_stops levels) (rl_targets levels))
                 \<lparr>current_r_multiple := compute_r_multiple levels (pu_current_price upd)\<rparr>) levels)"
    "levels' = snd (step_breakeven (config eng)
              ((new_RiskUpdate (rl_stops levels) (rl_targets levels))
                 \<lparr>current_r_multiple := compute_r_multiple levels (pu_current_price upd)\<rparr>) levels)"
    "step_momentum eng res2 levels' states ohlcv ?key ?cur = (Inr res3, states')"
    "step_divergence (config eng) res3 levels' states' ohlcv ?key = Inr res4"
    "res5 = step_targets res4 levels' states' ?key ?cur"
    "res6 = step_guarding eng res5 levels' upd"
    "step_trail res6 levels' upd = Inr res7"
    "step_structure res7 levels' upd = Inr res"
    by (rule update_position_chain)
  have d: "rl_direction levels' = rl_direction levels" "rl_targets levels' = rl_targets levels"
    unfolding c(2) by (simp_all add: step_breakeven_other)
  have e2: "exit_fields res2 = (False, None, 0)"
    unfolding c(1) by (simp add: step_breakeven_exit exit_fields_new)
  have r2: "current_r_multiple res2 = compute_r_multiple levels ?cur"
    unfolding c(1) by (simp add: step_breakeven_r)
  have r3: "current_r_multiple res3 = compute_r_multiple levels ?cur"
    using step_momentum_keeps(2)[OF c(3)] r2 by simp
  have g5: "\<not> guarding_broken res5"
    unfolding c(5) c(1) using step_momentum_other(1)[OF c(3)] step_divergence_other(1)[OF c(4)]
    by (simp add: step_targets_other step_breakeven_other exit_fields_new c(1))
  have g: "guarding_broken res = guarding_broken res6"
    using step_structure_exit(1)[OF c(8)] step_trail_exit(1)[OF c(7)] by simp
  have h7: "structure_health res7 = STRONG"
    using step_momentum_other(2)[OF c(3)] step_divergence_other(2)[OF c(4)]
      step_trail_exit(2)[OF c(7)]
    by (simp add: c(5,6) step_guarding_other step_targets_other c(1) step_breakeven_other
        exit_fields_new)
  have e7: "exit_fields res7 = exit_fields res6"
    by (rule step_trail_exit(3)[OF c(7)])
  note e8 = step_structure_exit(2)[OF c(8) h7]
  {
    assume "guarding_broken res"
    with g have "guarding_broken (step_guarding eng res5 levels' upd)" by (simp add: c(6))
    from step_guarding_exit(1)[OF g5 this] obtain r where
      "exit_fields res6 = (True, Some (GuardingBroken r), 100)" by (auto simp: c(6))
    with e7 e8 have "exit_fields res = (True, Some (GuardingBroken r), 100)"
      by (simp add: exit_signal_fields)
    then show "\<exists>r. exit_fields res = (True, Some (GuardingBroken r), 100)" by blast
  }
  {
    assume "\<not> guarding_broken res"
    with g have "\<not> guarding_broken (step_guarding eng res5 levels' upd)" by (simp add: c(6))
    from step_guarding_exit(2)[OF g5 this] have e6: "exit_fields res6 = exit_fields res5"
      by (simp add: c(6))
    have e5: "exit_fields res5 =
        (if momentum_inactive states' ?key
         then (case first_target_hit (rl_direction levels) ?cur (rl_targets levels) of
                 None \<Rightarrow> exit_fields res4
               | Some t \<Rightarrow> (True, Some (TargetHit (t_reason t)),
                            (case t_exit_percentage t of Some p \<Rightarrow> p | None \<Rightarrow> 100)))
         else exit_fields res4)"
      unfolding c(5) by (simp add: step_targets_exit d)
    have e4: "exit_fields res4 =
           (case divergence_exit (config eng) levels upd ohlcv of
              None \<Rightarrow> exit_fields res3
            | Some ty \<Rightarrow> if momentum_inactive states' ?key
                         then (True, Some (DivergenceWeakening ty), 33) else exit_fields res3)"
      by (rule step_divergence_exit[OF c(4) d(1) r3])
    have e3a: "momentum_inactive states' ?key \<Longrightarrow> exit_fields res3 = (False, None, 0)"
      using momentum_inactive_no_exit[OF c(3)] e2 by simp
    have e3b: "exit_fields res3 =
           (case momentum_exit eng states levels upd ohlcv sid of
              Some rsn \<Rightarrow> (True, Some rsn, 100) | None \<Rightarrow> (False, None, 0))"
      using momentum_active_exit[OF c(3) d(1) r2 refl refl] e2 by (simp split: option.splits)
    show "exit_fields res =
           (if momentum_inactive states' (momentum_key sid (rl_symbol levels))
            then (case first_target_hit (rl_direction levels) (pu_current_price upd)
                         (rl_targets levels) of
                    Some t \<Rightarrow> (True, Some (TargetHit (t_reason t)),
                               (case t_exit_percentage t of Some p \<Rightarrow> p | None \<Rightarrow> 100))
                  | None \<Rightarrow>
                      (case divergence_exit (config eng) levels upd ohlcv of
                         Some ty \<Rightarrow> (True, Some (DivergenceWeakening ty), 33)
                       | None \<Rightarrow> if structure_health res = BROKEN
                                 then (True, Some StructureBroken, 100) else (False, None, 0)))
            else (case momentum_exit eng states levels upd ohlcv sid of
                    Some rsn \<Rightarrow> (True, Some rsn, 100)
                  | None \<Rightarrow> if structure_health res = BROKEN
                            then (True, Some StructureBroken, 100) else (False, None, 0)))"
    proof (cases "momentum_inactive states' ?key")
      case True
      show ?thesis using True e3a[OF True] e4 e5 e6 e7 e8
        by (simp add: exit_signal_fields split: option.splits)
    next
      case False
      show ?thesis using False e3b e4 e5 e6 e7 e8
        by (simp add: exit_signal_fields split: option.splits)
    qed
  }
qed

text \<open>The call on the concrete position at price 106 with the twenty candles, block by
  block and as a whole.\<close>

lemma example_detect_divergence:
  "detect_divergence default_config example_divergence_bars ''long'' = Inr (True, Some ''bearish'')"
  by (simp add: detect_divergence_def default_config_def example_divergence_bars_def
      py_last_n_def np_mean_def Let_def)

lemma example_divergence_block:
  "step_breakeven default_config example_open_result example_levels
     = (example_open_result, example_levels)"
  "step_momentum (new_RiskEngine default_config) example_open_result example_levels Map.empty
     (Some example_divergence_bars) ''BTCUSDT'' 106
     = (Inr example_open_result, [''BTCUSDT'' \<mapsto> MomentumState0])"
  "step_divergence default_config example_open_result example_levels
     [''BTCUSDT'' \<mapsto> MomentumState0] (Some example_divergence_bars) ''BTCUSDT''
     = Inr (example_open_result
             \<lparr>divergence_detected := True, divergence_type := Some ''bearish'',
              alerts := [AlertDivergence ''bearish''],
              exit_signal := True, exit_reason := Some (DivergenceWeakening ''bearish''),
              exit_percentage := 33\<rparr>)"
proof -
  have l: "length example_divergence_bars = 20" by (simp add: example_divergence_bars_def)
  have d: "rl_direction example_levels = ''long''" by (simp add: example_levels_def)
  show "step_breakeven default_config example_open_result example_levels
     = (example_open_result, example_levels)"
    by (simp add: step_breakeven_def default_config_def example_open_result_def)
  show "step_momentum (new_RiskEngine default_config) example_open_result example_levels Map.empty
     (Some example_divergence_bars) ''BTCUSDT'' 106
     = (Inr example_open_result, [''BTCUSDT'' \<mapsto> MomentumState0])"
    by (simp add: step_momentum_def l new_RiskEngine_def default_config_def
        example_open_result_def momentum_update_def engine_momentum_tp_def MomentumState0_def
        Let_def)
  show "step_divergence default_config example_open_result example_levels
     [''BTCUSDT'' \<mapsto> MomentumState0] (Some example_divergence_bars) ''BTCUSDT''
     = Inr (example_open_result
             \<lparr>divergence_detected := True, divergence_type := Some ''bearish'',
              alerts := [AlertDivergence ''bearish''],
              exit_signal := True, exit_reason := Some (DivergenceWeakening ''bearish''),
              exit_percentage := 33\<rparr>)"
    unfolding step_divergence_def
    by (simp add: d example_detect_divergence)
       (simp add: default_config_def example_open_result_def new_RiskUpdate_def
          MomentumState0_def)
qed

lemma example_divergence_call:
  "update_position (new_RiskEngine default_config) Map.empty example_levels
     (example_update 106) (Some example_divergence_bars) None
   = (Inr (example_open_result
             \<lparr>divergence_detected := True, divergence_type := Some ''bearish'',
              alerts := [AlertDivergence ''bearish'', AlertTargetHit 105],
              exit_signal := True, exit_reason := Some (TargetHit ''2.0R target''),
              exit_percentage := 50\<rparr>),
      example_levels, [''BTCUSDT'' \<mapsto> MomentumState0])"
proof -
  have r: "(new_RiskUpdate (rl_stops example_levels) (rl_targets example_levels))
             \<lparr>current_r_multiple := compute_r_multiple example_levels 106\<rparr> = example_open_result"
    by (simp add: example_open_result_def compute_r_multiple_def example_levels_def)
  have k: "momentum_key None (rl_symbol example_levels) = ''BTCUSDT''"
    by (simp add: momentum_key_def example_levels_def)
  have c: "config (new_RiskEngine default_config) = default_config"
    "pu_current_price (example_update 106) = 106"
    by (simp_all add: new_RiskEngine_def example_update_def)
  have "update_position (new_RiskEngine default_config) Map.empty example_levels
     (example_update 106) (Some example_divergence_bars) None
   = (case step_structure
        (step_guarding (new_RiskEngine default_config)
           (step_targets
              (example_open_result
                 \<lparr>divergence_detected := True, divergence_type := Some ''bearish'',
                  alerts := [AlertDivergence ''bearish''],
                  exit_signal := True, exit_reason := Some (DivergenceWeakening ''bearish''),
                  exit_percentage := 33\<rparr>)
              example_levels [''BTCUSDT'' \<mapsto> MomentumState0] ''BTCUSDT'' 106)
           example_levels (example_update 106))
        example_levels (example_update 106) of
        Inl e \<Rightarrow> (Inl e, example_levels, [''BTCUSDT'' \<mapsto> MomentumState0])
      | Inr res8 \<Rightarrow> (Inr res8, example_levels, [''BTCUSDT'' \<mapsto> MomentumState0]))"
    apply (simp only: update_position_def Let_def r k c example_divergence_block
        prod.case sum.case)
    apply (simp add: step_trail_def trail_stop_def step_guarding_def step_targets_def
        example_levels_def example_update_def example_open_result_def new_RiskUpdate_def)
    done
  then show ?thesis
    by (simp add: step_structure_def step_guarding_def step_targets_def
        example_levels_def example_update_def example_open_result_def new_RiskUpdate_def
        MomentumState0_def)
qed

text \<open>Claim C2, as stated, fails: the fixed-target block does not look at the exit signal. At
  price 106 the divergence block of the call sets the signal (bearish divergence, 33 percent),
  and the target block of the same call replaces reason and percentage by those of the target
  touched (50 percent). No guarding line is involved.\<close>

theorem divergence_exit_overwritten_counterexample:
  "step_momentum (new_RiskEngine default_config) example_open_result example_levels Map.empty
     (Some example_divergence_bars) ''BTCUSDT'' 106
     = (Inr example_open_result, [''BTCUSDT'' \<mapsto> MomentumState0])
   \<and> step_divergence default_config example_open_result example_levels
       [''BTCUSDT'' \<mapsto> MomentumState0] (Some example_divergence_bars) ''BTCUSDT''
     = Inr (example_open_result
             \<lparr>divergence_detected := True, divergence_type := Some ''bearish'',
              alerts := [AlertDivergence ''bearish''],
              exit_signal := True, exit_reason := Some (DivergenceWeakening ''bearish''),
              exit_percentage := 33\<rparr>)
   \<and> update_position (new_RiskEngine default_config) Map.empty example_levels
       (example_update 106) (Some example_divergence_bars) None
     = (Inr (example_open_result
               \<lparr>divergence_detected := True, divergence_type := Some ''bearish'',
                alerts := [AlertDivergence ''bearish'', AlertTargetHit 105],
                exit_signal := True, exit_reason := Some (TargetHit ''2.0R target''),
                exit_percentage := 50\<rparr>),
        example_levels, [''BTCUSDT'' \<mapsto> MomentumState0])"
  by (intro conjI) (rule example_divergence_block(2) example_divergence_block(3)
      example_divergence_call)+

text \<open>Claim C2, as amended. A call that returns reports the exit reason and percentage of the
  block that wrote last, and the blocks respect each other as follows. A guarding-line breach
  always decides (its reason, 100 percent). Otherwise, while the momentum state of the position
  is inactive after the momentum block, a fixed target that the price touches decides, whether
  or not the divergence block has signalled before it; with no target touched the divergence
  block decides (33 percent). While the momentum state is active the divergence and target
  blocks are skipped, so the exit of the momentum block (100 percent) is kept. The
  structure-health block decides only when none of these has set the signal. The breakeven and
  trailing-stop blocks never write the exit fields.\<close>

theorem exit_signal_arbitration:
  assumes "update_position eng states levels upd ohlcv sid = (Inr res, levels', states')"
  shows "(guarding_broken res \<longrightarrow>
            (\<exists>r. exit_fields res = (True, Some (GuardingBroken r), 100)))
       \<and> (\<not> guarding_broken res \<longrightarrow>
            exit_fields res =
              (if momentum_inactive states' (momentum_key sid (rl_symbol levels))
               then (case first_target_hit (rl_direction levels) (pu_current_price upd)
                            (rl_targets levels) of
                       Some t \<Rightarrow> (True, Some (TargetHit (t_reason t)),
                                  (case t_exit_percentage t of Some p \<Rightarrow> p | None \<Rightarrow> 100))
                     | None \<Rightarrow>
                         (case divergence_exit (config eng) levels upd ohlcv of
                            Some ty \<Rightarrow> (True, Some (DivergenceWeakening ty), 33)
                          | None \<Rightarrow> if structure_health res = BROKEN
                                    then (True, Some StructureBroken, 100)
                                    else (False, None, 0)))
               else (case momentum_exit eng states levels upd ohlcv sid of
                       Some rsn \<Rightarrow> (True, Some rsn, 100)
                     | None \<Rightarrow> if structure_health res = BROKEN
                               then (True, Some StructureBroken, 100)
                               else (False, None, 0))))"
  using update_position_exit[OF assms] by blast

text \<open>The theorem at the call of the concrete position: momentum is inactive, the target at
  105 is touched, and the divergence exit that \<open>divergence_exit\<close> reports does not show in
  the result.\<close>

theorem exit_signal_arbitration_witness:
  "update_position (new_RiskEngine default_config) Map.empty example_levels
       (example_update 106) (Some example_divergence_bars) None
     = (Inr (example_open_result
               \<lparr>divergence_detected := True, divergence_type := Some ''bearish'',
                alerts := [AlertDivergence ''bearish'', AlertTargetHit 105],
                exit_signal := True, exit_reason := Some (TargetHit ''2.0R target''),
                exit_percentage := 50\<rparr>),
        example_levels, [''BTCUSDT'' \<mapsto> MomentumState0])
   \<and> \<not> guarding_broken (example_open_result
               \<lparr>divergence_detected := True, divergence_type := Some ''bearish'',
                alerts := [AlertDivergence ''bearish'', AlertTargetHit 105],
                exit_signal := True, exit_reason := Some (TargetHit ''2.0R target''),
                exit_percentage := 50\<rparr>)
   \<and> momentum_inactive [''BTCUSDT'' \<mapsto> MomentumState0] ''BTCUSDT''
   \<and> divergence_exit default_config example_levels (example_update 106)
         (Some example_divergence_bars) = Some ''bearish''
   \<and> exit_fields (example_open_result
               \<lparr>divergence_detected := True, divergence_type := Some ''bearish'',
                alerts := [AlertDivergence ''bearish'', AlertTargetHit 105],
                exit_signal := True, exit_reason := Some (TargetHit ''2.0R target''),
                exit_percentage := 50\<rparr>)
       = (True, Some (TargetHit ''2.0R target''), 50)"
proof -
  let ?r = "example_open_result
               \<lparr>divergence_detected := True, divergence_type := Some ''bearish'',
                alerts := [AlertDivergence ''bearish'', AlertTargetHit 105],
                exit_signal := True, exit_reason := Some (TargetHit ''2.0R target''),
                exit_percentage := 50\<rparr>"
  note t = exit_signal_arbitration[OF example_divergence_call, THEN conjunct2]
  have g: "\<not> guarding_broken ?r"
    by (simp add: example_open_result_def new_RiskUpdate_def)
  have m: "momentum_inactive [''BTCUSDT'' \<mapsto> MomentumState0] ''BTCUSDT''"
    by (simp add: momentum_inactive_def MomentumState0_def)
  have k: "momentum_key None (rl_symbol example_levels) = ''BTCUSDT''"
    by (simp add: momentum_key_def example_levels_def)
  have d: "rl_direction example_levels = ''long''" by (simp add: example_levels_def)
  have v: "divergence_exit default_config example_levels (example_update 106)
         (Some example_divergence_bars) = Some ''bearish''"
    unfolding divergence_exit_def
    by (simp add: d example_detect_divergence)
       (simp add: default_config_def compute_r_multiple_def example_levels_def
          example_update_def)
  have f: "first_target_hit (rl_direction example_levels) (pu_current_price (example_update 106))
             (rl_targets example_levels) = Some (hd (rl_targets example_levels))"
    by (simp add: example_levels_def example_update_def)
  from t g have "exit_fields ?r =
      (True, Some (TargetHit (t_reason (hd (rl_targets example_levels)))),
       (case t_exit_percentage (hd (rl_targets example_levels)) of Some p \<Rightarrow> p | None \<Rightarrow> 100))"
    by (simp add: k m f)
  then have e: "exit_fields ?r = (True, Some (TargetHit ''2.0R target''), 50)"
    by (simp add: example_levels_def)
  from example_divergence_call g m v e show ?thesis by simp
qed

section \<open>Properties of position sizing\<close>

subsection \<open>The risk amount and its ratio to the base risk\<close>

lemma calculate_position_size_amount:
  assumes "calculate_position_size cfg balance risk_pct entry rd atr_pct = Inr (psize, pct, amount)"
  shows "\<exists>v. 1 / 2 \<le> v \<and> v \<le> 2 \<and> amount = balance * (risk_pct * v / 100)"
proof (cases "volatility_adjusted_sizing cfg")
  case True
  let ?v = "max (1 / 2) (min 2 (2 / max atr_pct (1 / 2)))"
  have "amount = balance * (risk_pct * ?v / 100)"
    using assms True by (simp add: calculate_position_size_def Let_def split: if_splits)
  moreover have "1 / 2 \<le> ?v" "?v \<le> 2" by simp_all
  ultimately show ?thesis by blast
next
  case False
  have "amount = balance * (risk_pct * 1 / 100)"
    using assms False by (simp add: calculate_position_size_def Let_def split: if_splits)
  then show ?thesis by (intro exI[of _ 1]) simp
qed

lemma calculate_position_size_total:
  assumes "balance \<noteq> 0"
  shows "\<exists>r. calculate_position_size cfg balance risk_pct entry rd atr_pct = Inr r"
proof -
  have "calculate_position_size cfg balance risk_pct entry rd atr_pct \<noteq> Inl e" for e
    using assms by (simp add: calculate_position_size_def Let_def)
  then show ?thesis
    by (cases "calculate_position_size cfg balance risk_pct entry rd atr_pct") auto
qed

lemma legacy_calculate_position_size_amount:
  assumes "legacy_calculate_position_size cfg setup rd atr_pct = Inr (psize, pct, amount)"
  shows "\<exists>v. 1 / 2 \<le> v \<and> v \<le> 2 \<and>
           amount = ts_account_balance setup * (ts_risk_per_trade_pct setup * v / 100)"
proof (cases "volatility_adjusted_sizing cfg")
  case True
  let ?v = "max (1 / 2) (min 2 (2 / max atr_pct (1 / 2)))"
  have "amount = ts_account_balance setup * (ts_risk_per_trade_pct setup * ?v / 100)"
    using assms True by (simp add: legacy_calculate_position_size_def Let_def split: if_splits)
  moreover have "1 / 2 \<le> ?v" "?v \<le> 2" by simp_all
  ultimately show ?thesis by blast
next
  case False
  have "amount = ts_account_balance setup * (ts_risk_per_trade_pct setup * 1 / 100)"
    using assms False by (simp add: legacy_calculate_position_size_def Let_def split: if_splits)
  then show ?thesis by (intro exI[of _ 1]) simp
qed

lemma legacy_calculate_position_size_total:
  assumes "ts_account_balance setup \<noteq> 0"
  shows "\<exists>r. legacy_calculate_position_size cfg setup rd atr_pct = Inr r"
proof -
  have "legacy_calculate_position_size cfg setup rd atr_pct \<noteq> Inl e" for e
    using assms by (simp add: legacy_calculate_position_size_def Let_def)
  then show ?thesis
    by (cases "legacy_calculate_position_size cfg setup rd atr_pct") auto
qed

lemma step_position_sizing_amount:
  assumes "step_position_sizing cfg levels entry atr atr_pct balance risk_pct = Inr levels'"
  shows "\<exists>v. 1 / 2 \<le> v \<and> v \<le> 2 \<and>
           rl_risk_amount levels' =
             balance * (risk_pct *
               (if rl_volatility_regime levels = ''extreme''
                then extreme_vol_size_reduction cfg else 1) * v / 100)"
proof -
  let ?adj = "if rl_volatility_regime levels = ''extreme''
              then risk_pct * extreme_vol_size_reduction cfg else risk_pct"
  let ?rd = "\<bar>entry - (case rl_stops levels of [] \<Rightarrow> entry - (atr * 2) | s # _ \<Rightarrow> s_price s)\<bar>"
  from assms obtain psize pct amount where
    c: "calculate_position_size cfg balance ?adj entry ?rd atr_pct = Inr (psize, pct, amount)"
    and l: "rl_risk_amount levels' = amount"
    by (auto simp: step_position_sizing_def Let_def split: sum.splits prod.splits)
  from calculate_position_size_amount[OF c] obtain v where
    v: "1 / 2 \<le> v" "v \<le> 2" "amount = balance * (?adj * v / 100)" by blast
  have "rl_risk_amount levels' = balance * (risk_pct *
               (if rl_volatility_regime levels = ''extreme''
                then extreme_vol_size_reduction cfg else 1) * v / 100)"
    using l v(3) by simp
  with v(1,2) show ?thesis by blast
qed

lemma step_position_sizing_total:
  assumes "balance \<noteq> 0"
  shows "\<exists>l. step_position_sizing cfg levels entry atr atr_pct balance risk_pct = Inr l"
proof -
  let ?adj = "if rl_volatility_regime levels = regime_value EXTREME
              then risk_pct * extreme_vol_size_reduction cfg else risk_pct"
  let ?rd = "\<bar>entry - (case rl_stops levels of [] \<Rightarrow> entry - (atr * 2) | s # _ \<Rightarrow> s_price s)\<bar>"
  from calculate_position_size_total[OF assms] obtain r where
    "calculate_position_size cfg balance ?adj entry ?rd atr_pct = Inr r" by blast
  then show ?thesis
    by (cases r) (simp add: step_position_sizing_def Let_def)
qed

subsection \<open>The concrete frame: an extreme regime with a large ATR\<close>

lemma example_true_ranges:
  "true_ranges example_volatile_frame = replicate 86 1 @ replicate 14 10"
  by (simp add: example_volatile_frame_def eval_nat_numeral)

lemma example_atr:
  "calculate_atr example_volatile_frame 14 = 10"
  "calculate_atr example_volatile_frame 100 = 113 / 50"
  by (simp_all add: calculate_atr_def example_true_ranges py_last_n_def np_mean_def
      sum_list_replicate)

lemma example_regime:
  "detect_volatility_regime default_config example_volatile_frame
     (calculate_atr example_volatile_frame 14) = EXTREME"
  by (simp add: detect_volatility_regime_def example_atr default_config_def)
     (simp add: example_volatile_frame_def)

lemma example_extreme_sizing:
  "step_position_sizing default_config
     (example_levels\<lparr>rl_atr_current := 10, rl_atr_pct := 10,
                      rl_volatility_regime := regime_value EXTREME\<rparr>)
     100 10 10 10000 1
   = Inr (example_levels\<lparr>rl_atr_current := 10, rl_atr_pct := 10,
                      rl_volatility_regime := regime_value EXTREME,
                      rl_position_size := 5 / 2, rl_position_size_pct := 5 / 2,
                      rl_risk_amount := 10000 * (1 / 4 / 100)\<rparr>)"
  by (simp add: step_position_sizing_def calculate_position_size_def default_config_def
      example_levels_def Let_def)

lemma example_legacy_sizing:
  "legacy_calculate_position_size default_config example_setup 10 10
     = Inr (5, 5, 10000 * (1 / 2 / 100))"
  by (simp add: legacy_calculate_position_size_def default_config_def example_setup_def Let_def)

text \<open>Claim C1, as stated, fails in the extreme regime. On the concrete frame the regime is
  extreme and the ATR is 10, which is 10 percent of the entry price 100. Step 8 first multiplies
  the base risk of 1 percent by \<open>extreme_vol_size_reduction = 0.5\<close> and the volatility factor
  then halves it again: the risk amount on a balance of 10000 is 25, an effective risk of 0.25
  percent and a ratio of 0.25 to the base risk.\<close>

theorem extreme_regime_ratio_counterexample:
  "detect_volatility_regime default_config example_volatile_frame
     (calculate_atr example_volatile_frame 14) = EXTREME
   \<and> calculate_atr example_volatile_frame 14 = 10
   \<and> step_position_sizing default_config
       (example_levels\<lparr>rl_atr_current := 10, rl_atr_pct := 10,
                        rl_volatility_regime := regime_value EXTREME\<rparr>)
       100 10 10 10000 1
     = Inr (example_levels\<lparr>rl_atr_current := 10, rl_atr_pct := 10,
                        rl_volatility_regime := regime_value EXTREME,
                        rl_position_size := 5 / 2, rl_position_size_pct := 5 / 2,
                        rl_risk_amount := 10000 * (1 / 4 / 100)\<rparr>)"
  by (intro conjI) (rule example_regime example_atr(1) example_extreme_sizing)+

text \<open>Claim C1, as amended. The risk amount is the account balance times the effective risk
  percentage over 100, and the effective percentage is the base percentage times a volatility
  factor within [0.5, 2.0], times \<open>extreme_vol_size_reduction\<close> when the regime of
  \<^verbatim>\<open>risk_engine.py\<close> is extreme. So the ratio lies within [0.5, 2.0] in the low, normal and
  high regimes and in the engine of \<^verbatim>\<open>engine.py\<close>, which has no regime; in the extreme
  regime it lies within [0.5, 2.0] times the reduction. Both sizing functions return for every
  non-zero balance.\<close>

theorem risk_amount_ratio:
  "(step_position_sizing cfg levels entry atr atr_pct balance risk_pct = Inr levels' \<longrightarrow>
      (\<exists>v. 1 / 2 \<le> v \<and> v \<le> 2 \<and>
         rl_risk_amount levels' =
           balance * (risk_pct *
             (if rl_volatility_regime levels = ''extreme''
              then extreme_vol_size_reduction cfg else 1) * v / 100)))
   \<and> (balance \<noteq> 0 \<longrightarrow>
        (\<exists>l. step_position_sizing cfg levels entry atr atr_pct balance risk_pct = Inr l))
   \<and> (legacy_calculate_position_size lcfg setup risk_distance latr_pct
          = Inr (psize, pct, amount) \<longrightarrow>
        (\<exists>v. 1 / 2 \<le> v \<and> v \<le> 2 \<and>
           amount = ts_account_balance setup * (ts_risk_per_trade_pct setup * v / 100)))
   \<and> (ts_account_balance setup \<noteq> 0 \<longrightarrow>
        (\<exists>r. legacy_calculate_position_size lcfg setup risk_distance latr_pct = Inr r))"
proof (intro conjI impI)
  assume "step_position_sizing cfg levels entry atr atr_pct balance risk_pct = Inr levels'"
  then show "\<exists>v. 1 / 2 \<le> v \<and> v \<le> 2 \<and>
         rl_risk_amount levels' =
           balance * (risk_pct *
             (if rl_volatility_regime levels = ''extreme''
              then extreme_vol_size_reduction cfg else 1) * v / 100)"
    by (rule step_position_sizing_amount)
next
  assume "balance \<noteq> 0"
  then show "\<exists>l. step_position_sizing cfg levels entry atr atr_pct balance risk_pct = Inr l"
    by (rule step_position_sizing_total)
next
  assume "legacy_calculate_position_size lcfg setup risk_distance latr_pct
            = Inr (psize, pct, amount)"
  then show "\<exists>v. 1 / 2 \<le> v \<and> v \<le> 2 \<and>
           amount = ts_account_balance setup * (ts_risk_per_trade_pct setup * v / 100)"
    by (rule legacy_calculate_position_size_amount)
next
  assume "ts_account_balance setup \<noteq> 0"
  then show "\<exists>r. legacy_calculate_position_size lcfg setup risk_distance latr_pct = Inr r"
    by (rule legacy_calculate_position_size_total)
qed

text \<open>The theorem at the concrete inputs: the extreme call of \<^verbatim>\<open>risk_engine.py\<close> and a
  call of the legacy function.\<close>

theorem risk_amount_ratio_witness:
  "step_position_sizing default_config
       (example_levels\<lparr>rl_atr_current := 10, rl_atr_pct := 10,
                        rl_volatility_regime := regime_value EXTREME\<rparr>)
       100 10 10 10000 1
     = Inr (example_levels\<lparr>rl_atr_current := 10, rl_atr_pct := 10,
                        rl_volatility_regime := regime_value EXTREME,
                        rl_position_size := 5 / 2, rl_position_size_pct := 5 / 2,
                        rl_risk_amount := 10000 * (1 / 4 / 100)\<rparr>)
   \<and> (\<exists>v. 1 / 2 \<le> v \<and> v \<le> 2 \<and>
         (10000 * (1 / 4 / 100) :: real) = 10000 * (1 * (1 / 2) * v / 100))
   \<and> legacy_calculate_position_size default_config example_setup 10 10
     = Inr (5, 5, 10000 * (1 / 2 / 100))
   \<and> (\<exists>v. 1 / 2 \<le> v \<and> v \<le> 2 \<and>
         (10000 * (1 / 2 / 100) :: real) = 10000 * (1 * v / 100))"
proof -
  note t = risk_amount_ratio[of default_config
      "example_levels\<lparr>rl_atr_current := 10, rl_atr_pct := 10,
                        rl_volatility_regime := regime_value EXTREME\<rparr>"
      100 10 10 10000 1
      "example_levels\<lparr>rl_atr_current := 10, rl_atr_pct := 10,
                        rl_volatility_regime := regime_value EXTREME,
                        rl_position_size := 5 / 2, rl_position_size_pct := 5 / 2,
                        rl_risk_amount := 10000 * (1 / 4 / 100)\<rparr>"
      default_config example_setup 10 10 5 5 "10000 * (1 / 2 / 100)"]
  from t[THEN conjunct1] example_extreme_sizing
  have a: "\<exists>v. 1 / 2 \<le> v \<and> v \<le> 2 \<and>
         (10000 * (1 / 4 / 100) :: real) = 10000 * (1 * (1 / 2) * v / 100)"
    by (simp add: default_config_def)
  from t[THEN conjunct2, THEN conjunct2, THEN conjunct1] example_legacy_sizing
  have b: "\<exists>v. 1 / 2 \<le> v \<and> v \<le> 2 \<and>
         (10000 * (1 / 2 / 100) :: real) = 10000 * (1 * v / 100)"
    by (simp add: example_setup_def)
  from example_extreme_sizing a example_legacy_sizing b show ?thesis by blast
qed

end
